(* ===== verification/Prelude.thy ===== *)
theory Prelude
  imports Main "HOL-Library.Word"
begin

text \<open>
  Shared vocabulary of the development: the byte and integer types of the Rust code
  (\<open>u8\<close>, \<open>u64\<close>, byte vectors), the error values that stand for the \<open>Result\<close>
  errors and panics of \<^verbatim>\<open>src/tari_wallet_lib\<close>, the propagation of an error by the
  \<^verbatim>\<open>?\<close> operator (\<open>bind_res\<close>), the bytes of an ASCII \<^verbatim>\<open>&str\<close>
  (\<open>str_bytes\<close>) and the little-endian bytes of an unsigned integer (\<open>le_bytes\<close>,
  read back by \<open>le_val\<close>), with the generic lemmas the component theories share.
\<close>

named_theorems stream_simps "equations that give the bytes a hasher has absorbed"
named_theorems res_simps "equations that evaluate error propagation"

type_synonym u8 = "8 word"
type_synonym u64 = "64 word"
type_synonym u32 = "32 word"
type_synonym i64 = "64 word"
type_synonym bytes = "u8 list"

text \<open>
  The error kinds of the code. \<open>MalformedInput\<close> carries the name of the rejected input
  (a hex key, an address string); \<open>EncodingFault\<close> is the \<^verbatim>\<open>expect("encoding failed")\<close>
  panic of the hashers; \<open>SigningFailure\<close> the \<^verbatim>\<open>unwrap()\<close> panic after signing;
  \<open>IndexOutOfBounds\<close> a slice or array index panic; \<open>UnwrapFailed\<close> any other
  \<^verbatim>\<open>unwrap()\<close> of an error; \<open>BuilderMisuse\<close> a sequencing error of the
  transaction builder.
\<close>

datatype error =
    MalformedInput string
  | BuilderMisuse
  | EncodingFault
  | SigningFailure
  | IndexOutOfBounds
  | UnwrapFailed

type_synonym 'a res = "error + 'a"

text \<open>The \<^verbatim>\<open>?\<close> operator: an error is returned at once, a value is passed on.\<close>

definition bind_res :: "'a res \<Rightarrow> ('a \<Rightarrow> 'b res) \<Rightarrow> 'b res" where
  "bind_res r f = (case r of Inl e \<Rightarrow> Inl e | Inr x \<Rightarrow> f x)"

definition str_bytes :: "string \<Rightarrow> bytes" where
  "str_bytes s = map (\<lambda>c. word_of_nat (of_char c)) s"

text \<open>
  \<open>le_bytes k n\<close> is the \<open>k\<close>-byte little-endian representation of \<open>n mod 256 ^ k\<close>,
  as Rust's \<^verbatim>\<open>to_le_bytes\<close> lays an integer out; \<open>le_val\<close> reads such bytes back.
\<close>

fun le_bytes :: "nat \<Rightarrow> nat \<Rightarrow> bytes" where
  "le_bytes 0 n = []"
| "le_bytes (Suc k) n = word_of_nat (n mod 256) # le_bytes k (n div 256)"

fun le_val :: "bytes \<Rightarrow> nat" where
  "le_val [] = 0"
| "le_val (b # bs) = unat b + 256 * le_val bs"

definition u64_to_le_bytes :: "u64 \<Rightarrow> bytes" where
  "u64_to_le_bytes w = le_bytes 8 (unat w)"

subsection \<open>Error propagation\<close>

lemma bind_res_Inl [simp, res_simps]: "bind_res (Inl e) f = Inl e"
  by (simp add: bind_res_def)

lemma bind_res_Inr [simp, res_simps]: "bind_res (Inr x) f = f x"
  by (simp add: bind_res_def)

lemma bind_res_eq_Inr:
  "bind_res r f = Inr y \<longleftrightarrow> (\<exists>x. r = Inr x \<and> f x = Inr y)"
  by (cases r) auto

lemma bind_res_eq_Inl:
  "bind_res r f = Inl e \<longleftrightarrow> r = Inl e \<or> (\<exists>x. r = Inr x \<and> f x = Inl e)"
  by (cases r) auto

subsection \<open>Lists of options\<close>

lemma those_map_inverse:
  "(\<And>x. x \<in> set xs \<Longrightarrow> g (f x) = Some x) \<Longrightarrow> those (map (g \<circ> f) xs) = Some xs"
  by (induction xs) auto

subsection \<open>Bytes of strings\<close>

lemma length_str_bytes [simp]: "length (str_bytes s) = length s"
  by (simp add: str_bytes_def)

lemma str_bytes_append [simp]: "str_bytes (s @ t) = str_bytes s @ str_bytes t"
  by (simp add: str_bytes_def)

lemma str_bytes_Nil [simp]: "str_bytes [] = []"
  by (simp add: str_bytes_def)

lemma str_bytes_eq_Nil [simp]: "str_bytes s = [] \<longleftrightarrow> s = []"
  by (simp add: str_bytes_def)

lemma unat_char_byte: "unat (word_of_nat (of_char c) :: u8) = of_char c"
proof -
  have "of_char c < (256::nat)" by (rule nat_of_char_less_256)
  then show ?thesis by (simp add: unat_of_nat)
qed

lemma char_byte_inj: "(word_of_nat (of_char c) :: u8) = word_of_nat (of_char d) \<longleftrightarrow> c = d"
  by (metis unat_char_byte of_char_eq_iff)

lemma str_bytes_inj [simp]: "str_bytes s = str_bytes t \<longleftrightarrow> s = t"
proof
  assume "str_bytes s = str_bytes t"
  then show "s = t"
  proof (induction s arbitrary: t)
    case Nil
    then show ?case by (simp add: str_bytes_def)
  next
    case (Cons c s)
    then obtain d t' where "t = d # t'"
      by (cases t) (auto simp: str_bytes_def)
    with Cons show ?case by (auto simp: str_bytes_def char_byte_inj)
  qed
qed simp

subsection \<open>Little-endian integers\<close>

lemma length_le_bytes [simp]: "length (le_bytes k n) = k"
  by (induction k arbitrary: n) auto

lemma le_val_le_bytes: "le_val (le_bytes k n) = n mod 256 ^ k"
proof (induction k arbitrary: n)
  case 0
  then show ?case by simp
next
  case (Suc k)
  have "unat (word_of_nat (n mod 256) :: u8) = n mod 256"
    by (simp add: unat_of_nat)
  with Suc show ?case
    by (simp add: mod_mult2_eq ac_simps)
qed

lemma length_u64_to_le_bytes [simp]: "length (u64_to_le_bytes w) = 8"
  by (simp add: u64_to_le_bytes_def)

lemma le_val_u64_to_le_bytes: "le_val (u64_to_le_bytes w) = unat w"
proof -
  have "unat w < 256 ^ 8"
    using unsigned_less [of w, where ?'a = nat] by simp
  then show ?thesis
    by (simp add: u64_to_le_bytes_def le_val_le_bytes)
qed

lemma u64_to_le_bytes_inj: "u64_to_le_bytes v = u64_to_le_bytes w \<longleftrightarrow> v = w"
  by (metis le_val_u64_to_le_bytes word_unat_eq_iff)

text \<open>
  A \<open>usize\<close> length cast with \<^verbatim>\<open>as u64\<close>: the cast keeps the value below
  \<open>2 ^ 64\<close>, so two such lengths with equal little-endian bytes are equal.
\<close>

lemma u64_len_bytes_inj:
  assumes "m < 2 ^ 64" and "n < 2 ^ 64"
    and "u64_to_le_bytes (word_of_nat m) = u64_to_le_bytes (word_of_nat n)"
  shows "m = n"
proof -
  from assms(3) have "unat (word_of_nat m :: u64) = unat (word_of_nat n :: u64)"
    by (simp add: u64_to_le_bytes_inj)
  with assms(1,2) show ?thesis by (simp add: unat_of_nat)
qed

lemma le_bytes_zero: "le_bytes k 0 = replicate k 0"
  by (induction k) simp_all

lemma replicate_7_0: "replicate 7 (0::u8) = [0, 0, 0, 0, 0, 0, 0]"
  by (simp add: numeral_eq_Suc)

lemma u64_to_le_bytes_small:
  assumes "n < 256"
  shows "u64_to_le_bytes (word_of_nat n) = [word_of_nat n, 0, 0, 0, 0, 0, 0, 0]"
proof -
  have "unat (word_of_nat n :: u64) = n" using assms by (simp add: unat_of_nat)
  moreover have "le_bytes 8 n = word_of_nat (n mod 256) # le_bytes 7 (n div 256)"
    using le_bytes.simps(2) [of 7 n] by simp
  ultimately show ?thesis using assms
    by (simp add: u64_to_le_bytes_def le_bytes_zero replicate_7_0)
qed

end
