(* ===== verification/Encoding.thy ===== *)
theory Encoding
  imports Prelude
begin

text \<open>
  How a value reaches a hasher in \<^verbatim>\<open>src/tari_wallet_lib/src/hashing.rs\<close>:
  \<^verbatim>\<open>update\<close> calls \<^verbatim>\<open>encode_into(data, &mut self.hash_writer())\<close>, which serialises
  the value (tari_bor, a CBOR encoding), hands the bytes to the \<^verbatim>\<open>HashWriter\<close>
  through \<^verbatim>\<open>Write::write_all\<close> and flushes it. \<^verbatim>\<open>HashWriter::write\<close> feeds the whole buffer to the
  Blake2b state and reports its length; \<^verbatim>\<open>write_all\<close> (the standard library's loop)
  repeats until the buffer is consumed, retries an interrupted write, and fails on a write
  of zero bytes; it is a partial function over any writer, shown to return on the
  hashers' writers.

  A serialiser is a parameter (an \<open>'v encoder\<close>, \<open>None\<close> when serialisation fails):
  the encoding of the values the code hashes is external. The lemmas show that the writer
  never fails, so \<^verbatim>\<open>encode_into\<close> fails exactly when the serialiser does, and
  appends exactly the serialised bytes. A serialiser is \<open>self_delimiting\<close> when an
  encoding followed by anything determines both the value and what follows; CBOR data
  items are. \<open>cbor_bytes\<close>, the CBOR encoding of a byte string (major type 2), is an
  instance: its decoder reads back the value and the rest of the stream.
\<close>

type_synonym 'v encoder = "'v \<Rightarrow> bytes option"

text \<open>
  A \<^verbatim>\<open>Write\<close> implementation as a function of its state and a buffer: the new state
  and the \<^verbatim>\<open>io::Result<usize>\<close> of \<^verbatim>\<open>write\<close> (\<open>Written n\<close> is \<^verbatim>\<open>Ok(n)\<close>,
  \<open>Interrupted\<close> an error of kind \<^verbatim>\<open>Interrupted\<close>, \<open>IoError\<close> any other error).
\<close>

datatype io_result = Written nat | Interrupted | IoError

type_synonym 's writer = "'s \<Rightarrow> bytes \<Rightarrow> 's \<times> io_result"

definition hash_writer_write :: "bytes writer" where
  "hash_writer_write st buf = (st @ buf, Written (length buf))"

definition hash_writer64_write :: "bytes writer" where
  "hash_writer64_write st buf = (st @ buf, Written (length buf))"

text \<open>
  \<^verbatim>\<open>Write::flush\<close> as a function of the writer's state: the new state and whether
  the \<^verbatim>\<open>io::Result<()>\<close> of the call is \<^verbatim>\<open>Ok(())\<close>. The hash writers have
  nothing to flush.
\<close>

type_synonym 's flusher = "'s \<Rightarrow> 's \<times> bool"

definition hash_writer_flush :: "bytes flusher" where
  "hash_writer_flush st = (st, True)"

definition hash_writer64_flush :: "bytes flusher" where
  "hash_writer64_flush st = (st, True)"

text \<open>
  The standard library's \<^verbatim>\<open>Write::write_all\<close>: while the buffer is not empty, write;
  \<^verbatim>\<open>Ok(0)\<close> is the error \<^verbatim>\<open>WriteZero\<close>, \<^verbatim>\<open>Ok(n)\<close> drops \<open>n\<close> bytes (the slice
  \<^verbatim>\<open>&buf[n..]\<close> panics when \<open>n\<close> exceeds the buffer), an interrupted write is retried,
  any other error is returned. The loop has no termination argument of its own (a writer
  that is always interrupted keeps it running), so it is a \<open>partial_function (option)\<close>:
  \<open>None\<close> is "does not return". \<^verbatim>\<open>encode_into\<close> (tari_bor over ciborium's
  \<^verbatim>\<open>into_writer\<close>) writes the serialised bytes with \<^verbatim>\<open>write_all\<close> and then
  flushes the writer; an error of either turns into the \<^verbatim>\<open>expect("encoding failed")\<close>
  panic, \<open>EncodingFault\<close>, a panic of the loop stays what it is. It is only applied to
  the hashers' writers, on which the loop returns (\<open>write_all_hash_writer\<close>), so its
  \<open>None\<close> branch is never taken. (ciborium writes an item in pieces, head and payload;
  \<open>write_all\<close> of their concatenation appends the same bytes to every writer that
  never fails, the hash writers included.)
\<close>

partial_function (option) write_all :: "'s writer \<Rightarrow> 's \<Rightarrow> bytes \<Rightarrow> 's res option" where
  "write_all w st buf =
     (if buf = [] then Some (Inr st)
      else (case w st buf of
              (st', Written n) \<Rightarrow>
                if n = 0 then Some (Inl EncodingFault)
                else if length buf < n then Some (Inl IndexOutOfBounds)
                else write_all w st' (drop n buf)
            | (st', Interrupted) \<Rightarrow> write_all w st' buf
            | (st', IoError) \<Rightarrow> Some (Inl EncodingFault)))"

definition encode_into :: "'v encoder \<Rightarrow> 's writer \<Rightarrow> 's flusher \<Rightarrow> 'v \<Rightarrow> 's \<Rightarrow> 's res" where
  "encode_into enc w fl v st =
     (case enc v of
        None \<Rightarrow> Inl EncodingFault
      | Some bs \<Rightarrow>
          (case write_all w st bs of
             Some (Inr st') \<Rightarrow> (case fl st' of (st'', ok) \<Rightarrow> if ok then Inr st'' else Inl EncodingFault)
           | Some (Inl e) \<Rightarrow> Inl e
           | None \<Rightarrow> Inl EncodingFault))"

definition never_interrupted :: "'s writer \<Rightarrow> bool" where
  "never_interrupted w \<longleftrightarrow> (\<forall>st buf. snd (w st buf) \<noteq> Interrupted)"

definition encoder_total :: "'v encoder \<Rightarrow> bool" where
  "encoder_total enc \<longleftrightarrow> (\<forall>v. enc v \<noteq> None)"

definition self_delimiting :: "'v encoder \<Rightarrow> bool" where
  "self_delimiting enc \<longleftrightarrow>
     (\<forall>v w a b xs ys. enc v = Some a \<longrightarrow> enc w = Some b \<longrightarrow> a @ xs = b @ ys \<longrightarrow> v = w \<and> xs = ys)"

subsection \<open>CBOR byte strings\<close>

text \<open>
  The head of a CBOR data item: the major type in the top three bits, the argument in
  the low five bits when below 24, otherwise in the 1, 2, 4 or 8 big-endian bytes that
  follow (additional information 24 to 27).
\<close>

definition initial_byte :: "nat \<Rightarrow> nat \<Rightarrow> u8" where
  "initial_byte major info = word_of_nat (32 * major + info)"

definition cbor_head :: "nat \<Rightarrow> u64 \<Rightarrow> bytes" where
  "cbor_head major n =
     (if n < 24 then [initial_byte major (unat n)]
      else if n < 256 then initial_byte major 24 # rev (le_bytes 1 (unat n))
      else if n < 65536 then initial_byte major 25 # rev (le_bytes 2 (unat n))
      else if n < 4294967296 then initial_byte major 26 # rev (le_bytes 4 (unat n))
      else initial_byte major 27 # rev (le_bytes 8 (unat n)))"

definition cbor_bytes :: "bytes encoder" where
  "cbor_bytes bs =
     (if length bs < 2 ^ 64 then Some (cbor_head 2 (word_of_nat (length bs)) @ bs) else None)"

definition cbor_arg :: "nat \<Rightarrow> bytes \<Rightarrow> (nat \<times> bytes) option" where
  "cbor_arg k rest = (if k \<le> length rest then Some (le_val (rev (take k rest)), drop k rest) else None)"

definition cbor_decode_head :: "bytes \<Rightarrow> (nat \<times> nat \<times> bytes) option" where
  "cbor_decode_head bs =
     (case bs of
        [] \<Rightarrow> None
      | h # rest \<Rightarrow>
          (let major = unat h div 32; info = unat h mod 32 in
           if info < 24 then Some (major, info, rest)
           else map_option (\<lambda>(n, r). (major, n, r))
             (if info = 24 then cbor_arg 1 rest
              else if info = 25 then cbor_arg 2 rest
              else if info = 26 then cbor_arg 4 rest
              else if info = 27 then cbor_arg 8 rest
              else None)))"

definition cbor_decode_bytes :: "bytes \<Rightarrow> (bytes \<times> bytes) option" where
  "cbor_decode_bytes bs =
     (case cbor_decode_head bs of
        Some (major, n, rest) \<Rightarrow>
          if major = 2 \<and> n \<le> length rest then Some (take n rest, drop n rest) else None
      | None \<Rightarrow> None)"

subsection \<open>The write loop; the writer never fails; CBOR byte strings are self-delimiting\<close>

lemma hash_writer64_write_eq: "hash_writer64_write = hash_writer_write"
  by (simp add: fun_eq_iff hash_writer64_write_def hash_writer_write_def)

lemma write_all_hash_writer: "write_all hash_writer_write st buf = Some (Inr (st @ buf))"
proof (cases "buf = []")
  case True
  then show ?thesis by (simp add: write_all.simps [of _ st "[]"])
next
  case False
  have "write_all hash_writer_write (st @ buf) [] = Some (Inr (st @ buf))"
    by (simp add: write_all.simps [of _ _ "[]"])
  with False show ?thesis by (simp add: write_all.simps [of _ st buf] hash_writer_write_def)
qed

lemma write_all_returns:
  assumes "never_interrupted w"
  shows "\<exists>r. write_all w st buf = Some r"
proof (induction "length buf" arbitrary: st buf rule: less_induct)
  case less
  show ?case
  proof (cases "buf = []")
    case True
    then show ?thesis by (simp add: write_all.simps [of w st "[]"])
  next
    case False
    obtain st' r where w: "w st buf = (st', r)" by fastforce
    have "r \<noteq> Interrupted" using assms w unfolding never_interrupted_def by (metis snd_conv)
    then show ?thesis
    proof (cases r)
      case (Written n)
      consider "n = 0" | "0 < n" "length buf < n" | "0 < n" "\<not> length buf < n" by linarith
      then show ?thesis
      proof cases
        case 1
        with False w Written show ?thesis by (simp add: write_all.simps [of w st buf])
      next
        case 2
        with False w Written show ?thesis by (simp add: write_all.simps [of w st buf])
      next
        case 3
        then have "length (drop n buf) < length buf" using False by simp
        then obtain r' where "write_all w st' (drop n buf) = Some r'" using less by blast
        with False w Written 3 show ?thesis by (simp add: write_all.simps [of w st buf])
      qed
    next
      case IoError
      with False w show ?thesis by (simp add: write_all.simps [of w st buf])
    qed simp
  qed
qed

lemma write_all_returns_interrupted:
  assumes ret: "write_all w st buf = Some r"
  shows "w = (\<lambda>st buf. (st, Interrupted)) \<longrightarrow> buf = []"
proof (rule write_all.raw_induct [where P = "\<lambda>w st buf r. w = (\<lambda>st buf. (st, Interrupted)) \<longrightarrow> buf = []",
      OF _ ret])
  fix f :: "'a writer \<Rightarrow> 'a \<Rightarrow> bytes \<Rightarrow> 'a res option" and w st buf r
  assume IH: "\<And>w st buf r. f w st buf = Some r \<Longrightarrow> w = (\<lambda>st buf. (st, Interrupted)) \<longrightarrow> buf = []"
    and eq: "(if buf = [] then Some (Inr st)
       else case w st buf of
         (st', Written n) \<Rightarrow>
           if n = 0 then Some (Inl EncodingFault)
           else if length buf < n then Some (Inl IndexOutOfBounds) else f w st' (drop n buf)
       | (st', Interrupted) \<Rightarrow> f w st' buf
       | (st', IoError) \<Rightarrow> Some (Inl EncodingFault)) = Some r"
  show "w = (\<lambda>st buf. (st, Interrupted)) \<longrightarrow> buf = []"
  proof
    assume w: "w = (\<lambda>st buf. (st, Interrupted))"
    show "buf = []"
    proof (rule ccontr)
      assume "buf \<noteq> []"
      with eq w have "f w st buf = Some r" by simp
      with IH w \<open>buf \<noteq> []\<close> show False by blast
    qed
  qed
qed

lemma write_all_always_interrupted:
  "buf \<noteq> [] \<Longrightarrow> write_all (\<lambda>st buf. (st, Interrupted)) st buf = None"
proof (rule ccontr)
  assume "buf \<noteq> []" and "write_all (\<lambda>st buf. (st, Interrupted)) st buf \<noteq> None"
  then obtain r where r: "write_all (\<lambda>st buf. (st, Interrupted)) st buf = Some r" by blast
  have "buf = []" using write_all_returns_interrupted [OF r] by simp
  with \<open>buf \<noteq> []\<close> show False by simp
qed

lemma encoder_totalD: "encoder_total enc \<Longrightarrow> enc v = None \<Longrightarrow> False"
  unfolding encoder_total_def by blast

lemma encoder_totalE:
  assumes "encoder_total enc"
  obtains e where "enc v = Some e"
  using encoder_totalD [OF assms, of v] by (cases "enc v") auto

lemma head_byte_fields:
  assumes "major < 8" and "i < 32"
  shows "unat (initial_byte major i) div 32 = major \<and> unat (initial_byte major i) mod 32 = i"
proof -
  have "32 * major + i < 256" using assms by linarith
  then have "unat (initial_byte major i) = 32 * major + i"
    unfolding initial_byte_def unat_of_nat by simp
  with assms(2) show ?thesis by simp
qed

lemma cbor_arg_le_bytes:
  "x < 256 ^ k \<Longrightarrow> cbor_arg k (rev (le_bytes k x) @ rest) = Some (x, rest)"
  by (simp add: cbor_arg_def le_val_le_bytes)

lemma cbor_decode_head_cbor_head:
  assumes "major < 8"
  shows "cbor_decode_head (cbor_head major n @ rest) = Some (major, unat n, rest)"
proof -
  have u: "unat n < 2 ^ 64" using unsigned_less [of n, where ?'a = nat] by simp
  note hb = head_byte_fields [OF assms]
  consider "n < 24" | "\<not> n < 24" "n < 256" | "\<not> n < 256" "n < 65536"
    | "\<not> n < 65536" "n < 4294967296" | "\<not> n < 4294967296" by linarith
  then show ?thesis
  proof cases
    case 1
    then have "unat n < 24" by (simp add: word_less_nat_alt)
    then show ?thesis using hb [of "unat n"] 1 by (simp add: cbor_head_def cbor_decode_head_def Let_def word_less_nat_alt)
  next
    case 2
    then have "unat n < 256 ^ 1" by (simp add: word_less_nat_alt)
    then show ?thesis using hb [of 24] 2
      by (simp add: cbor_head_def cbor_decode_head_def Let_def cbor_arg_le_bytes word_less_nat_alt del: le_bytes.simps)
  next
    case 3
    then have "unat n < 256 ^ 2" by (simp add: word_less_nat_alt)
    then show ?thesis using hb [of 25] 3
      by (simp add: cbor_head_def cbor_decode_head_def Let_def cbor_arg_le_bytes word_less_nat_alt del: le_bytes.simps)
  next
    case 4
    then have "unat n < 256 ^ 4" by (simp add: word_less_nat_alt)
    then show ?thesis using hb [of 26] 4
      by (simp add: cbor_head_def cbor_decode_head_def Let_def cbor_arg_le_bytes word_less_nat_alt del: le_bytes.simps)
  next
    case 5
    have "unat n < 256 ^ 8" using u by simp
    then show ?thesis using hb [of 27] 5
      by (simp add: cbor_head_def cbor_decode_head_def Let_def cbor_arg_le_bytes word_less_nat_alt del: le_bytes.simps)
  qed
qed

lemma hash_writer64_flush_eq: "hash_writer64_flush = hash_writer_flush"
  by (simp add: fun_eq_iff hash_writer64_flush_def hash_writer_flush_def)

lemma encode_into_eq:
  "encode_into enc hash_writer_write hash_writer_flush v st
     = (case enc v of None \<Rightarrow> Inl EncodingFault | Some bs \<Rightarrow> Inr (st @ bs))"
  by (simp add: encode_into_def write_all_hash_writer hash_writer_flush_def split: option.split)

lemma cbor_bytes_roundtrip:
  assumes "cbor_bytes bs = Some e"
  shows "cbor_decode_bytes (e @ rest) = Some (bs, rest)"
proof -
  from assms have len: "length bs < 2 ^ 64" and e: "e = cbor_head 2 (word_of_nat (length bs)) @ bs"
    by (auto simp: cbor_bytes_def split: if_splits)
  from len have "unat (word_of_nat (length bs) :: u64) = length bs"
    by (simp add: unat_of_nat)
  then show ?thesis
    by (simp add: e cbor_decode_bytes_def cbor_decode_head_cbor_head)
qed

lemma self_delimiting_cbor_bytes: "self_delimiting cbor_bytes"
  unfolding self_delimiting_def
proof (intro allI impI)
  fix v w a b xs ys
  assume a: "cbor_bytes v = Some a" and b: "cbor_bytes w = Some b" and eq: "a @ xs = b @ ys"
  have "cbor_decode_bytes (a @ xs) = Some (v, xs)" using a by (rule cbor_bytes_roundtrip)
  moreover have "cbor_decode_bytes (b @ ys) = Some (w, ys)" using b by (rule cbor_bytes_roundtrip)
  ultimately show "v = w \<and> xs = ys" using eq by simp
qed

lemma cbor_bytes_32: "length bs = 32 \<Longrightarrow> cbor_bytes bs = Some ([88, 32] @ bs)"
  by (simp add: cbor_bytes_def cbor_head_def initial_byte_def)

text \<open>C20. The write_all loop over the HashWriter of TariHasher32 and of TariHasher64 returns, after one write, having absorbed exactly the buffer: the loop, which diverges for a writer that is always interrupted, terminates on the writers the hashers use.\<close>

lemma hash_writers_terminate:
  "write_all hash_writer_write st buf = Some (Inr (st @ buf))
   \<and> write_all hash_writer64_write st buf = Some (Inr (st @ buf))"
proof -
  have "hash_writer64_write = hash_writer_write"
    by (simp add: fun_eq_iff hash_writer64_write_def hash_writer_write_def)
  then show ?thesis using write_all_hash_writer by simp
qed

end
