(* ===== verification/Cbor.thy ===== *)
theory Cbor
  imports Encoding
begin

text \<open>
  CBOR data items, the encoding tari_bor gives to every value the hashers absorb. A value
  is first mapped to an item (\<open>cbor\<close>: unsigned and negative integers, byte and text
  strings, arrays, maps and null, as serde's data model reaches them) and the item is
  written by \<open>cbor_encode\<close>: a head (major type and argument, \<open>cbor_head\<close>) followed
  by the payload or the encoded elements. Lengths and integers must fit the 64-bit argument
  (\<open>cbor_wf\<close>); the serialiser built from a value-to-item map fails (\<open>None\<close>) otherwise.

  The decoder \<open>cbor_decode_items\<close> reads a given number of items, with a fuel bound
  on nesting so that it is a total function (lexicographic on fuel and count). Its round
  trip with the encoder shows that every serialiser that maps values injectively to items
  is self-delimiting, the hypothesis of the collision theorems of the hashers; the CBOR
  byte-string encoder \<open>cbor_bytes\<close> is the instance for byte strings.
\<close>

datatype cbor =
    CUInt nat
  | CNInt nat
  | CBytes bytes
  | CText string
  | CArray "cbor list"
  | CMap "(cbor \<times> cbor) list"
  | CNull

fun cbor_encode :: "cbor \<Rightarrow> bytes" where
  "cbor_encode (CUInt n) = cbor_head 0 (word_of_nat n)"
| "cbor_encode (CNInt n) = cbor_head 1 (word_of_nat n)"
| "cbor_encode (CBytes bs) = cbor_head 2 (word_of_nat (length bs)) @ bs"
| "cbor_encode (CText s) = cbor_head 3 (word_of_nat (length s)) @ str_bytes s"
| "cbor_encode (CArray xs) = cbor_head 4 (word_of_nat (length xs)) @ concat (map cbor_encode xs)"
| "cbor_encode (CMap kvs) =
     cbor_head 5 (word_of_nat (length kvs)) @ concat (map (\<lambda>(k, v). cbor_encode k @ cbor_encode v) kvs)"
| "cbor_encode CNull = [246]"

fun cbor_wf :: "cbor \<Rightarrow> bool" where
  "cbor_wf (CUInt n) \<longleftrightarrow> n < 2 ^ 64"
| "cbor_wf (CNInt n) \<longleftrightarrow> n < 2 ^ 64"
| "cbor_wf (CBytes bs) \<longleftrightarrow> length bs < 2 ^ 64"
| "cbor_wf (CText s) \<longleftrightarrow> length s < 2 ^ 64"
| "cbor_wf (CArray xs) \<longleftrightarrow> length xs < 2 ^ 64 \<and> (\<forall>x\<in>set xs. cbor_wf x)"
| "cbor_wf (CMap kvs) \<longleftrightarrow> length kvs < 2 ^ 64 \<and> (\<forall>(k, v)\<in>set kvs. cbor_wf k \<and> cbor_wf v)"
| "cbor_wf CNull \<longleftrightarrow> True"

definition max_list :: "nat list \<Rightarrow> nat" where
  "max_list xs = foldr max xs 0"

fun cbor_depth :: "cbor \<Rightarrow> nat" where
  "cbor_depth (CArray xs) = Suc (max_list (map cbor_depth xs))"
| "cbor_depth (CMap kvs) = Suc (max_list (map (\<lambda>(k, v). max (cbor_depth k) (cbor_depth v)) kvs))"
| "cbor_depth _ = 0"

fun pairs :: "'a list \<Rightarrow> ('a \<times> 'a) list" where
  "pairs (a # b # xs) = (a, b) # pairs xs"
| "pairs _ = []"

definition flat_pairs :: "('a \<times> 'a) list \<Rightarrow> 'a list" where
  "flat_pairs kvs = concat (map (\<lambda>(k, v). [k, v]) kvs)"

fun cbor_decode_items :: "nat \<Rightarrow> nat \<Rightarrow> bytes \<Rightarrow> (cbor list \<times> bytes) option" where
  "cbor_decode_items f 0 bs = Some ([], bs)"
| "cbor_decode_items 0 (Suc k) bs = None"
| "cbor_decode_items (Suc f) (Suc k) bs =
     (case cbor_decode_head bs of
        None \<Rightarrow> None
      | Some (major, n, rest) \<Rightarrow>
          (case (if major = 0 then Some (CUInt n, rest)
                 else if major = 1 then Some (CNInt n, rest)
                 else if major = 2 then
                   (if n \<le> length rest then Some (CBytes (take n rest), drop n rest) else None)
                 else if major = 3 then
                   (if n \<le> length rest
                    then Some (CText (map (\<lambda>b. char_of (unat b)) (take n rest)), drop n rest) else None)
                 else if major = 4 then map_option (\<lambda>(xs, r). (CArray xs, r)) (cbor_decode_items f n rest)
                 else if major = 5 then
                   map_option (\<lambda>(xs, r). (CMap (pairs xs), r)) (cbor_decode_items f (2 * n) rest)
                 else if major = 7 \<and> n = 22 then Some (CNull, rest)
                 else None) of
             None \<Rightarrow> None
           | Some (x, r) \<Rightarrow> map_option (\<lambda>(xs, r'). (x # xs, r')) (cbor_decode_items (Suc f) k r)))"

definition cbor_decode :: "bytes \<Rightarrow> cbor option" where
  "cbor_decode bs =
     (case cbor_decode_items (Suc (length bs)) 1 bs of Some ([x], []) \<Rightarrow> Some x | _ \<Rightarrow> None)"

text \<open>serde's external tagging of an enum variant: a one-entry map from its name.\<close>

definition cbor_variant :: "string \<Rightarrow> cbor \<Rightarrow> cbor" where
  "cbor_variant name v = CMap [(CText name, v)]"

definition cbor_serialiser :: "('v \<Rightarrow> cbor) \<Rightarrow> 'v encoder" where
  "cbor_serialiser f v = (if cbor_wf (f v) then Some (cbor_encode (f v)) else None)"

subsection \<open>The decoder reads back what the encoder writes\<close>

lemma cbor_head_decode:
  "major < 8 \<Longrightarrow> n < 2 ^ 64 \<Longrightarrow>
   cbor_decode_head (cbor_head major (word_of_nat n) @ rest) = Some (major, n, rest)"
  using cbor_decode_head_cbor_head [of major "word_of_nat n" rest] by (simp add: unat_of_nat)

lemma cbor_decode_head_null: "cbor_decode_head (246 # rest) = Some (7, 22, rest)"
  by (simp add: cbor_decode_head_def)

lemma str_bytes_decode: "map (\<lambda>b. char_of (unat b)) (str_bytes s) = s"
  by (induction s) (simp_all add: str_bytes_def unat_char_byte)

lemma pairs_flat_pairs [simp]: "pairs (flat_pairs kvs) = kvs"
  by (induction kvs) (auto simp: flat_pairs_def)

lemma length_flat_pairs [simp]: "length (flat_pairs kvs) = 2 * length kvs"
  by (induction kvs) (auto simp: flat_pairs_def)

lemma set_flat_pairs: "x \<in> set (flat_pairs kvs) \<longleftrightarrow> (\<exists>(k, v)\<in>set kvs. x = k \<or> x = v)"
  by (induction kvs) (auto simp: flat_pairs_def)

lemma cbor_encode_CMap_flat:
  "cbor_encode (CMap kvs) = cbor_head 5 (word_of_nat (length kvs)) @ concat (map cbor_encode (flat_pairs kvs))"
  by (induction kvs) (auto simp: flat_pairs_def)

lemma max_list_member: "x \<in> set xs \<Longrightarrow> x \<le> max_list xs"
  by (induction xs) (auto simp: max_list_def)

lemma max_list_concat:
  "(\<forall>x\<in>set xs. f x \<le> length (g x)) \<Longrightarrow> max_list (map f xs) \<le> length (concat (map g xs))"
  by (induction xs) (auto simp: max_list_def)

lemma max_list_flat_pairs:
  "max_list (map (\<lambda>(k, v). max (f k) (f v)) kvs) = max_list (map f (flat_pairs kvs))"
  by (induction kvs) (auto simp: max_list_def flat_pairs_def)

lemma cbor_depth_CMap_flat: "cbor_depth (CMap kvs) = Suc (max_list (map cbor_depth (flat_pairs kvs)))"
  by (simp add: max_list_flat_pairs)

lemma cbor_depth_member: "y \<in> set xs \<Longrightarrow> cbor_depth y < Suc (max_list (map cbor_depth xs))"
  using max_list_member [of "cbor_depth y" "map cbor_depth xs"] by simp

lemma length_cbor_head: "0 < length (cbor_head major n)"
  by (simp add: cbor_head_def)

lemma cbor_depth_length: "cbor_depth x \<le> length (cbor_encode x)"
proof (induction x)
  case (CArray xs)
  have "max_list (map cbor_depth xs) \<le> length (concat (map cbor_encode xs))"
    using CArray.IH by (intro max_list_concat) auto
  moreover have "0 < length (cbor_head 4 (word_of_nat (length xs)))" by (rule length_cbor_head)
  ultimately show ?case by (simp only: cbor_depth.simps cbor_encode.simps length_append)
next
  case (CMap kvs)
  have "\<forall>y\<in>set (flat_pairs kvs). cbor_depth y \<le> length (cbor_encode y)"
    using CMap.IH by (fastforce simp: set_flat_pairs)
  then have "max_list (map cbor_depth (flat_pairs kvs)) \<le> length (concat (map cbor_encode (flat_pairs kvs)))"
    by (rule max_list_concat)
  moreover have "0 < length (cbor_head 5 (word_of_nat (length kvs)))" by (rule length_cbor_head)
  ultimately show ?case by (simp only: cbor_depth_CMap_flat cbor_encode_CMap_flat length_append)
qed simp_all

lemma flat_pairs_all: "y \<in> set (flat_pairs kvs) \<Longrightarrow> \<forall>(k, v)\<in>set kvs. P k \<and> P v \<Longrightarrow> P y"
  by (induction kvs) (auto simp: flat_pairs_def)

lemma cbor_decode_items_concat:
  assumes one: "\<And>x k rest. x \<in> set xs \<Longrightarrow>
      cbor_decode_items f (Suc k) (cbor_encode x @ rest) = map_option (\<lambda>(ys, r). (x # ys, r)) (cbor_decode_items f k rest)"
  shows "cbor_decode_items f (length xs + k) (concat (map cbor_encode xs) @ rest)
       = map_option (\<lambda>(ys, r). (xs @ ys, r)) (cbor_decode_items f k rest)"
  using one
proof (induction xs arbitrary: k rest)
  case Nil
  then show ?case by (simp add: option.map_ident case_prod_beta)
next
  case (Cons x xs)
  have ih: "\<And>k' rest'. cbor_decode_items f (length xs + k') (concat (map cbor_encode xs) @ rest')
      = map_option (\<lambda>(ys, r). (xs @ ys, r)) (cbor_decode_items f k' rest')"
    by (rule Cons.IH) (simp add: Cons.prems)
  have "cbor_decode_items f (length (x # xs) + k) (concat (map cbor_encode (x # xs)) @ rest)
      = map_option (\<lambda>(ys, r). (x # ys, r)) (cbor_decode_items f (length xs + k) (concat (map cbor_encode xs) @ rest))"
    using Cons.prems [of x] by simp
  also have "\<dots> = map_option (\<lambda>(ys, r). ((x # xs) @ ys, r)) (cbor_decode_items f k rest)"
    using ih by (cases "cbor_decode_items f k rest") auto
  finally show ?case .
qed

lemma cbor_decode_items_nil: "cbor_decode_items f 0 rest = Some ([], rest)"
  by (cases f) simp_all

lemma cbor_decode_items_all:
  assumes "\<And>x k rest. x \<in> set xs \<Longrightarrow>
      cbor_decode_items f (Suc k) (cbor_encode x @ rest) = map_option (\<lambda>(ys, r). (x # ys, r)) (cbor_decode_items f k rest)"
  shows "cbor_decode_items f (length xs) (concat (map cbor_encode xs) @ rest) = Some (xs, rest)"
  using cbor_decode_items_concat [of xs f 0 rest, OF assms] by (simp add: cbor_decode_items_nil)

lemma cbor_roundtrip_item:
  "cbor_wf x \<Longrightarrow> cbor_depth x < f \<Longrightarrow>
   cbor_decode_items f (Suc k) (cbor_encode x @ rest) = map_option (\<lambda>(ys, r). (x # ys, r)) (cbor_decode_items f k rest)"
proof (induction x arbitrary: f k rest)
  case (CArray xs)
  then obtain f' where f: "f = Suc f'" by (cases f) auto
  have "\<And>y. y \<in> set xs \<Longrightarrow> cbor_depth y < f'"
    using CArray.prems f cbor_depth_member [of _ xs] by fastforce
  then have "cbor_decode_items f' (length xs) (concat (map cbor_encode xs) @ rest) = Some (xs, rest)"
    using CArray by (intro cbor_decode_items_all) auto
  then show ?case using CArray.prems by (simp add: f cbor_head_decode)
next
  case (CMap kvs)
  then obtain f' where f: "f = Suc f'" by (cases f) auto
  have d: "Suc (max_list (map cbor_depth (flat_pairs kvs))) < Suc f'"
    using CMap.prems(2) f by (simp only: cbor_depth_CMap_flat)
  have w: "\<forall>(k, v)\<in>set kvs. cbor_wf k \<and> cbor_wf v" using CMap.prems(1) by simp
  have bnd: "cbor_depth y < f' \<and> cbor_wf y" if y: "y \<in> set (flat_pairs kvs)" for y
    using cbor_depth_member [OF y] d flat_pairs_all [OF y w] by simp
  have "cbor_decode_items f' (length (flat_pairs kvs)) (concat (map cbor_encode (flat_pairs kvs)) @ rest)
      = Some (flat_pairs kvs, rest)"
  proof (rule cbor_decode_items_all)
    fix y k rest
    assume y: "y \<in> set (flat_pairs kvs)"
    then obtain a b where ab: "(a, b) \<in> set kvs" "y = a \<or> y = b" by (auto simp: set_flat_pairs)
    show "cbor_decode_items f' (Suc k) (cbor_encode y @ rest)
        = map_option (\<lambda>(ys, r). (y # ys, r)) (cbor_decode_items f' k rest)"
      using CMap.IH [OF ab(1)] ab(2) bnd [OF y] by auto
  qed
  then show ?case using CMap.prems by (simp add: f cbor_head_decode cbor_encode_CMap_flat del: cbor_encode.simps cbor_depth.simps)
next
  case (CUInt n)
  then show ?case by (cases f) (simp_all add: cbor_head_decode)
next
  case (CNInt n)
  then show ?case by (cases f) (simp_all add: cbor_head_decode)
next
  case (CBytes bs)
  then show ?case by (cases f) (simp_all add: cbor_head_decode)
next
  case (CText s)
  then show ?case by (cases f) (simp_all add: cbor_head_decode str_bytes_decode)
next
  case CNull
  then show ?case by (cases f) (simp_all add: cbor_decode_head_null)
qed

lemma cbor_roundtrip:
  "cbor_wf x \<Longrightarrow> length (cbor_encode x) < f \<Longrightarrow>
   cbor_decode_items f 1 (cbor_encode x @ rest) = Some ([x], rest)"
  using cbor_roundtrip_item [of x f 0 rest] cbor_depth_length [of x] by (simp add: cbor_decode_items_nil)

lemma cbor_decode_encode: "cbor_wf x \<Longrightarrow> cbor_decode (cbor_encode x) = Some x"
  using cbor_roundtrip [of x "Suc (length (cbor_encode x))" "[]"] by (simp add: cbor_decode_def)

lemma cbor_encode_prefix_inj:
  assumes "cbor_wf x" "cbor_wf y" "cbor_encode x @ xs = cbor_encode y @ ys"
  shows "x = y \<and> xs = ys"
proof -
  let ?f = "Suc (length (cbor_encode x) + length (cbor_encode y))"
  have "cbor_decode_items ?f 1 (cbor_encode x @ xs) = Some ([x], xs)"
    using assms(1) by (rule cbor_roundtrip) simp
  moreover have "cbor_decode_items ?f 1 (cbor_encode y @ ys) = Some ([y], ys)"
    using assms(2) by (rule cbor_roundtrip) simp
  ultimately show ?thesis using assms(3) by simp
qed

lemma cbor_serialiser_SomeD:
  "cbor_serialiser f v = Some a \<Longrightarrow> cbor_wf (f v) \<and> a = cbor_encode (f v)"
  by (simp add: cbor_serialiser_def split: if_splits)

lemma self_delimiting_cbor_serialiser:
  assumes "inj_on f {v. cbor_wf (f v)}"
  shows "self_delimiting (cbor_serialiser f)"
  unfolding self_delimiting_def
proof (intro allI impI)
  fix v w a b xs ys
  assume "cbor_serialiser f v = Some a" "cbor_serialiser f w = Some b" "a @ xs = b @ ys"
  then have "f v = f w \<and> xs = ys" "cbor_wf (f v)" "cbor_wf (f w)"
    using cbor_encode_prefix_inj by (auto dest!: cbor_serialiser_SomeD)
  then show "v = w \<and> xs = ys" using assms by (auto dest: inj_onD)
qed

lemma self_delimiting_cbor_serialiser_inverse:
  assumes "\<And>v. cbor_wf (f v) \<Longrightarrow> g (f v) = Some v"
  shows "self_delimiting (cbor_serialiser f)"
proof (rule self_delimiting_cbor_serialiser)
  show "inj_on f {v. cbor_wf (f v)}"
  proof (rule inj_onI)
    fix v w
    assume v: "v \<in> {v. cbor_wf (f v)}" and w: "w \<in> {v. cbor_wf (f v)}" and eq: "f v = f w"
    have "Some v = g (f v)" using assms v by simp
    also have "\<dots> = g (f w)" using eq by simp
    also have "\<dots> = Some w" using assms w by simp
    finally show "v = w" by simp
  qed
qed

lemma encoder_total_cbor_serialiser: "(\<And>v. cbor_wf (f v)) \<Longrightarrow> encoder_total (cbor_serialiser f)"
  by (simp add: encoder_total_def cbor_serialiser_def)

lemma cbor_bytes_serialiser: "cbor_bytes = cbor_serialiser CBytes"
  by (simp add: fun_eq_iff cbor_bytes_def cbor_serialiser_def)

end
