(* ===== verification/Labels.thy ===== *)
theory Labels
  imports Prelude
begin

text \<open>
  The domain label registry of \<^verbatim>\<open>src/tari_wallet_lib/src/hashing.rs\<close>: the enum
  \<^verbatim>\<open>EngineHashDomainLabel\<close> (one constructor per variant, in the source's order) and
  \<^verbatim>\<open>as_label\<close>, the \<^verbatim>\<open>&'static str\<close> each variant stands for. The type is made an
  instance of \<open>enum\<close>, so that statements over all labels evaluate; the lemmas show
  that the tags are pairwise distinct, non-empty, and made of ASCII letters only.
\<close>

datatype engine_hash_domain_label =
    Template
  | ShardId
  | ConfidentialProof
  | ConfidentialTransfer
  | ShardPledgeCollection
  | HotStuffTreeNode
  | Transaction
  | NonFungibleId
  | NonFungibleIndex
  | UuidOutput
  | Output
  | TransactionSignature
  | ResourceAddress
  | ComponentAddress
  | RandomBytes
  | TransactionReceipt
  | FeeClaimAddress
  | QuorumCertificate

fun as_label :: "engine_hash_domain_label \<Rightarrow> string" where
  "as_label Template = ''Template''"
| "as_label ShardId = ''ShardId''"
| "as_label ConfidentialProof = ''ConfidentialProof''"
| "as_label ConfidentialTransfer = ''ConfidentialTransfer''"
| "as_label ShardPledgeCollection = ''ShardPledgeCollection''"
| "as_label HotStuffTreeNode = ''HotStuffTreeNode''"
| "as_label Transaction = ''Transaction''"
| "as_label NonFungibleId = ''NonFungibleId''"
| "as_label NonFungibleIndex = ''NonFungibleIndex''"
| "as_label UuidOutput = ''UuidOutput''"
| "as_label Output = ''Output''"
| "as_label TransactionSignature = ''TransactionSignature''"
| "as_label ResourceAddress = ''ResourceAddress''"
| "as_label ComponentAddress = ''ComponentAddress''"
| "as_label RandomBytes = ''RandomBytes''"
| "as_label TransactionReceipt = ''TransactionReceipt''"
| "as_label FeeClaimAddress = ''FeeClaimAddress''"
| "as_label QuorumCertificate = ''QuorumCertificate''"

definition all_labels :: "engine_hash_domain_label list" where
  "all_labels =
     [Template, ShardId, ConfidentialProof, ConfidentialTransfer, ShardPledgeCollection,
      HotStuffTreeNode, Transaction, NonFungibleId, NonFungibleIndex, UuidOutput, Output,
      TransactionSignature, ResourceAddress, ComponentAddress, RandomBytes,
      TransactionReceipt, FeeClaimAddress, QuorumCertificate]"

definition ascii_letter :: "char \<Rightarrow> bool" where
  "ascii_letter c \<longleftrightarrow>
     (65 \<le> (of_char c :: nat) \<and> of_char c \<le> (90 :: nat)) \<or> (97 \<le> (of_char c :: nat) \<and> of_char c \<le> (122 :: nat))"

lemma set_all_labels: "set all_labels = UNIV"
proof -
  have "l \<in> set all_labels" for l
    by (cases l) (simp_all add: all_labels_def)
  then show ?thesis by blast
qed

lemma distinct_all_labels: "distinct all_labels"
  by (simp add: all_labels_def)

instantiation engine_hash_domain_label :: enum
begin

definition enum_engine_hash_domain_label :: "engine_hash_domain_label list" where
  "enum_engine_hash_domain_label = all_labels"

definition enum_all_engine_hash_domain_label :: "(engine_hash_domain_label \<Rightarrow> bool) \<Rightarrow> bool" where
  "enum_all_engine_hash_domain_label P = list_all P all_labels"

definition enum_ex_engine_hash_domain_label :: "(engine_hash_domain_label \<Rightarrow> bool) \<Rightarrow> bool" where
  "enum_ex_engine_hash_domain_label P = list_ex P all_labels"

instance
proof
  show "(UNIV :: engine_hash_domain_label set) = set enum_class.enum"
    by (simp add: enum_engine_hash_domain_label_def set_all_labels)
  show "distinct (enum_class.enum :: engine_hash_domain_label list)"
    by (simp add: enum_engine_hash_domain_label_def distinct_all_labels)
  fix P :: "engine_hash_domain_label \<Rightarrow> bool"
  show "enum_class.enum_all P = Ball UNIV P"
    by (simp add: enum_all_engine_hash_domain_label_def list_all_iff set_all_labels)
  show "enum_class.enum_ex P = Bex UNIV P"
    by (simp add: enum_ex_engine_hash_domain_label_def list_ex_iff set_all_labels)
qed

end

subsection \<open>The registry's invariant\<close>

lemma distinct_map_as_label: "distinct (map as_label all_labels)"
  by (simp add: all_labels_def)

lemma inj_as_label: "inj as_label"
proof -
  have "inj_on as_label (set all_labels)"
    using distinct_map_as_label by (simp add: distinct_map)
  then show ?thesis by (simp add: set_all_labels)
qed

lemma as_label_nonempty [simp]: "as_label l \<noteq> []"
  by (cases l) simp_all

lemma as_label_letters: "list_all ascii_letter (as_label l)"
  by (cases l) (simp_all add: ascii_letter_def)

text \<open>C30. The label registry is well formed: as_label maps the 18 variants to pairwise distinct, non-empty tags made of ASCII letters, and all_labels lists every variant.\<close>

lemma label_registry_wf:
  "inj as_label \<and> set all_labels = UNIV
   \<and> (\<forall>l. as_label l \<noteq> [] \<and> list_all ascii_letter (as_label l))"
  using inj_as_label set_all_labels as_label_letters by simp

end
