(* ===== verification/DomainSeparation.thy ===== *)
theory DomainSeparation
  imports Labels
begin

text \<open>
  Domain separation as the hashers of \<^verbatim>\<open>src/tari_wallet_lib/src/hashing.rs\<close> use it.
  \<^verbatim>\<open>hash_domain!(TariEngineHashDomain, "com.tari.dan.engine", 0)\<close> and
  \<^verbatim>\<open>hash_domain!(ConfidentialOutputHashDomain, "com.tari.dan.confidential_output", 1)\<close>
  declare a domain name and a version (\<open>hash_domain\<close> records). Each hasher is seeded
  by \<^verbatim>\<open>DomainSeparation::add_domain_separation_tag\<close> of the tari_crypto library,
  modelled here from that library's construction: the \<open>u64\<close> little-endian length of the
  tag, then the tag \<^verbatim>\<open>domain.vN.label\<close> (\<^verbatim>\<open>domain.vN\<close> for an empty label), the
  version written in decimal by \<^verbatim>\<open>byte_to_decimal_ascii_bytes\<close>, a loop over a
  three-byte array. A digest is modelled by the bytes it has absorbed, so
  \<^verbatim>\<open>digest.update(x)\<close> appends \<open>x\<close>.

  Results: the digit loop never indexes out of range and writes the decimal digits of the
  version (which read back to the version); the code's tag equals the abstract tag
  \<open>dst_bytes\<close> (the length-prefixed string); and tags of one domain are prefix-free:
  a stream that starts with the tag of one label never starts with the tag of another.
\<close>

record hash_domain =
  domain :: string
  version :: u8

definition TariEngineHashDomain :: hash_domain where
  "TariEngineHashDomain = \<lparr>domain = ''com.tari.dan.engine'', version = 0\<rparr>"

definition ConfidentialOutputHashDomain :: hash_domain where
  "ConfidentialOutputHashDomain = \<lparr>domain = ''com.tari.dan.confidential_output'', version = 1\<rparr>"

subsection \<open>The version in decimal: \<^verbatim>\<open>byte_to_decimal_ascii_bytes\<close>\<close>

text \<open>
  The loop \<^verbatim>\<open>while byte > 0 { rem = byte % 10; byte /= 10; bytes[pos - 1] =
  ZERO_ASCII_CHAR + rem; pos -= 1; }\<close> over \<^verbatim>\<open>(byte, pos, bytes)\<close>. The index
  \<^verbatim>\<open>pos - 1\<close> panics when \<open>pos = 0\<close> or when it is beyond the array: that is the
  \<open>None\<close> branch.
\<close>

function decimal_loop :: "u8 \<Rightarrow> nat \<Rightarrow> bytes \<Rightarrow> (nat \<times> bytes) option" where
  "decimal_loop byte pos bs =
     (if 0 < byte then
        (if pos = 0 \<or> length bs < pos then None
         else decimal_loop (byte div 10) (pos - 1) (bs[pos - 1 := 48 + byte mod 10]))
      else Some (pos, bs))"
  by pat_completeness auto
termination
proof (relation "measure (\<lambda>(byte, pos, bs). unat byte)")
  fix byte :: u8 and pos :: nat and bs :: bytes
  assume "0 < byte"
  then have "unat byte div 10 < unat byte"
    by (simp add: unat_gt_0)
  then show "((byte div 10, pos - 1, bs[pos - 1 := 48 + byte mod 10]), byte, pos, bs)
      \<in> measure (\<lambda>(byte, pos, bs). unat byte)"
    by (simp add: unat_div)
qed simp

definition byte_to_decimal_ascii_bytes :: "u8 \<Rightarrow> (nat \<times> bytes) option" where
  "byte_to_decimal_ascii_bytes byte =
     (if byte = 0 then Some (2, [0, 0, 48]) else decimal_loop byte 3 [0, 0, 48])"

text \<open>The decimal digits of a number in ASCII, most significant first, and their reading.\<close>

fun dec_ascii :: "nat \<Rightarrow> bytes" where
  "dec_ascii n =
     (if n < 10 then [48 + word_of_nat n] else dec_ascii (n div 10) @ [48 + word_of_nat (n mod 10)])"

definition dec_parse :: "bytes \<Rightarrow> nat" where
  "dec_parse ds = foldl (\<lambda>acc d. 10 * acc + (unat d - 48)) 0 ds"

subsection \<open>The tag: \<^verbatim>\<open>add_domain_separation_tag\<close>\<close>

text \<open>
  The code's construction over the digest's absorbed bytes, and the abstract tag it
  implements: the string \<^verbatim>\<open>domain.vN.label\<close> after its \<open>u64\<close> little-endian length.
\<close>

definition add_domain_separation_tag :: "hash_domain \<Rightarrow> string \<Rightarrow> bytes \<Rightarrow> bytes res" where
  "add_domain_separation_tag d label digest =
     (case byte_to_decimal_ascii_bytes (version d) of
        None \<Rightarrow> Inl IndexOutOfBounds
      | Some (version_offset, ver) \<Rightarrow>
          (let len = (if label = [] then length (domain d) + (3 - version_offset) + 2
                      else length (domain d) + (3 - version_offset) + length label + 3)
           in Inr (digest @ u64_to_le_bytes (word_of_nat len) @ str_bytes (domain d)
                   @ str_bytes ''.v'' @ drop version_offset ver
                   @ (if label = [] then [] else str_bytes ''.'' @ str_bytes label))))"

definition dst_string :: "hash_domain \<Rightarrow> string \<Rightarrow> bytes" where
  "dst_string d label =
     str_bytes (domain d) @ str_bytes ''.v'' @ dec_ascii (unat (version d))
     @ (if label = [] then [] else str_bytes ''.'' @ str_bytes label)"

definition dst_bytes :: "hash_domain \<Rightarrow> string \<Rightarrow> bytes" where
  "dst_bytes d label = u64_to_le_bytes (word_of_nat (length (dst_string d label))) @ dst_string d label"

declare decimal_loop.simps [simp del] dec_ascii.simps [simp del]

subsection \<open>The digit loop\<close>


lemma dec_ascii_small: "n < 10 \<Longrightarrow> dec_ascii n = [48 + word_of_nat n]"
  by (simp add: dec_ascii.simps)

lemma dec_ascii_big: "\<not> n < 10 \<Longrightarrow> dec_ascii n = dec_ascii (n div 10) @ [48 + word_of_nat (n mod 10)]"
  by (subst dec_ascii.simps) simp

lemma length_dec_ascii_pos: "0 < length (dec_ascii n)"
  by (induction n rule: dec_ascii.induct) (simp add: dec_ascii.simps)

lemma length_dec_ascii_le: "n < 10 ^ k \<Longrightarrow> 0 < k \<Longrightarrow> length (dec_ascii n) \<le> k"
proof (induction n arbitrary: k rule: dec_ascii.induct)
  case (1 n)
  show ?case
  proof (cases "n < 10")
    case True
    with "1.prems" show ?thesis by (simp add: dec_ascii_small)
  next
    case False
    with "1.prems" obtain k' where k: "k = Suc k'" and "0 < k'"
      by (cases k; cases "k - 1") auto
    with "1.prems" have "n div 10 < 10 ^ k'"
      by (simp add: less_mult_imp_div_less ac_simps)
    with "1.IH" [OF False] \<open>0 < k'\<close> have "length (dec_ascii (n div 10)) \<le> k'" by blast
    with False k show ?thesis by (simp add: dec_ascii_big)
  qed
qed

lemma unat_digit: "d < 10 \<Longrightarrow> unat (48 + word_of_nat d :: u8) = 48 + d"
  by (simp add: unat_word_ariths unat_of_nat)

lemma dec_parse_dec_ascii: "dec_parse (dec_ascii n) = n"
proof (induction n rule: dec_ascii.induct)
  case (1 n)
  show ?case
  proof (cases "n < 10")
    case True
    then show ?thesis by (simp add: dec_ascii_small dec_parse_def unat_digit)
  next
    case False
    with "1.IH" show ?thesis
      by (simp add: dec_ascii_big dec_parse_def unat_digit)
  qed
qed

lemma byte_mod_10: "(b :: u8) mod 10 = word_of_nat (unat b mod 10)"
  by (simp add: word_unat_eq_iff unat_mod unat_of_nat)

lemma decimal_loop_zero: "decimal_loop 0 pos bs = Some (pos, bs)"
  by (simp add: decimal_loop.simps)

lemma decimal_loop_step:
  "0 < b \<Longrightarrow> 0 < pos \<Longrightarrow> pos \<le> length bs \<Longrightarrow>
   decimal_loop b pos bs = decimal_loop (b div 10) (pos - 1) (bs[pos - 1 := 48 + b mod 10])"
  by (simp add: decimal_loop.simps)

lemma decimal_loop_digits:
  assumes "0 < b" and "length (dec_ascii (unat b)) \<le> pos" and "pos \<le> length bs"
  shows "decimal_loop b pos bs =
           Some (pos - length (dec_ascii (unat b)),
                 take (pos - length (dec_ascii (unat b))) bs @ dec_ascii (unat b) @ drop pos bs)"
  using assms
proof (induction b pos bs rule: decimal_loop.induct)
  case (1 b pos bs)
  define d where "d = 48 + b mod 10"
  define bs' where "bs' = bs[pos - 1 := d]"
  have pos: "0 < pos" using "1.prems"(2) length_dec_ascii_pos [of "unat b"] by linarith
  then have step: "decimal_loop b pos bs = decimal_loop (b div 10) (pos - 1) bs'"
    using "1.prems" by (simp add: decimal_loop_step bs'_def d_def)
  have d: "d = 48 + word_of_nat (unat b mod 10)"
    by (simp add: d_def byte_mod_10)
  have upd: "bs' = take (pos - 1) bs @ d # drop pos bs"
    using pos "1.prems"(3) by (simp add: bs'_def upd_conv_take_nth_drop)
  show ?case
  proof (cases "unat b < 10")
    case True
    then have "b div 10 = 0" by (simp add: word_unat_eq_iff unat_div)
    with True show ?thesis
      by (simp add: step decimal_loop_zero dec_ascii_small upd d)
  next
    case False
    let ?L = "length (dec_ascii (unat b div 10))"
    have b10: "0 < b div 10" using False by (simp add: word_less_nat_alt unat_div)
    have len: "length (dec_ascii (unat b)) = Suc ?L"
      using False by (simp add: dec_ascii_big)
    have IH: "decimal_loop (b div 10) (pos - 1) bs' =
           Some (pos - 1 - ?L, take (pos - 1 - ?L) bs' @ dec_ascii (unat b div 10) @ drop (pos - 1) bs')"
    proof -
      have guard: "\<not> (pos = 0 \<or> length bs < pos)" using pos "1.prems"(3) by simp
      have "?L \<le> pos - 1" using len "1.prems"(2) by simp
      then show ?thesis
        using "1.IH" [OF "1.prems"(1) guard b10] "1.prems"(3) pos
        by (simp add: unat_div bs'_def d_def)
    qed
    have "take (pos - 1 - ?L) bs' = take (pos - 1 - ?L) bs"
      by (simp add: bs'_def take_update_cancel)
    moreover have "drop (pos - 1) bs' = d # drop pos bs"
      using upd pos "1.prems"(3) by simp
    ultimately show ?thesis
      using IH len False by (simp add: step dec_ascii_big d)
  qed
qed

subsection \<open>The tag refines the abstract tag; prefix-freeness\<close>

lemma length_dec_ascii_byte: "length (dec_ascii (unat (b :: u8))) \<le> 3"
proof -
  have "unat b < 10 ^ 3" using unsigned_less [of b, where ?'a = nat] by simp
  then show ?thesis by (rule length_dec_ascii_le) simp
qed

lemma byte_to_decimal_ascii_bytes_eq:
  "byte_to_decimal_ascii_bytes b =
     Some (3 - length (dec_ascii (unat b)),
           replicate (3 - length (dec_ascii (unat b))) 0 @ dec_ascii (unat b))"
proof (cases "b = 0")
  case True
  then show ?thesis by (simp add: byte_to_decimal_ascii_bytes_def dec_ascii_small numeral_2_eq_2)
next
  case False
  let ?L = "length (dec_ascii (unat b))"
  have L: "?L \<le> 3" "0 < ?L" by (rule length_dec_ascii_byte) (rule length_dec_ascii_pos)
  have "take (3 - ?L) [0, 0, 48 :: u8] = replicate (3 - ?L) 0"
    using L by (cases ?L) (auto simp: numeral_3_eq_3 less_Suc_eq_le le_Suc_eq)
  with False L show ?thesis
    by (simp add: byte_to_decimal_ascii_bytes_def decimal_loop_digits word_neq_0_conv)
qed

lemma add_domain_separation_tag_eq:
  "add_domain_separation_tag d label digest = Inr (digest @ dst_bytes d label)"
proof -
  have L: "length (dec_ascii (unat (version d))) \<le> 3" by (rule length_dec_ascii_byte)
  then show ?thesis
    by (simp add: add_domain_separation_tag_def byte_to_decimal_ascii_bytes_eq
        dst_bytes_def dst_string_def Let_def ac_simps)
qed

lemma dst_string_inj:
  assumes "dst_string d l1 = dst_string d l2"
  shows "l1 = l2"
proof -
  have "(if l1 = [] then [] else str_bytes ''.'' @ str_bytes l1)
      = (if l2 = [] then [] else str_bytes ''.'' @ str_bytes l2)"
    using assms by (simp add: dst_string_def)
  then show ?thesis by (simp split: if_splits)
qed

lemma dst_bytes_prefix_free:
  assumes "length (dst_string d l1) < 2 ^ 64" and "length (dst_string d l2) < 2 ^ 64"
    and "dst_bytes d l1 @ xs = dst_bytes d l2 @ ys"
  shows "l1 = l2 \<and> xs = ys"
proof -
  from assms(3) have "u64_to_le_bytes (word_of_nat (length (dst_string d l1)))
      = u64_to_le_bytes (word_of_nat (length (dst_string d l2)))"
    by (simp add: dst_bytes_def)
  with assms(1,2) have len: "length (dst_string d l1) = length (dst_string d l2)"
    by (rule u64_len_bytes_inj)
  with assms(3) have "dst_string d l1 = dst_string d l2 \<and> xs = ys"
    by (simp add: dst_bytes_def)
  then show ?thesis using dst_string_inj by blast
qed

lemma byte_to_decimal_ascii_bytes_roundtrip:
  "\<exists>off arr. byte_to_decimal_ascii_bytes b = Some (off, arr) \<and> off \<le> 2 \<and> length arr = 3
     \<and> dec_parse (drop off arr) = unat b"
proof -
  have "length (dec_ascii (unat b)) \<le> 3" "0 < length (dec_ascii (unat b))"
    by (rule length_dec_ascii_byte) (rule length_dec_ascii_pos)
  then have "3 - length (dec_ascii (unat b)) \<le> 2" by linarith
  with \<open>length (dec_ascii (unat b)) \<le> 3\<close> show ?thesis
    by (simp add: byte_to_decimal_ascii_bytes_eq dec_parse_dec_ascii)
qed

subsection \<open>Separation of the engine's labels and of the two domains\<close>

lemma length_dst_string:
  "length (dst_string d s) =
     length (domain d) + 2 + length (dec_ascii (unat (version d))) + (if s = [] then 0 else Suc (length s))"
  by (simp add: dst_string_def)

lemma length_dst_string_bound:
  "length (domain d) + length s + 6 < 2 ^ 64 \<Longrightarrow> length (dst_string d s) < 2 ^ 64"
  using length_dec_ascii_byte [of "version d"] by (simp add: length_dst_string)

lemma engine_label_dst_bound: "length (dst_string TariEngineHashDomain (as_label l)) < 2 ^ 64"
  by (rule length_dst_string_bound) (cases l, simp_all add: TariEngineHashDomain_def)

lemma engine_tag_separation:
  assumes "dst_bytes TariEngineHashDomain (as_label l1) @ xs = dst_bytes TariEngineHashDomain (as_label l2) @ ys"
  shows "l1 = l2 \<and> xs = ys"
proof -
  have "as_label l1 = as_label l2 \<and> xs = ys"
    using engine_label_dst_bound engine_label_dst_bound assms by (rule dst_bytes_prefix_free)
  then show ?thesis using inj_as_label by (simp add: inj_eq)
qed

text \<open>C29. The tags of the engine domain and of the confidential-output domain differ on every label, and no stream started with one starts with the other.\<close>

lemma engine_confidential_tags_differ:
  assumes "length s1 < 2 ^ 63" and "length s2 < 2 ^ 63"
  shows "dst_bytes TariEngineHashDomain s1 @ xs \<noteq> dst_bytes ConfidentialOutputHashDomain s2 @ ys"
proof
  assume eq: "dst_bytes TariEngineHashDomain s1 @ xs = dst_bytes ConfidentialOutputHashDomain s2 @ ys"
  have b1: "length (dst_string TariEngineHashDomain s1) < 2 ^ 64"
    using assms(1) by (intro length_dst_string_bound) (simp add: TariEngineHashDomain_def)
  have b2: "length (dst_string ConfidentialOutputHashDomain s2) < 2 ^ 64"
    using assms(2) by (intro length_dst_string_bound) (simp add: ConfidentialOutputHashDomain_def)
  from eq have "u64_to_le_bytes (word_of_nat (length (dst_string TariEngineHashDomain s1)))
      = u64_to_le_bytes (word_of_nat (length (dst_string ConfidentialOutputHashDomain s2)))"
    by (simp add: dst_bytes_def)
  with b1 b2 have "length (dst_string TariEngineHashDomain s1) = length (dst_string ConfidentialOutputHashDomain s2)"
    by (rule u64_len_bytes_inj)
  with eq have "dst_string TariEngineHashDomain s1 = dst_string ConfidentialOutputHashDomain s2"
    by (simp add: dst_bytes_def)
  then have "take 14 (dst_string TariEngineHashDomain s1) = take 14 (dst_string ConfidentialOutputHashDomain s2)"
    by simp
  then show False
    by (simp add: dst_string_def TariEngineHashDomain_def ConfidentialOutputHashDomain_def str_bytes_def)
qed

lemma engine_confidential_tags_differ_witness:
  "dst_bytes TariEngineHashDomain ''Template'' @ [] \<noteq> dst_bytes ConfidentialOutputHashDomain ''Output'' @ []"
  by (rule engine_confidential_tags_differ) simp_all

subsection \<open>Known vectors\<close>

lemma dst_bytes_component_address:
  "dst_bytes TariEngineHashDomain ''ComponentAddress''
     = [39, 0, 0, 0, 0, 0, 0, 0] @ str_bytes ''com.tari.dan.engine.v0.ComponentAddress''"
  using u64_to_le_bytes_small [of 39]
  by (simp add: dst_bytes_def dst_string_def dec_ascii.simps TariEngineHashDomain_def str_bytes_def)

text \<open>C21. The tag writer writes eight little-endian bytes that read back as the length of the tag that follows modulo 2^64 (the cast to u64 wraps), and as its exact length whenever domain and label are shorter than 2^63 together.\<close>

lemma tag_length_prefix:
  assumes "add_domain_separation_tag d label digest = Inr out"
  shows "\<exists>prefix tag. out = digest @ prefix @ tag \<and> length prefix = 8
     \<and> le_val prefix = length tag mod 2 ^ 64
     \<and> (length (domain d) + length label < 2 ^ 63 \<longrightarrow> le_val prefix = length tag)"
proof -
  define ds where "ds = dec_ascii (unat (version d))"
  have L: "length ds \<le> 3" "0 < length ds"
    using length_dec_ascii_byte [of "version d"] length_dec_ascii_pos [of "unat (version d)"]
    by (simp_all add: ds_def)
  define len where "len = (if label = [] then length (domain d) + length ds + 2
                           else length (domain d) + length ds + length label + 3)"
  define tag where "tag = str_bytes (domain d) @ str_bytes ''.v'' @ ds
                          @ (if label = [] then [] else str_bytes ''.'' @ str_bytes label)"
  have ltag: "length tag = len"
    by (simp add: tag_def len_def)
  have out: "out = digest @ u64_to_le_bytes (word_of_nat len) @ tag"
    using assms L
    by (auto simp: add_domain_separation_tag_def byte_to_decimal_ascii_bytes_eq ds_def len_def tag_def
        Let_def)
  have v: "le_val (u64_to_le_bytes (word_of_nat len)) = len mod 2 ^ 64"
    by (simp add: le_val_u64_to_le_bytes unat_of_nat)
  have "length (domain d) + length label < 2 ^ 63 \<Longrightarrow> len < 2 ^ 64"
    using L by (simp add: len_def)
  then show ?thesis
  proof (intro exI conjI impI)
    show "out = digest @ u64_to_le_bytes (word_of_nat len) @ tag" by (rule out)
    show "length (u64_to_le_bytes (word_of_nat len)) = 8" by simp
    show "le_val (u64_to_le_bytes (word_of_nat len)) = length tag mod 2 ^ 64" using v ltag by simp
    assume "length (domain d) + length label < 2 ^ 63" "length (domain d) + length label < 2 ^ 63 \<Longrightarrow> len < 2 ^ 64"
    then show "le_val (u64_to_le_bytes (word_of_nat len)) = length tag" using v ltag by simp
  qed
qed

lemma tag_length_prefix_witness:
  "\<exists>prefix tag. dst_bytes TariEngineHashDomain ''Template'' = [] @ prefix @ tag \<and> length prefix = 8
     \<and> le_val prefix = length tag mod 2 ^ 64
     \<and> (length (domain TariEngineHashDomain) + length ''Template'' < 2 ^ 63 \<longrightarrow> le_val prefix = length tag)"
  by (rule tag_length_prefix) (simp add: add_domain_separation_tag_eq)

end
