(* ===== verification/Hasher.thy ===== *)
theory Hasher
  imports DomainSeparation Encoding
begin

text \<open>
  The canonical hashers of \<^verbatim>\<open>src/tari_wallet_lib/src/hashing.rs\<close>:
  \<^verbatim>\<open>TariHasher32\<close> and \<^verbatim>\<open>TariHasher64\<close> wrap a \<^verbatim>\<open>Blake2b<U32>\<close> and a
  \<^verbatim>\<open>Blake2b<U64>\<close>. Blake2b's incremental state is determined by the bytes it has
  absorbed, so each record holds those bytes; the compression function is a parameter
  \<open>H\<close> of type \<open>blake2b\<close>, \<open>H n xs\<close> the \<open>n\<close>-byte Blake2b digest of \<open>xs\<close>
  (the output size is part of Blake2b's parameter block, so the two widths are two
  functions, not truncations of one). \<^verbatim>\<open>new_with_label\<close> seeds the state with the
  domain separation tag, \<^verbatim>\<open>update\<close>/\<^verbatim>\<open>chain\<close> append the serialised value (or
  panic, \<open>EncodingFault\<close>), \<^verbatim>\<open>result\<close>/\<^verbatim>\<open>finalize_into\<close> apply \<open>H\<close>,
  \<^verbatim>\<open>digest\<close> is \<^verbatim>\<open>chain(data).result()\<close>; \<^verbatim>\<open>hasher32\<close>, \<^verbatim>\<open>hasher64\<close> and the
  \<^verbatim>\<open>template_\<close> variants fix the engine domain and a label.

  The lemmas give the absorbed bytes of every operation (\<open>stream_simps\<close>), show that
  an update fails exactly when serialisation does, that a digest is \<open>H\<close> of the tag
  followed by the serialised inputs in order, domain separation between labels, order
  sensitivity under a self-delimiting serialiser, and that the 64-byte hasher is the
  32-byte one with a wider output.
\<close>

type_synonym blake2b = "nat \<Rightarrow> bytes \<Rightarrow> bytes"

record tari_hasher32 =
  hasher32_absorbed :: bytes

record tari_hasher64 =
  hasher64_absorbed :: bytes

subsection \<open>\<^verbatim>\<open>TariHasher32\<close>\<close>

definition new_with_label32 :: "hash_domain \<Rightarrow> string \<Rightarrow> tari_hasher32 res" where
  "new_with_label32 d label =
     bind_res (add_domain_separation_tag d label []) (\<lambda>st. Inr \<lparr>hasher32_absorbed = st\<rparr>)"

definition update32 :: "'v encoder \<Rightarrow> tari_hasher32 \<Rightarrow> 'v \<Rightarrow> tari_hasher32 res" where
  "update32 enc h data =
     bind_res (encode_into enc hash_writer_write hash_writer_flush data (hasher32_absorbed h)) (\<lambda>st. Inr (h\<lparr>hasher32_absorbed := st\<rparr>))"

definition chain32 :: "'v encoder \<Rightarrow> tari_hasher32 \<Rightarrow> 'v \<Rightarrow> tari_hasher32 res" where
  "chain32 enc h data = bind_res (update32 enc h data) (\<lambda>h'. Inr h')"

definition result32 :: "blake2b \<Rightarrow> tari_hasher32 \<Rightarrow> bytes" where
  "result32 H h = H 32 (hasher32_absorbed h)"

definition digest32 :: "'v encoder \<Rightarrow> blake2b \<Rightarrow> tari_hasher32 \<Rightarrow> 'v \<Rightarrow> bytes res" where
  "digest32 enc H h data = bind_res (chain32 enc h data) (\<lambda>h'. Inr (result32 H h'))"

definition finalize_into32 :: "blake2b \<Rightarrow> tari_hasher32 \<Rightarrow> bytes \<Rightarrow> bytes" where
  "finalize_into32 H h output = H 32 (hasher32_absorbed h)"

subsection \<open>\<^verbatim>\<open>TariHasher64\<close>\<close>

definition new_with_label64 :: "hash_domain \<Rightarrow> string \<Rightarrow> tari_hasher64 res" where
  "new_with_label64 d label =
     bind_res (add_domain_separation_tag d label []) (\<lambda>st. Inr \<lparr>hasher64_absorbed = st\<rparr>)"

definition update64 :: "'v encoder \<Rightarrow> tari_hasher64 \<Rightarrow> 'v \<Rightarrow> tari_hasher64 res" where
  "update64 enc h data =
     bind_res (encode_into enc hash_writer64_write hash_writer64_flush data (hasher64_absorbed h)) (\<lambda>st. Inr (h\<lparr>hasher64_absorbed := st\<rparr>))"

definition chain64 :: "'v encoder \<Rightarrow> tari_hasher64 \<Rightarrow> 'v \<Rightarrow> tari_hasher64 res" where
  "chain64 enc h data = bind_res (update64 enc h data) (\<lambda>h'. Inr h')"

definition result64 :: "blake2b \<Rightarrow> tari_hasher64 \<Rightarrow> bytes" where
  "result64 H h = H 64 (hasher64_absorbed h)"

definition digest64 :: "'v encoder \<Rightarrow> blake2b \<Rightarrow> tari_hasher64 \<Rightarrow> 'v \<Rightarrow> bytes res" where
  "digest64 enc H h data = bind_res (chain64 enc h data) (\<lambda>h'. Inr (result64 H h'))"

definition finalize_into64 :: "blake2b \<Rightarrow> tari_hasher64 \<Rightarrow> bytes \<Rightarrow> bytes" where
  "finalize_into64 H h output = H 64 (hasher64_absorbed h)"

subsection \<open>The engine's hashers\<close>

definition hasher64 :: "engine_hash_domain_label \<Rightarrow> tari_hasher64 res" where
  "hasher64 label = new_with_label64 TariEngineHashDomain (as_label label)"

definition template_hasher64 :: "tari_hasher64 res" where
  "template_hasher64 = hasher64 Template"

definition hasher32 :: "engine_hash_domain_label \<Rightarrow> tari_hasher32 res" where
  "hasher32 label = new_with_label32 TariEngineHashDomain (as_label label)"

definition template_hasher32 :: "tari_hasher32 res" where
  "template_hasher32 = hasher32 Template"

text \<open>
  The correspondence \<open>as32\<close> reads a 64-byte hasher as the 32-byte hasher with the same
  absorbed bytes.
\<close>


definition as32 :: "tari_hasher64 \<Rightarrow> tari_hasher32" where
  "as32 h = \<lparr>hasher32_absorbed = hasher64_absorbed h\<rparr>"

subsection \<open>Absorbed bytes of each operation\<close>

lemma new_with_label32_eq [stream_simps]:
  "new_with_label32 d label = Inr \<lparr>hasher32_absorbed = dst_bytes d label\<rparr>"
  by (simp add: new_with_label32_def add_domain_separation_tag_eq)

lemma hasher32_eq [stream_simps]:
  "hasher32 l = Inr \<lparr>hasher32_absorbed = dst_bytes TariEngineHashDomain (as_label l)\<rparr>"
  by (simp add: hasher32_def new_with_label32_eq)

lemma update32_eq [stream_simps]:
  "update32 enc h data =
     (case enc data of None \<Rightarrow> Inl EncodingFault
      | Some e \<Rightarrow> Inr (h\<lparr>hasher32_absorbed := hasher32_absorbed h @ e\<rparr>))"
  by (simp add: update32_def encode_into_eq split: option.split)

lemma chain32_eq [stream_simps]: "chain32 enc h data = update32 enc h data"
  by (cases "update32 enc h data") (simp_all add: chain32_def)

lemma new_with_label64_eq [stream_simps]:
  "new_with_label64 d label = Inr \<lparr>hasher64_absorbed = dst_bytes d label\<rparr>"
  by (simp add: new_with_label64_def add_domain_separation_tag_eq)

lemma hasher64_eq [stream_simps]:
  "hasher64 l = Inr \<lparr>hasher64_absorbed = dst_bytes TariEngineHashDomain (as_label l)\<rparr>"
  by (simp add: hasher64_def new_with_label64_eq)

lemma update64_eq [stream_simps]:
  "update64 enc h data =
     (case enc data of None \<Rightarrow> Inl EncodingFault
      | Some e \<Rightarrow> Inr (h\<lparr>hasher64_absorbed := hasher64_absorbed h @ e\<rparr>))"
  by (simp add: update64_def hash_writer64_write_eq hash_writer64_flush_eq encode_into_eq split: option.split)

lemma chain64_eq [stream_simps]: "chain64 enc h data = update64 enc h data"
  by (cases "update64 enc h data") (simp_all add: chain64_def)

text \<open>C32. An update of a hasher fails exactly when the value cannot be serialised, and then with EncodingFault: the hash writer itself never fails.\<close>

lemma update32_fails_iff: "update32 enc h data = Inl e \<longleftrightarrow> e = EncodingFault \<and> enc data = None"
  by (auto simp: update32_eq split: option.split)

lemma update32_total: "encoder_total enc \<Longrightarrow> \<exists>h'. update32 enc h data = Inr h'"
  by (auto simp: encoder_total_def update32_eq split: option.split)

lemma digest_collision:
  "H 32 (t @ e) = H 32 (t @ e') \<Longrightarrow> e \<noteq> e' \<Longrightarrow> \<exists>x y. x \<noteq> y \<and> H 32 x = H 32 y"
  by (metis same_append_eq)

lemma chain32_two:
  assumes "enc1 a = Some ea" and "enc2 b = Some eb"
  shows "bind_res (hasher32 l) (\<lambda>h. bind_res (chain32 enc1 h a) (\<lambda>h. bind_res (chain32 enc2 h b)
            (\<lambda>h. Inr (result32 H h))))
         = Inr (H 32 (dst_bytes TariEngineHashDomain (as_label l) @ ea @ eb))"
  using assms by (simp add: stream_simps result32_def)

text \<open>C1. Domain separation: the byte streams of two 32-byte engine hashers agree, whatever is absorbed after the tag, only when the labels are the same and so is everything absorbed after.\<close>

lemma hasher32_domain_separation:
  assumes "hasher32 l1 = Inr h1" and "hasher32 l2 = Inr h2"
    and "hasher32_absorbed h1 @ xs = hasher32_absorbed h2 @ ys"
  shows "l1 = l2 \<and> xs = ys"
proof -
  have "h1 = \<lparr>hasher32_absorbed = dst_bytes TariEngineHashDomain (as_label l1)\<rparr>"
    and "h2 = \<lparr>hasher32_absorbed = dst_bytes TariEngineHashDomain (as_label l2)\<rparr>"
    using assms(1,2) by (simp_all add: hasher32_eq)
  with assms(3) have "dst_bytes TariEngineHashDomain (as_label l1) @ xs = dst_bytes TariEngineHashDomain (as_label l2) @ ys"
    by simp
  then show ?thesis by (rule engine_tag_separation)
qed

lemma hasher32_domain_separation_witness:
  "hasher32 Template = Inr \<lparr>hasher32_absorbed = dst_bytes TariEngineHashDomain ''Template''\<rparr>
   \<and> Template = Template \<and> [1 :: u8] = [1]"
proof -
  have h: "hasher32 Template = Inr \<lparr>hasher32_absorbed = dst_bytes TariEngineHashDomain ''Template''\<rparr>"
    by (simp add: hasher32_eq)
  show ?thesis using hasher32_domain_separation [OF h h, of "[1]" "[1]"] h by simp
qed

text \<open>C18. Order sensitivity: with a self-delimiting serialiser, a 32-byte hasher that absorbs a then b, and one that absorbs b then a from the same state, give the same digest for a \<noteq> b only through a Blake2b collision.\<close>

lemma chain32_order_sensitive:
  assumes "self_delimiting enc" and "a \<noteq> b"
    and "chain32 enc h a = Inr h1" and "chain32 enc h1 b = Inr h2"
    and "chain32 enc h b = Inr h3" and "chain32 enc h3 a = Inr h4"
    and "result32 H h2 = result32 H h4"
  shows "\<exists>x y. x \<noteq> y \<and> H 32 x = H 32 y"
proof -
  obtain ea eb where e: "enc a = Some ea" "enc b = Some eb"
    using assms(3,5) by (auto simp: chain32_eq update32_eq split: option.splits)
  with assms(3-6) have "hasher32_absorbed h2 = hasher32_absorbed h @ ea @ eb"
    and "hasher32_absorbed h4 = hasher32_absorbed h @ eb @ ea"
    by (auto simp: chain32_eq update32_eq)
  moreover have "ea @ eb \<noteq> eb @ ea"
    using assms(1,2) e unfolding self_delimiting_def by blast
  ultimately show ?thesis
    using assms(7) digest_collision [of H "hasher32_absorbed h"] unfolding result32_def by metis
qed

lemma chain32_order_sensitive_witness:
  "\<exists>x y. x \<noteq> y \<and> (\<lambda>n (xs::bytes). replicate n (0::u8)) 32 x = (\<lambda>n (xs::bytes). replicate n (0::u8)) 32 y"
  by (rule chain32_order_sensitive [OF self_delimiting_cbor_bytes,
        of "replicate 32 0" "replicate 32 1" "\<lparr>hasher32_absorbed = []\<rparr>"])
    (simp_all add: chain32_eq update32_eq cbor_bytes_32 result32_def)

text \<open>C31. TariHasher64 updates exactly as TariHasher32: reading a 64-byte hasher as the 32-byte hasher with the same absorbed bytes commutes with update, errors included.\<close>

lemma update64_as32: "map_sum id as32 (update64 enc h data) = update32 enc (as32 h) data"
  by (simp add: update64_eq update32_eq as32_def split: option.split)

lemma hasher64_as32: "map_sum id as32 (hasher64 l) = hasher32 l"
  by (simp add: hasher64_eq hasher32_eq as32_def)

lemma result64_as32: "result64 H h = H 64 (hasher32_absorbed (as32 h))"
  by (simp add: result64_def as32_def)

text \<open>C2. Two engine digests under different labels are equal only if the Blake2b function has a collision.\<close>

lemma hasher32_digest_collision:
  assumes "hasher32 l1 = Inr h1" and "hasher32 l2 = Inr h2" and "l1 \<noteq> l2"
    and "chain32 enc1 h1 v = Inr h1'" and "chain32 enc2 h2 w = Inr h2'"
    and "result32 H h1' = result32 H h2'"
  shows "\<exists>x y. x \<noteq> y \<and> H 32 x = H 32 y"
proof -
  obtain e1 e2 where "hasher32_absorbed h1' = hasher32_absorbed h1 @ e1"
      and "hasher32_absorbed h2' = hasher32_absorbed h2 @ e2"
    using assms(4,5) by (auto simp: chain32_eq update32_eq split: option.splits)
  moreover have "hasher32_absorbed h1 @ e1 \<noteq> hasher32_absorbed h2 @ e2"
  proof
    assume "hasher32_absorbed h1 @ e1 = hasher32_absorbed h2 @ e2"
    with assms(1,2) have "dst_bytes TariEngineHashDomain (as_label l1) @ e1
        = dst_bytes TariEngineHashDomain (as_label l2) @ e2"
      by (auto simp: hasher32_eq)
    then have "l1 = l2" by (rule engine_tag_separation [THEN conjunct1])
    with assms(3) show False ..
  qed
  ultimately show ?thesis using assms(6) unfolding result32_def by metis
qed

lemma hasher32_digest_collision_witness:
  "\<exists>x y. x \<noteq> y \<and> (\<lambda>n (xs :: bytes). replicate n (0::u8)) 32 x = (\<lambda>n (xs :: bytes). replicate n (0::u8)) 32 y"
proof -
  let ?H = "\<lambda>n (xs :: bytes). replicate n (0::u8)"
  let ?enc = "\<lambda>v :: bytes. Some v"
  obtain h1 h2 where h: "hasher32 Template = Inr h1" "hasher32 ShardId = Inr h2"
    by (simp add: hasher32_eq)
  have c1: "chain32 ?enc h1 [] = Inr (h1\<lparr>hasher32_absorbed := hasher32_absorbed h1 @ []\<rparr>)"
    by (simp add: chain32_eq update32_eq)
  have c2: "chain32 ?enc h2 [] = Inr (h2\<lparr>hasher32_absorbed := hasher32_absorbed h2 @ []\<rparr>)"
    by (simp add: chain32_eq update32_eq)
  have r: "result32 ?H (h1\<lparr>hasher32_absorbed := hasher32_absorbed h1 @ []\<rparr>)
         = result32 ?H (h2\<lparr>hasher32_absorbed := hasher32_absorbed h2 @ []\<rparr>)"
    by (simp add: result32_def)
  show ?thesis
    by (rule hasher32_digest_collision [OF h(1) h(2) _ c1 c2 r]) simp
qed

text \<open>C7. Seeding refines the abstract tag: TariHasher32::new_with_label and TariHasher64::new_with_label never panic and absorb exactly the u64 little-endian length of domain.vN.label followed by that string.\<close>

lemma tari_hashers_seeded:
  "new_with_label32 d label = Inr \<lparr>hasher32_absorbed = dst_bytes d label\<rparr>
   \<and> new_with_label64 d label = Inr \<lparr>hasher64_absorbed = dst_bytes d label\<rparr>"
  by (simp add: new_with_label32_eq new_with_label64_eq)

end
