(* ===== verification/Signature.thy ===== *)
theory Signature
  imports Hasher
begin

text \<open>
  Transaction signatures, \<^verbatim>\<open>src/tari_wallet_lib/src/transaction/signature.rs\<close>.
  A \<^verbatim>\<open>TransactionSignature\<close> holds a public key and a signature.
  \<^verbatim>\<open>TransactionSignature::sign\<close> derives the public key from the secret key, hashes the
  instruction list with the 32-byte engine hasher to a challenge, and signs the challenge;
  the \<^verbatim>\<open>unwrap()\<close> on the signing result is the \<open>SigningFailure\<close> branch.

  The Ristretto key and Schnorr signature primitives of tari_crypto are external: they are
  the fields of a \<open>schnorr\<close> record (key derivation, signing of a 32-byte message,
  verification), and the serialiser of instruction lists is a parameter. The source names
  the challenge label \<^verbatim>\<open>EngineHashDomainLabel::InstructionSignature\<close>, a variant the
  label registry does not have; the model uses \<^verbatim>\<open>TransactionSignature\<close>, the registry's
  label for this purpose (\<open>challenge_label\<close>). The verifier, the dual the specification
  describes but the code does not contain, recomputes the challenge from the instructions.

  Results: signing then verifying the same instructions succeeds for a correct scheme; a
  signature that also verifies a different instruction list exposes a Blake2b collision
  for a binding scheme; signing fails only when the serialiser or the signer does.
\<close>

record ('pk, 'sig) transaction_signature =
  ts_public_key :: 'pk
  ts_signature :: 'sig

record ('sk, 'pk, 'sig) schnorr =
  from_secret_key :: "'sk \<Rightarrow> 'pk"
  sign_message :: "'sk \<Rightarrow> bytes \<Rightarrow> 'sig option"
  verify_message :: "'pk \<Rightarrow> bytes \<Rightarrow> 'sig \<Rightarrow> bool"

definition challenge_label :: engine_hash_domain_label where
  "challenge_label = TransactionSignature"

definition transaction_signature_new :: "'pk \<Rightarrow> 'sig \<Rightarrow> ('pk, 'sig) transaction_signature" where
  "transaction_signature_new public_key signature =
     \<lparr>ts_public_key = public_key, ts_signature = signature\<rparr>"

definition transaction_signature_signature :: "('pk, 'sig) transaction_signature \<Rightarrow> 'sig" where
  "transaction_signature_signature ts = ts_signature ts"

definition transaction_signature_public_key :: "('pk, 'sig) transaction_signature \<Rightarrow> 'pk" where
  "transaction_signature_public_key ts = ts_public_key ts"

definition sign ::
  "('sk, 'pk, 'sig) schnorr \<Rightarrow> 'i list encoder \<Rightarrow> blake2b \<Rightarrow> 'sk \<Rightarrow> 'i list
     \<Rightarrow> ('pk, 'sig) transaction_signature res" where
  "sign C enc H secret_key instructions =
     (let public_key = from_secret_key C secret_key in
      bind_res (hasher32 challenge_label) (\<lambda>h.
      bind_res (chain32 enc h instructions) (\<lambda>h.
      (let challenge = result32 H h in
       case sign_message C secret_key challenge of
         None \<Rightarrow> Inl SigningFailure
       | Some signature \<Rightarrow> Inr \<lparr>ts_public_key = public_key, ts_signature = signature\<rparr>))))"

definition instruction_challenge :: "'i list encoder \<Rightarrow> blake2b \<Rightarrow> 'i list \<Rightarrow> bytes res" where
  "instruction_challenge enc H instructions =
     bind_res (hasher32 challenge_label) (\<lambda>h.
     bind_res (chain32 enc h instructions) (\<lambda>h. Inr (result32 H h)))"

definition verify_transaction_signature ::
  "('sk, 'pk, 'sig) schnorr \<Rightarrow> 'i list encoder \<Rightarrow> blake2b \<Rightarrow> ('pk, 'sig) transaction_signature
     \<Rightarrow> 'i list \<Rightarrow> bool" where
  "verify_transaction_signature C enc H ts instructions =
     (case instruction_challenge enc H instructions of
        Inl _ \<Rightarrow> False
      | Inr challenge \<Rightarrow> verify_message C (ts_public_key ts) challenge (ts_signature ts))"

text \<open>
  What the signature scheme is assumed to give. \<open>schnorr_correct\<close>: a signature made
  with a secret key verifies under the derived public key. \<open>schnorr_binding\<close>: one
  signature does not verify two different messages under one key (for Schnorr this holds
  unless the scheme's own hash collides).
\<close>

definition schnorr_correct :: "('sk, 'pk, 'sig) schnorr \<Rightarrow> bool" where
  "schnorr_correct C \<longleftrightarrow>
     (\<forall>sk m s. sign_message C sk m = Some s \<longrightarrow> verify_message C (from_secret_key C sk) m s)"

definition schnorr_binding :: "('sk, 'pk, 'sig) schnorr \<Rightarrow> bool" where
  "schnorr_binding C \<longleftrightarrow>
     (\<forall>pk m m' s. verify_message C pk m s \<longrightarrow> verify_message C pk m' s \<longrightarrow> m = m')"

text \<open>A toy scheme that satisfies both: the signature is the message itself.\<close>

definition echo_scheme :: "(nat, nat, bytes) schnorr" where
  "echo_scheme = \<lparr>from_secret_key = id, sign_message = (\<lambda>sk m. Some m),
                  verify_message = (\<lambda>pk m s. s = m)\<rparr>"

subsection \<open>Behaviour of signing\<close>

lemma instruction_challenge_eq:
  "instruction_challenge enc H instructions =
     (case enc instructions of None \<Rightarrow> Inl EncodingFault
      | Some e \<Rightarrow> Inr (H 32 (dst_bytes TariEngineHashDomain (as_label challenge_label) @ e)))"
  by (simp add: instruction_challenge_def stream_simps result32_def split: option.split)

lemma sign_eq:
  "sign C enc H sk instructions =
     (case instruction_challenge enc H instructions of
        Inl e \<Rightarrow> Inl e
      | Inr challenge \<Rightarrow>
          (case sign_message C sk challenge of
             None \<Rightarrow> Inl SigningFailure
           | Some s \<Rightarrow> Inr \<lparr>ts_public_key = from_secret_key C sk, ts_signature = s\<rparr>))"
  by (simp add: sign_def instruction_challenge_def stream_simps result32_def Let_def
      split: option.split)

lemma sign_Inr_challenge:
  assumes "sign C enc H sk instructions = Inr ts"
  obtains c where "instruction_challenge enc H instructions = Inr c"
    and "sign_message C sk c = Some (ts_signature ts)"
    and "ts_public_key ts = from_secret_key C sk"
  using assms by (auto simp: sign_eq split: sum.splits option.splits)

lemma sign_total:
  assumes "encoder_total enc" and "\<forall>sk m. sign_message C sk m \<noteq> None"
  shows "\<exists>s. sign C enc H sk S = Inr s"
proof -
  obtain e where e: "enc S = Some e" using assms(1) by (rule encoder_totalE)
  obtain sg where "sign_message C sk (H 32 (dst_bytes TariEngineHashDomain (as_label challenge_label) @ e)) = Some sg"
    using assms(2) by blast
  with e show ?thesis by (simp add: sign_eq instruction_challenge_eq)
qed

lemma sign_Inl: "sign C enc H sk S = Inl e \<Longrightarrow> e = EncodingFault \<or> e = SigningFailure"
  by (auto simp: sign_eq instruction_challenge_eq split: option.splits)

lemma sign_verifies:
  assumes "schnorr_correct C" and "sign C enc H sk instructions = Inr ts"
  shows "verify_transaction_signature C enc H ts instructions"
proof -
  obtain c where "instruction_challenge enc H instructions = Inr c"
    and "sign_message C sk c = Some (ts_signature ts)"
    and "ts_public_key ts = from_secret_key C sk"
    using assms(2) by (rule sign_Inr_challenge)
  with assms(1) show ?thesis
    by (simp add: verify_transaction_signature_def schnorr_correct_def)
qed

lemma sign_verify_same_challenge:
  assumes "schnorr_binding C" and "schnorr_correct C"
    and "sign C enc H sk S = Inr ts" and "verify_transaction_signature C enc H ts S'"
  obtains e e' where "enc S = Some e" and "enc S' = Some e'"
    and "H 32 (dst_bytes TariEngineHashDomain (as_label challenge_label) @ e)
       = H 32 (dst_bytes TariEngineHashDomain (as_label challenge_label) @ e')"
proof -
  obtain c where c: "instruction_challenge enc H S = Inr c"
    and "sign_message C sk c = Some (ts_signature ts)"
    and "ts_public_key ts = from_secret_key C sk"
    using assms(3) by (rule sign_Inr_challenge)
  then have v: "verify_message C (ts_public_key ts) c (ts_signature ts)"
    using assms(2) by (simp add: schnorr_correct_def)
  obtain e where e: "enc S = Some e" and ce: "c = H 32 (dst_bytes TariEngineHashDomain (as_label challenge_label) @ e)"
    using c by (auto simp: instruction_challenge_eq split: option.splits)
  obtain c' e' where e': "enc S' = Some e'"
    and ce': "c' = H 32 (dst_bytes TariEngineHashDomain (as_label challenge_label) @ e')"
    and v': "verify_message C (ts_public_key ts) c' (ts_signature ts)"
    using assms(4) by (auto simp: verify_transaction_signature_def instruction_challenge_eq
        split: option.splits)
  have "c = c'" using assms(1) v v' unfolding schnorr_binding_def by blast
  then have "H 32 (dst_bytes TariEngineHashDomain (as_label challenge_label) @ e)
      = H 32 (dst_bytes TariEngineHashDomain (as_label challenge_label) @ e')"
    using ce ce' by simp
  with e e' show ?thesis by (rule that)
qed

text \<open>C12. Tampering: with a binding scheme and a self-delimiting serialiser, a signature made over one instruction list that also verifies a different list exposes a Blake2b collision.\<close>

lemma sign_tamper_collision:
  assumes "schnorr_binding C" and "self_delimiting enc"
    and "sign C enc H sk S = Inr ts" and "schnorr_correct C"
    and "verify_transaction_signature C enc H ts S'" and "S' \<noteq> S"
  shows "\<exists>x y. x \<noteq> y \<and> H 32 x = H 32 y"
proof -
  obtain e e' where e: "enc S = Some e" "enc S' = Some e'"
    and h: "H 32 (dst_bytes TariEngineHashDomain (as_label challenge_label) @ e)
          = H 32 (dst_bytes TariEngineHashDomain (as_label challenge_label) @ e')"
    using assms(1,4,3,5) by (rule sign_verify_same_challenge)
  have "e \<noteq> e'" using assms(2,6) e unfolding self_delimiting_def by metis
  with h show ?thesis by (rule digest_collision)
qed

lemma sign_tamper_collision_witness:
  "\<exists>x y. x \<noteq> y \<and> (\<lambda>n (xs :: bytes). replicate n (0::u8)) 32 x = (\<lambda>n (xs :: bytes). replicate n (0::u8)) 32 y"
proof -
  have c: "schnorr_correct echo_scheme" by (simp add: schnorr_correct_def echo_scheme_def)
  have b: "schnorr_binding echo_scheme" by (simp add: schnorr_binding_def echo_scheme_def)
  have s: "sign echo_scheme cbor_bytes (\<lambda>n (xs :: bytes). replicate n (0::u8)) 5 (replicate 32 0)
      = Inr \<lparr>ts_public_key = 5, ts_signature = replicate 32 0\<rparr>"
    by (simp add: sign_eq instruction_challenge_eq echo_scheme_def cbor_bytes_32)
  have v: "verify_transaction_signature echo_scheme cbor_bytes (\<lambda>n (xs :: bytes). replicate n (0::u8))
      \<lparr>ts_public_key = 5, ts_signature = replicate 32 0\<rparr> (replicate 32 1)"
    by (simp add: verify_transaction_signature_def instruction_challenge_eq echo_scheme_def cbor_bytes_32)
  show ?thesis
    by (rule sign_tamper_collision [OF b self_delimiting_cbor_bytes s c v]) simp
qed

text \<open>C33. Signing fails exactly when the instruction list cannot be serialised (EncodingFault) or the signature primitive rejects the challenge (SigningFailure, the unwrap panic).\<close>

lemma sign_fails_iff:
  "sign C enc H sk S = Inl err \<longleftrightarrow>
     (enc S = None \<and> err = EncodingFault) \<or>
     (\<exists>e. enc S = Some e \<and> err = SigningFailure \<and>
        sign_message C sk (H 32 (dst_bytes TariEngineHashDomain (as_label challenge_label) @ e)) = None)"
  by (auto simp: sign_eq instruction_challenge_eq split: option.splits)

lemma sign_fails_iff_witness:
  "sign echo_scheme (\<lambda>S :: u8 list. None) (\<lambda>n (xs :: bytes). xs) 5 [1] = Inl EncodingFault"
  using sign_fails_iff [of echo_scheme "\<lambda>S :: u8 list. None" "\<lambda>n (xs :: bytes). xs" 5 "[1]" EncodingFault]
  by simp

end
