(* ===== verification/Component.thy ===== *)
theory Component
  imports Hasher
begin

text \<open>
  Address derivation, \<^verbatim>\<open>src/tari_wallet_lib/src/component.rs\<close>.
  \<^verbatim>\<open>new_component_address_from_parts\<close> hashes, under the label
  \<^verbatim>\<open>ComponentAddress\<close>, the template address and then the component id, and wraps
  the 32-byte result as a \<^verbatim>\<open>ComponentAddress\<close>. The source calls a function
  \<^verbatim>\<open>hasher\<close> that \<^verbatim>\<open>hashing.rs\<close> does not define; the only hasher whose result
  is the 32-byte \<^verbatim>\<open>Hash\<close> that \<^verbatim>\<open>ComponentAddress::new\<close> takes is
  \<^verbatim>\<open>hasher32\<close>, which is what the model uses. The two public functions parse the
  public key's hex with \<^verbatim>\<open>Hash::from_hex\<close> (tari_template_lib, modelled from the
  specification: 64 hexadecimal digits, either case, give 32 bytes; anything else is
  \<open>MalformedInput\<close>) and derive with the account template (32 zero bytes) or the
  account-NFT template (31 zero bytes then 1).

  The template address and the component id are serialised by two serialiser parameters
  (\<open>encT\<close>, \<open>encH\<close>). The lemmas give the digest's preimage, show that only a
  malformed key makes the public functions fail (under total serialisers), that hex
  printing and parsing are inverse, and that two derivations agree only on equal inputs
  or on a collision of the compression function.
\<close>

type_synonym template_address = bytes

datatype component_address = ComponentAddr bytes

definition ACCOUNT_TEMPLATE_ADDRESS :: template_address where
  "ACCOUNT_TEMPLATE_ADDRESS = replicate 32 0"

definition ACCOUNT_NFT_TEMPLATE_ADDRESS :: template_address where
  "ACCOUNT_NFT_TEMPLATE_ADDRESS = replicate 31 0 @ [1]"

subsection \<open>Hexadecimal\<close>

definition hex_digit_val :: "char \<Rightarrow> nat option" where
  "hex_digit_val c =
     (let k = of_char c :: nat in
      if 48 \<le> k \<and> k \<le> 57 then Some (k - 48)
      else if 97 \<le> k \<and> k \<le> 102 then Some (k - 87)
      else if 65 \<le> k \<and> k \<le> 70 then Some (k - 55)
      else None)"

fun hex_pairs :: "string \<Rightarrow> bytes option" where
  "hex_pairs [] = Some []"
| "hex_pairs [c] = None"
| "hex_pairs (c1 # c2 # rest) =
     (case (hex_digit_val c1, hex_digit_val c2, hex_pairs rest) of
        (Some hi, Some lo, Some bs) \<Rightarrow> Some (word_of_nat (16 * hi + lo) # bs)
      | _ \<Rightarrow> None)"

definition hash_from_hex :: "string \<Rightarrow> bytes res" where
  "hash_from_hex s =
     (case hex_pairs s of
        Some bs \<Rightarrow> if length bs = 32 then Inr bs else Inl (MalformedInput s)
      | None \<Rightarrow> Inl (MalformedInput s))"

definition hex_char :: "nat \<Rightarrow> char" where
  "hex_char d = char_of (if d < 10 then 48 + d else 87 + d)"

definition to_hex :: "bytes \<Rightarrow> string" where
  "to_hex bs = concat (map (\<lambda>b. [hex_char (unat b div 16), hex_char (unat b mod 16)]) bs)"

subsection \<open>Derivation\<close>

definition new_component_address_from_parts ::
  "template_address encoder \<Rightarrow> bytes encoder \<Rightarrow> blake2b \<Rightarrow> template_address \<Rightarrow> bytes
     \<Rightarrow> component_address res" where
  "new_component_address_from_parts encT encH H template_address component_id =
     bind_res (hasher32 ComponentAddress) (\<lambda>h.
     bind_res (chain32 encT h template_address) (\<lambda>h.
     bind_res (chain32 encH h component_id) (\<lambda>h.
     Inr (ComponentAddr (result32 H h)))))"

definition get_account_address_from_public_key ::
  "template_address encoder \<Rightarrow> bytes encoder \<Rightarrow> blake2b \<Rightarrow> string \<Rightarrow> component_address res" where
  "get_account_address_from_public_key encT encH H public_key =
     bind_res (hash_from_hex public_key) (\<lambda>destination_component_id.
       new_component_address_from_parts encT encH H ACCOUNT_TEMPLATE_ADDRESS destination_component_id)"

definition get_account_nft_address_from_public_key ::
  "template_address encoder \<Rightarrow> bytes encoder \<Rightarrow> blake2b \<Rightarrow> string \<Rightarrow> component_address res" where
  "get_account_nft_address_from_public_key encT encH H public_key =
     bind_res (hash_from_hex public_key) (\<lambda>destination_component_id.
       new_component_address_from_parts encT encH H ACCOUNT_NFT_TEMPLATE_ADDRESS destination_component_id)"

definition component_preimage :: "bytes \<Rightarrow> bytes \<Rightarrow> bytes" where
  "component_preimage et ec = dst_bytes TariEngineHashDomain (as_label ComponentAddress) @ et @ ec"


subsection \<open>Properties of the derivation\<close>


lemma new_component_address_from_parts_eq:
  "new_component_address_from_parts encT encH H ta cid =
     (case (encT ta, encH cid) of
        (Some et, Some ec) \<Rightarrow> Inr (ComponentAddr (H 32 (component_preimage et ec)))
      | _ \<Rightarrow> Inl EncodingFault)"
  by (simp add: new_component_address_from_parts_def stream_simps result32_def component_preimage_def
      split: option.split)

lemma hex_digit_val_hex_char: "d < 16 \<Longrightarrow> hex_digit_val (hex_char d) = Some d"
  by (auto simp: hex_digit_val_def hex_char_def Let_def)

lemma hex_pairs_to_hex: "hex_pairs (to_hex bs) = Some bs"
proof (induction bs)
  case Nil
  then show ?case by (simp add: to_hex_def)
next
  case (Cons b bs)
  have "unat b div 16 < 16" and "unat b mod 16 < 16"
    using unsigned_less [of b, where ?'a = nat] by simp_all
  moreover have "(word_of_nat (16 * (unat b div 16) + unat b mod 16) :: u8) = b"
    by simp
  ultimately show ?case
    using Cons by (simp add: to_hex_def hex_digit_val_hex_char)
qed

lemma hash_from_hex_to_hex: "length bs = 32 \<Longrightarrow> hash_from_hex (to_hex bs) = Inr bs"
  by (simp add: hash_from_hex_def hex_pairs_to_hex)

lemma length_to_hex [simp]: "length (to_hex bs) = 2 * length bs"
  by (induction bs) (simp_all add: to_hex_def)

lemma hash_from_hex_Inl: "hash_from_hex s = Inl e \<Longrightarrow> e = MalformedInput s"
  by (auto simp: hash_from_hex_def split: option.splits if_splits)

lemma hash_from_hex_length: "hash_from_hex s = Inr bs \<Longrightarrow> length bs = 32"
  by (auto simp: hash_from_hex_def split: option.splits if_splits)

lemma account_nft_templates_differ: "ACCOUNT_TEMPLATE_ADDRESS \<noteq> ACCOUNT_NFT_TEMPLATE_ADDRESS"
proof
  assume "ACCOUNT_TEMPLATE_ADDRESS = ACCOUNT_NFT_TEMPLATE_ADDRESS"
  then have "last ACCOUNT_TEMPLATE_ADDRESS = last ACCOUNT_NFT_TEMPLATE_ADDRESS" by simp
  then show False by (simp add: ACCOUNT_TEMPLATE_ADDRESS_def ACCOUNT_NFT_TEMPLATE_ADDRESS_def)
qed

lemma component_preimage_inj:
  assumes "self_delimiting encT" and "self_delimiting encH"
    and "encT t1 = Some a1" and "encT t2 = Some a2" and "encH c1 = Some b1" and "encH c2 = Some b2"
    and "component_preimage a1 b1 = component_preimage a2 b2"
  shows "t1 = t2 \<and> c1 = c2"
proof -
  from assms(7) have "a1 @ b1 = a2 @ b2" by (simp add: component_preimage_def)
  with assms(1,3,4) have "t1 = t2" and "b1 = b2" unfolding self_delimiting_def by blast+
  with assms(2,5,6) have "c1 = c2" unfolding self_delimiting_def by metis
  with \<open>t1 = t2\<close> show ?thesis by simp
qed

text \<open>C3. Address stability: with self-delimiting serialisers, two derivations with a different template address or component id give the same component address only through a Blake2b collision.\<close>

lemma new_component_address_collision:
  assumes "self_delimiting encT" and "self_delimiting encH"
    and "new_component_address_from_parts encT encH H t1 c1 = Inr a"
    and "new_component_address_from_parts encT encH H t2 c2 = Inr a"
    and "(t1, c1) \<noteq> (t2, c2)"
  shows "\<exists>x y. x \<noteq> y \<and> H 32 x = H 32 y"
proof -
  obtain a1 b1 a2 b2 where e: "encT t1 = Some a1" "encH c1 = Some b1" "encT t2 = Some a2" "encH c2 = Some b2"
    and h: "H 32 (component_preimage a1 b1) = H 32 (component_preimage a2 b2)"
    using assms(3,4) by (auto simp: new_component_address_from_parts_eq split: option.splits)
  have "component_preimage a1 b1 \<noteq> component_preimage a2 b2"
    using component_preimage_inj [OF assms(1,2) e(1,3,2,4)] assms(5) by blast
  with h show ?thesis by blast
qed

lemma new_component_address_collision_witness:
  "\<exists>x y. x \<noteq> y \<and> (\<lambda>n (xs :: bytes). replicate n (1::u8)) 32 x = (\<lambda>n (xs :: bytes). replicate n (1::u8)) 32 y"
proof -
  let ?H = "\<lambda>n (xs :: bytes). replicate n (1::u8)"
  let ?a = "ComponentAddr (replicate 32 1)"
  have d1: "new_component_address_from_parts cbor_bytes cbor_bytes ?H ACCOUNT_TEMPLATE_ADDRESS (replicate 32 0) = Inr ?a"
    by (simp add: new_component_address_from_parts_eq cbor_bytes_32 ACCOUNT_TEMPLATE_ADDRESS_def)
  have d2: "new_component_address_from_parts cbor_bytes cbor_bytes ?H ACCOUNT_NFT_TEMPLATE_ADDRESS (replicate 32 0) = Inr ?a"
    by (simp add: new_component_address_from_parts_eq cbor_bytes_32 ACCOUNT_NFT_TEMPLATE_ADDRESS_def)
  have ne: "(ACCOUNT_TEMPLATE_ADDRESS, replicate 32 (0::u8)) \<noteq> (ACCOUNT_NFT_TEMPLATE_ADDRESS, replicate 32 0)"
    using account_nft_templates_differ by simp
  show ?thesis
    by (rule new_component_address_collision [OF self_delimiting_cbor_bytes self_delimiting_cbor_bytes d1 d2 ne])
qed

text \<open>C17. Account address derivation fails only when the public key is malformed hex, and then with the parse error, when the serialisers are total.\<close>

lemma get_account_address_error:
  assumes "encoder_total encT" and "encoder_total encH"
  shows "get_account_address_from_public_key encT encH H pk = Inl e \<longleftrightarrow> hash_from_hex pk = Inl e"
  using assms
  by (cases "hash_from_hex pk")
     (auto simp: get_account_address_from_public_key_def new_component_address_from_parts_eq
        dest: encoder_totalD split: option.splits)

lemma get_account_address_error_witness:
  "get_account_address_from_public_key (\<lambda>t. Some t) (\<lambda>c. Some c) (\<lambda>n xs. replicate n 0) ''zz''
     = Inl (MalformedInput ''zz'')"
proof -
  have tot: "encoder_total (\<lambda>t :: bytes. Some t)" by (simp add: encoder_total_def)
  have "hash_from_hex ''zz'' = Inl (MalformedInput ''zz'')"
    by (simp add: hash_from_hex_def hex_digit_val_def)
  then show ?thesis
    using get_account_address_error [OF tot tot, of "\<lambda>n xs. replicate n 0" "''zz''"] by simp
qed

lemma get_account_nft_address_error:
  assumes "encoder_total encT" and "encoder_total encH"
  shows "get_account_nft_address_from_public_key encT encH H pk = Inl e \<longleftrightarrow> hash_from_hex pk = Inl e"
  using assms
  by (cases "hash_from_hex pk")
     (auto simp: get_account_nft_address_from_public_key_def new_component_address_from_parts_eq
        dest: encoder_totalD split: option.splits)


lemma cbor_bytes_total_on_hashes: "length bs = 32 \<Longrightarrow> cbor_bytes bs \<noteq> None"
  by (simp add: cbor_bytes_32)

text \<open>C8. A 32-byte public key printed as lowercase hex and passed to get_account_address_from_public_key is parsed back to the same bytes: the result is the account derivation of exactly that key.\<close>

lemma get_account_address_to_hex:
  assumes "length pk = 32"
  shows "get_account_address_from_public_key encT encH H (to_hex pk)
           = new_component_address_from_parts encT encH H ACCOUNT_TEMPLATE_ADDRESS pk"
  using assms by (simp add: get_account_address_from_public_key_def hash_from_hex_to_hex)

lemma get_account_address_to_hex_witness:
  "get_account_address_from_public_key (\<lambda>t. Some t) (\<lambda>c. Some c) (\<lambda>n xs. take n xs) (to_hex (replicate 32 7))
     = new_component_address_from_parts (\<lambda>t. Some t) (\<lambda>c. Some c) (\<lambda>n xs. take n xs) ACCOUNT_TEMPLATE_ADDRESS (replicate 32 7)"
  by (rule get_account_address_to_hex) simp

text \<open>C9. Known vector of the account derivation: with CBOR byte-string serialisers, the account address of a 32-byte key given in hex is Blake2b-32 of the length-prefixed tag com.tari.dan.engine.v0.ComponentAddress, then the CBOR head 88 32 and 32 zero bytes (the account template), then 88 32 and the key.\<close>

lemma account_address_vector:
  assumes "length pk = 32"
  shows "get_account_address_from_public_key cbor_bytes cbor_bytes H (to_hex pk)
     = Inr (ComponentAddr (H 32 ([39, 0, 0, 0, 0, 0, 0, 0] @ str_bytes ''com.tari.dan.engine.v0.ComponentAddress''
                                 @ [88, 32] @ replicate 32 0 @ [88, 32] @ pk)))"
  using assms
  by (simp add: get_account_address_from_public_key_def hash_from_hex_to_hex new_component_address_from_parts_eq
      cbor_bytes_32 ACCOUNT_TEMPLATE_ADDRESS_def component_preimage_def dst_bytes_component_address)

lemma account_address_vector_witness:
  "get_account_address_from_public_key cbor_bytes cbor_bytes (\<lambda>n (xs :: bytes). take n xs) (to_hex (replicate 32 7))
     = Inr (ComponentAddr ((\<lambda>n (xs :: bytes). take n xs) 32
          ([39, 0, 0, 0, 0, 0, 0, 0] @ str_bytes ''com.tari.dan.engine.v0.ComponentAddress''
           @ [88, 32] @ replicate 32 0 @ [88, 32] @ replicate 32 7)))"
  by (rule account_address_vector) simp

end
