(* ===== verification/Instruction.thy ===== *)
theory Instruction
  imports Cbor Signature Component
begin

text \<open>
  The values the entry points of lib.rs put into transactions: \<^verbatim>\<open>Instruction\<close>
  (transaction/instruction.rs) with the four variants lib.rs builds, the argument type
  \<^verbatim>\<open>Arg\<close> of tari_template_lib (a workspace key or a literal) and the literal values
  \<^verbatim>\<open>args![..]\<close> receives (a resource address, an \<^verbatim>\<open>Amount\<close>, a non-fungible address).

  Their serialisation is serde's derived one written by tari_bor: an enum is externally
  tagged (a one-entry map from the variant's name to its content), a struct variant is a
  map from field names to values in declaration order, an \<^verbatim>\<open>Option\<close> is null or the
  value, an \<^verbatim>\<open>i64\<close> (\<^verbatim>\<open>Amount\<close>) is a CBOR integer of major type 0 or 1, and a literal
  argument carries the tari_bor encoding of its value as bytes (what \<^verbatim>\<open>args!\<close> does).
  Byte vectors and 32-byte addresses are CBOR byte strings. \<open>instructions_serialiser\<close>
  is the serialiser of an instruction list.

  The inverse maps (serde's derived \<^verbatim>\<open>Deserialize\<close> over tari_bor's decoder) read every
  encoded list back (\<open>instructions_deserialise_serialiser\<close>); hence the instruction
  serialiser is self-delimiting, and the collision theorems of the hashers and of signing
  hold for it with no hypothesis on the serialiser.
\<close>

datatype non_fungible_address = NonFungibleAddressOfPublicKey bytes

datatype literal =
    LitResourceAddress bytes
  | LitAmount i64
  | LitNonFungibleAddress non_fungible_address

datatype arg = Workspace bytes | Literal literal

datatype instruction =
    CallFunction template_address string "arg list"
  | CallMethod component_address string "arg list"
  | PutLastInstructionOutputOnWorkspace bytes
  | CreateFreeTestCoins i64 "bytes option"

subsection \<open>Serialisation\<close>

definition cbor_struct :: "(string \<times> cbor) list \<Rightarrow> cbor" where
  "cbor_struct fs = CMap (map (\<lambda>(n, v). (CText n, v)) fs)"

definition i64_to_cbor :: "i64 \<Rightarrow> cbor" where
  "i64_to_cbor a = (if 0 \<le> sint a then CUInt (nat (sint a)) else CNInt (nat (- sint a - 1)))"

fun literal_to_cbor :: "literal \<Rightarrow> cbor" where
  "literal_to_cbor (LitResourceAddress bs) = CBytes bs"
| "literal_to_cbor (LitAmount a) = i64_to_cbor a"
| "literal_to_cbor (LitNonFungibleAddress (NonFungibleAddressOfPublicKey pk)) =
     cbor_variant ''PublicKey'' (CBytes pk)"

fun arg_to_cbor :: "arg \<Rightarrow> cbor" where
  "arg_to_cbor (Workspace key) = cbor_variant ''Workspace'' (CBytes key)"
| "arg_to_cbor (Literal l) = cbor_variant ''Literal'' (CBytes (cbor_encode (literal_to_cbor l)))"

fun instruction_to_cbor :: "instruction \<Rightarrow> cbor" where
  "instruction_to_cbor (CallFunction template_address function args) =
     cbor_variant ''CallFunction'' (cbor_struct
       [(''template_address'', CBytes template_address), (''function'', CText function),
        (''args'', CArray (map arg_to_cbor args))])"
| "instruction_to_cbor (CallMethod (ComponentAddr component_address) method args) =
     cbor_variant ''CallMethod'' (cbor_struct
       [(''component_address'', CBytes component_address), (''method'', CText method),
        (''args'', CArray (map arg_to_cbor args))])"
| "instruction_to_cbor (PutLastInstructionOutputOnWorkspace key) =
     cbor_variant ''PutLastInstructionOutputOnWorkspace'' (cbor_struct [(''key'', CBytes key)])"
| "instruction_to_cbor (CreateFreeTestCoins revealed_amount output) =
     cbor_variant ''CreateFreeTestCoins'' (cbor_struct
       [(''revealed_amount'', i64_to_cbor revealed_amount),
        (''output'', (case output of None \<Rightarrow> CNull | Some bs \<Rightarrow> CBytes bs))])"

definition instructions_to_cbor :: "instruction list \<Rightarrow> cbor" where
  "instructions_to_cbor instructions = CArray (map instruction_to_cbor instructions)"

definition instructions_serialiser :: "instruction list encoder" where
  "instructions_serialiser = cbor_serialiser instructions_to_cbor"

subsection \<open>Deserialisation\<close>

definition variant_of_cbor :: "cbor \<Rightarrow> (string \<times> cbor) option" where
  "variant_of_cbor x =
     (case x of
        CMap [kv] \<Rightarrow> (case fst kv of CText name \<Rightarrow> Some (name, snd kv) | _ \<Rightarrow> None)
      | _ \<Rightarrow> None)"

fun struct_of_cbor :: "string list \<Rightarrow> cbor \<Rightarrow> cbor list option" where
  "struct_of_cbor names (CMap kvs) = (if map fst kvs = map CText names then Some (map snd kvs) else None)"
| "struct_of_cbor names _ = None"

fun bytes_of_cbor :: "cbor \<Rightarrow> bytes option" where
  "bytes_of_cbor (CBytes bs) = Some bs"
| "bytes_of_cbor _ = None"

fun text_of_cbor :: "cbor \<Rightarrow> string option" where
  "text_of_cbor (CText s) = Some s"
| "text_of_cbor _ = None"

fun i64_of_cbor :: "cbor \<Rightarrow> i64 option" where
  "i64_of_cbor (CUInt n) = (if n < 2 ^ 63 then Some (word_of_int (int n)) else None)"
| "i64_of_cbor (CNInt n) = (if n < 2 ^ 63 then Some (word_of_int (- int n - 1)) else None)"
| "i64_of_cbor _ = None"

definition literal_of_cbor :: "cbor \<Rightarrow> literal option" where
  "literal_of_cbor x =
     (case x of
        CBytes bs \<Rightarrow> Some (LitResourceAddress bs)
      | CUInt _ \<Rightarrow> map_option LitAmount (i64_of_cbor x)
      | CNInt _ \<Rightarrow> map_option LitAmount (i64_of_cbor x)
      | _ \<Rightarrow>
          (case variant_of_cbor x of
             Some (name, v) \<Rightarrow>
               if name = ''PublicKey''
               then map_option (\<lambda>pk. LitNonFungibleAddress (NonFungibleAddressOfPublicKey pk)) (bytes_of_cbor v)
               else None
           | None \<Rightarrow> None))"

definition arg_of_cbor :: "cbor \<Rightarrow> arg option" where
  "arg_of_cbor x =
     (case variant_of_cbor x of
        Some (name, v) \<Rightarrow>
          if name = ''Workspace'' then map_option Workspace (bytes_of_cbor v)
          else if name = ''Literal'' then
            (case bytes_of_cbor v of
               Some bs \<Rightarrow> (case cbor_decode bs of Some y \<Rightarrow> map_option Literal (literal_of_cbor y) | None \<Rightarrow> None)
             | None \<Rightarrow> None)
          else None
      | None \<Rightarrow> None)"

fun args_of_cbor :: "cbor \<Rightarrow> arg list option" where
  "args_of_cbor (CArray xs) = those (map arg_of_cbor xs)"
| "args_of_cbor _ = None"

definition output_of_cbor :: "cbor \<Rightarrow> bytes option option" where
  "output_of_cbor x = (if x = CNull then Some None else map_option Some (bytes_of_cbor x))"

definition instruction_of_cbor :: "cbor \<Rightarrow> instruction option" where
  "instruction_of_cbor x =
     (case variant_of_cbor x of
        None \<Rightarrow> None
      | Some (name, v) \<Rightarrow>
          if name = ''CallFunction'' then
            (case struct_of_cbor [''template_address'', ''function'', ''args''] v of
               Some [t, f, a] \<Rightarrow>
                 (case (bytes_of_cbor t, text_of_cbor f, args_of_cbor a) of
                    (Some t, Some f, Some a) \<Rightarrow> Some (CallFunction t f a)
                  | _ \<Rightarrow> None)
             | _ \<Rightarrow> None)
          else if name = ''CallMethod'' then
            (case struct_of_cbor [''component_address'', ''method'', ''args''] v of
               Some [c, m, a] \<Rightarrow>
                 (case (bytes_of_cbor c, text_of_cbor m, args_of_cbor a) of
                    (Some c, Some m, Some a) \<Rightarrow> Some (CallMethod (ComponentAddr c) m a)
                  | _ \<Rightarrow> None)
             | _ \<Rightarrow> None)
          else if name = ''PutLastInstructionOutputOnWorkspace'' then
            (case struct_of_cbor [''key''] v of
               Some [k] \<Rightarrow> map_option PutLastInstructionOutputOnWorkspace (bytes_of_cbor k)
             | _ \<Rightarrow> None)
          else if name = ''CreateFreeTestCoins'' then
            (case struct_of_cbor [''revealed_amount'', ''output''] v of
               Some [a, out] \<Rightarrow>
                 (case (i64_of_cbor a, output_of_cbor out) of
                    (Some a, Some out) \<Rightarrow> Some (CreateFreeTestCoins a out)
                  | _ \<Rightarrow> None)
             | _ \<Rightarrow> None)
          else None)"

fun instructions_of_cbor :: "cbor \<Rightarrow> instruction list option" where
  "instructions_of_cbor (CArray xs) = those (map instruction_of_cbor xs)"
| "instructions_of_cbor _ = None"

definition instructions_deserialise :: "bytes \<Rightarrow> instruction list option" where
  "instructions_deserialise bs = (case cbor_decode bs of Some x \<Rightarrow> instructions_of_cbor x | None \<Rightarrow> None)"

subsection \<open>Deserialisation inverts serialisation\<close>

lemma i64_roundtrip [simp]: "i64_of_cbor (i64_to_cbor a) = Some a"
proof -
  have lo: "- (2 ^ 63) \<le> sint a" and hi: "sint a < 2 ^ 63"
    using sint_ge [of a] sint_lt [of a] by simp_all
  show ?thesis
  proof (cases "0 \<le> sint a")
    case True
    then have "nat (sint a) < 2 ^ 63" using hi by (simp add: nat_less_iff)
    with True show ?thesis by (simp add: i64_to_cbor_def)
  next
    case False
    then have "nat (- sint a - 1) < 2 ^ 63" using lo by (simp add: nat_less_iff)
    with False show ?thesis by (simp add: i64_to_cbor_def)
  qed
qed

lemma i64_to_cbor_wf [simp]: "cbor_wf (i64_to_cbor a)"
proof -
  have "- (2 ^ 63) \<le> sint a" and "sint a < 2 ^ 63"
    using sint_ge [of a] sint_lt [of a] by simp_all
  then show ?thesis by (auto simp: i64_to_cbor_def nat_less_iff)
qed

lemma literal_of_cbor_i64: "literal_of_cbor (i64_to_cbor a) = Some (LitAmount a)"
proof -
  have r: "i64_of_cbor (i64_to_cbor a) = Some a" by (rule i64_roundtrip)
  then show ?thesis by (cases "i64_to_cbor a") (simp_all add: literal_of_cbor_def)
qed

lemma literal_roundtrip [simp]: "literal_of_cbor (literal_to_cbor l) = Some l"
proof (cases l rule: literal_to_cbor.cases)
  case (2 a)
  then show ?thesis by (simp add: literal_of_cbor_i64)
qed (simp_all add: literal_of_cbor_def cbor_variant_def variant_of_cbor_def)

lemma literal_to_cbor_wf:
  "length (cbor_encode (literal_to_cbor l)) < 2 ^ 64 \<Longrightarrow> cbor_wf (literal_to_cbor l)"
  by (cases l rule: literal_to_cbor.cases) (auto simp: cbor_variant_def)

lemma arg_roundtrip: "cbor_wf (arg_to_cbor a) \<Longrightarrow> arg_of_cbor (arg_to_cbor a) = Some a"
  by (cases a) (auto simp: arg_of_cbor_def cbor_variant_def variant_of_cbor_def cbor_decode_encode literal_to_cbor_wf)

lemma args_roundtrip:
  "\<forall>a\<in>set args. cbor_wf (arg_to_cbor a) \<Longrightarrow> those (map (arg_of_cbor \<circ> arg_to_cbor) args) = Some args"
  by (rule those_map_inverse) (simp add: arg_roundtrip)

lemma instruction_roundtrip:
  "cbor_wf (instruction_to_cbor i) \<Longrightarrow> instruction_of_cbor (instruction_to_cbor i) = Some i"
  by (cases i rule: instruction_to_cbor.cases)
    (auto simp: instruction_of_cbor_def cbor_variant_def variant_of_cbor_def cbor_struct_def args_roundtrip output_of_cbor_def
      split: option.splits)

lemma instructions_roundtrip:
  "cbor_wf (instructions_to_cbor S) \<Longrightarrow> instructions_of_cbor (instructions_to_cbor S) = Some S"
  unfolding instructions_to_cbor_def by (simp, rule those_map_inverse) (simp add: instruction_roundtrip)

lemma instructions_deserialise_serialiser:
  "instructions_serialiser S = Some e \<Longrightarrow> instructions_deserialise e = Some S"
  by (auto simp: instructions_serialiser_def instructions_deserialise_def cbor_decode_encode
      instructions_roundtrip dest!: cbor_serialiser_SomeD)

lemma self_delimiting_instructions_serialiser: "self_delimiting instructions_serialiser"
  unfolding instructions_serialiser_def
  by (rule self_delimiting_cbor_serialiser_inverse [OF instructions_roundtrip])

lemma instructions_serialiser_inj:
  "instructions_serialiser S = Some e \<Longrightarrow> instructions_serialiser S' = Some e \<Longrightarrow> S = S'"
  by (metis instructions_deserialise_serialiser option.inject)

subsection \<open>Hashing and signing instruction lists\<close>

text \<open>C15. Round trip: the bytes TariHasher32::chain absorbs for an instruction list, serialised as tari_bor writes it, decode (CBOR decoder, then serde deserialisation) to exactly that list.\<close>

lemma chain32_instructions_roundtrip:
  assumes "chain32 instructions_serialiser h S = Inr h'"
  shows "\<exists>e. hasher32_absorbed h' = hasher32_absorbed h @ e \<and> instructions_deserialise e = Some S"
  using assms by (auto simp: stream_simps instructions_deserialise_serialiser split: option.splits)

lemma chain32_instructions_roundtrip_witness:
  "\<exists>h' e. chain32 instructions_serialiser \<lparr>hasher32_absorbed = []\<rparr> [PutLastInstructionOutputOnWorkspace [1]] = Inr h'
     \<and> hasher32_absorbed h' = [] @ e \<and> instructions_deserialise e = Some [PutLastInstructionOutputOnWorkspace [1]]"
proof -
  obtain h' where c: "chain32 instructions_serialiser \<lparr>hasher32_absorbed = []\<rparr> [PutLastInstructionOutputOnWorkspace [1]] = Inr h'"
    by (simp add: stream_simps instructions_serialiser_def cbor_serialiser_def instructions_to_cbor_def
        cbor_variant_def cbor_struct_def)
  show ?thesis using chain32_instructions_roundtrip [OF c] c by auto
qed

text \<open>C14. Tampering under the concrete encoding: when instruction lists are serialised as tari_bor writes them (serde over CBOR), a signature made by TransactionSignature::sign over one list that also verifies a different list exposes a Blake2b collision, with no hypothesis on the serialiser.\<close>

lemma sign_instructions_tamper:
  assumes "schnorr_binding C" and "schnorr_correct C"
    and "sign C instructions_serialiser H sk S = Inr ts"
    and "verify_transaction_signature C instructions_serialiser H ts S'" and "S' \<noteq> S"
  shows "\<exists>x y. x \<noteq> y \<and> H 32 x = H 32 y"
proof -
  obtain e e' where e: "instructions_serialiser S = Some e" "instructions_serialiser S' = Some e'"
    and h: "H 32 (dst_bytes TariEngineHashDomain (as_label challenge_label) @ e)
          = H 32 (dst_bytes TariEngineHashDomain (as_label challenge_label) @ e')"
    using assms(1-4) by (rule sign_verify_same_challenge)
  have "e \<noteq> e'" using e assms(5) instructions_serialiser_inj by blast
  with h show ?thesis by (rule digest_collision)
qed

lemma sign_instructions_tamper_witness:
  "\<exists>x y. x \<noteq> y \<and> (\<lambda>n (xs :: bytes). replicate n (0::u8)) 32 x = (\<lambda>n (xs :: bytes). replicate n (0::u8)) 32 y"
proof -
  have c: "schnorr_correct echo_scheme" by (simp add: schnorr_correct_def echo_scheme_def)
  have b: "schnorr_binding echo_scheme" by (simp add: schnorr_binding_def echo_scheme_def)
  have s: "sign echo_scheme instructions_serialiser (\<lambda>n (xs :: bytes). replicate n (0::u8)) 5 []
      = Inr \<lparr>ts_public_key = 5, ts_signature = replicate 32 0\<rparr>"
    by (simp add: sign_eq instruction_challenge_eq echo_scheme_def instructions_serialiser_def
        cbor_serialiser_def instructions_to_cbor_def)
  have v: "verify_transaction_signature echo_scheme instructions_serialiser (\<lambda>n (xs :: bytes). replicate n (0::u8))
      \<lparr>ts_public_key = 5, ts_signature = replicate 32 0\<rparr> [PutLastInstructionOutputOnWorkspace [1]]"
    by (simp add: verify_transaction_signature_def instruction_challenge_eq echo_scheme_def
        instructions_serialiser_def cbor_serialiser_def instructions_to_cbor_def cbor_variant_def cbor_struct_def)
  show ?thesis
    by (rule sign_instructions_tamper [OF b c s v]) simp
qed

end
