(* ===== verification/Transaction.thy ===== *)
theory Transaction
  imports Signature
begin

text \<open>
  The transaction builder (\<^verbatim>\<open>Transaction::builder()\<close> with \<^verbatim>\<open>with_fee_instructions\<close>,
  \<^verbatim>\<open>with_input_refs\<close>, \<^verbatim>\<open>sign\<close> and \<^verbatim>\<open>build\<close>, called from
  \<^verbatim>\<open>src/tari_wallet_lib/src/lib.rs\<close>). The module \<^verbatim>\<open>transaction/transaction.rs\<close> is not
  among the sources, so the builder is modelled from the specification (section 4.5): a
  state machine \<open>Empty\<close>, \<open>Assembling\<close>, \<open>Signed\<close>; setters and signing after
  \<open>Signed\<close> and \<open>build\<close> before it are \<open>BuilderMisuse\<close>; signing signs the fee
  instructions with \<open>Signature.sign\<close>. A \<open>transaction\<close> holds the fee instructions, the
  input references and one signature.

  The builder's operations form a \<open>builder_op\<close> datatype with one step function;
  \<open>builder_reachable\<close> is the set of builders reachable from \<^verbatim>\<open>builder()\<close>. The
  invariant \<open>builder_inv\<close> (a builder is \<open>Signed\<close> exactly when it holds a signature,
  an \<open>Empty\<close> builder holds nothing, and a held signature verifies the held fee
  instructions) holds on every reachable builder, so every built transaction verifies.
\<close>

datatype builder_phase = Empty | Assembling | Signed

record ('i, 'r, 'pk, 'sig) transaction =
  tx_fee_instructions :: "'i list"
  tx_input_refs :: "'r list"
  tx_signature :: "('pk, 'sig) transaction_signature"

record ('i, 'r, 'pk, 'sig) transaction_builder =
  tb_phase :: builder_phase
  tb_fee_instructions :: "'i list"
  tb_input_refs :: "'r list"
  tb_signature :: "('pk, 'sig) transaction_signature option"

definition transaction_builder_new :: "('i, 'r, 'pk, 'sig) transaction_builder" where
  "transaction_builder_new =
     \<lparr>tb_phase = Empty, tb_fee_instructions = [], tb_input_refs = [], tb_signature = None\<rparr>"

definition with_fee_instructions ::
  "'i list \<Rightarrow> ('i, 'r, 'pk, 'sig) transaction_builder \<Rightarrow> ('i, 'r, 'pk, 'sig) transaction_builder res" where
  "with_fee_instructions instructions b =
     (if tb_phase b = Signed then Inl BuilderMisuse
      else Inr (b\<lparr>tb_phase := Assembling, tb_fee_instructions := instructions\<rparr>))"

definition with_input_refs ::
  "'r list \<Rightarrow> ('i, 'r, 'pk, 'sig) transaction_builder \<Rightarrow> ('i, 'r, 'pk, 'sig) transaction_builder res" where
  "with_input_refs input_refs b =
     (if tb_phase b = Signed then Inl BuilderMisuse
      else Inr (b\<lparr>tb_phase := Assembling, tb_input_refs := input_refs\<rparr>))"

definition builder_sign ::
  "('sk, 'pk, 'sig) schnorr \<Rightarrow> 'i list encoder \<Rightarrow> blake2b \<Rightarrow> 'sk
     \<Rightarrow> ('i, 'r, 'pk, 'sig) transaction_builder \<Rightarrow> ('i, 'r, 'pk, 'sig) transaction_builder res" where
  "builder_sign C enc H secret_key b =
     (if tb_phase b = Signed then Inl BuilderMisuse
      else bind_res (sign C enc H secret_key (tb_fee_instructions b)) (\<lambda>s.
             Inr (b\<lparr>tb_phase := Signed, tb_signature := Some s\<rparr>)))"

definition build ::
  "('i, 'r, 'pk, 'sig) transaction_builder \<Rightarrow> ('i, 'r, 'pk, 'sig) transaction res" where
  "build b =
     (case (tb_phase b, tb_signature b) of
        (Signed, Some s) \<Rightarrow>
          Inr \<lparr>tx_fee_instructions = tb_fee_instructions b, tx_input_refs = tb_input_refs b,
               tx_signature = s\<rparr>
      | _ \<Rightarrow> Inl BuilderMisuse)"

subsection \<open>The builder as a state machine\<close>

datatype ('i, 'r, 'sk) builder_op =
    SetFeeInstructions "'i list"
  | SetInputRefs "'r list"
  | Sign 'sk

fun builder_step ::
  "('sk, 'pk, 'sig) schnorr \<Rightarrow> 'i list encoder \<Rightarrow> blake2b \<Rightarrow> ('i, 'r, 'sk) builder_op
     \<Rightarrow> ('i, 'r, 'pk, 'sig) transaction_builder \<Rightarrow> ('i, 'r, 'pk, 'sig) transaction_builder res" where
  "builder_step C enc H (SetFeeInstructions is) b = with_fee_instructions is b"
| "builder_step C enc H (SetInputRefs rs) b = with_input_refs rs b"
| "builder_step C enc H (Sign sk) b = builder_sign C enc H sk b"

fun run_builder ::
  "('sk, 'pk, 'sig) schnorr \<Rightarrow> 'i list encoder \<Rightarrow> blake2b \<Rightarrow> ('i, 'r, 'sk) builder_op list
     \<Rightarrow> ('i, 'r, 'pk, 'sig) transaction_builder \<Rightarrow> ('i, 'r, 'pk, 'sig) transaction_builder res" where
  "run_builder C enc H [] b = Inr b"
| "run_builder C enc H (op # ops) b = bind_res (builder_step C enc H op b) (run_builder C enc H ops)"

inductive builder_reachable ::
  "('sk, 'pk, 'sig) schnorr \<Rightarrow> 'i list encoder \<Rightarrow> blake2b
     \<Rightarrow> ('i, 'r, 'pk, 'sig) transaction_builder \<Rightarrow> bool"
  for C enc H where
  reach_new: "builder_reachable C enc H transaction_builder_new"
| reach_step: "builder_reachable C enc H b \<Longrightarrow> builder_step C enc H op b = Inr b'
     \<Longrightarrow> builder_reachable C enc H b'"

definition builder_wf :: "('i, 'r, 'pk, 'sig) transaction_builder \<Rightarrow> bool" where
  "builder_wf b \<longleftrightarrow>
     (tb_phase b = Signed \<longleftrightarrow> tb_signature b \<noteq> None)
     \<and> (tb_phase b = Empty \<longrightarrow> tb_fee_instructions b = [] \<and> tb_input_refs b = [])"

definition builder_inv ::
  "('sk, 'pk, 'sig) schnorr \<Rightarrow> 'i list encoder \<Rightarrow> blake2b
     \<Rightarrow> ('i, 'r, 'pk, 'sig) transaction_builder \<Rightarrow> bool" where
  "builder_inv C enc H b \<longleftrightarrow>
     builder_wf b
     \<and> (case tb_signature b of None \<Rightarrow> True
        | Some s \<Rightarrow> verify_transaction_signature C enc H s (tb_fee_instructions b))"

inductive_cases builder_reachableE: "builder_reachable C enc H b"

lemmas builder_ops_defs = with_fee_instructions_def with_input_refs_def builder_sign_def

subsection \<open>Each operation\<close>

lemma signed_step_misuse:
  "tb_phase b = Signed \<Longrightarrow> builder_step C enc H op b = Inl BuilderMisuse"
  by (cases op) (simp_all add: builder_ops_defs)

lemma builder_step_Inr_cases:
  assumes "builder_step C enc H op b = Inr b'"
  shows "tb_phase b \<noteq> Signed \<and>
    ((\<exists>is. op = SetFeeInstructions is \<and> b' = b\<lparr>tb_phase := Assembling, tb_fee_instructions := is\<rparr>)
     \<or> (\<exists>rs. op = SetInputRefs rs \<and> b' = b\<lparr>tb_phase := Assembling, tb_input_refs := rs\<rparr>)
     \<or> (\<exists>sk s. op = Sign sk \<and> sign C enc H sk (tb_fee_instructions b) = Inr s
          \<and> b' = b\<lparr>tb_phase := Signed, tb_signature := Some s\<rparr>))"
  using assms by (cases op) (auto simp: builder_ops_defs bind_res_eq_Inr split: if_splits)

lemma builder_step_wf:
  "builder_wf b \<Longrightarrow> builder_step C enc H op b = Inr b' \<Longrightarrow> builder_wf b'"
  by (drule builder_step_Inr_cases) (auto simp: builder_wf_def)

lemma builder_step_inv:
  assumes "schnorr_correct C" and "builder_inv C enc H b" and "builder_step C enc H op b = Inr b'"
  shows "builder_inv C enc H b'"
proof -
  have wf: "builder_wf b'"
    using assms(2,3) builder_step_wf unfolding builder_inv_def by blast
  from builder_step_Inr_cases [OF assms(3)] assms(1,2) show ?thesis
    using sign_verifies wf by (auto simp: builder_inv_def builder_wf_def)
qed

lemma builder_new_inv: "builder_inv C enc H transaction_builder_new"
  by (simp add: builder_inv_def builder_wf_def transaction_builder_new_def)

lemma builder_reachable_wf: "builder_reachable C enc H b \<Longrightarrow> builder_wf b"
proof (induction rule: builder_reachable.induct)
  case reach_new
  show ?case by (simp add: builder_wf_def transaction_builder_new_def)
next
  case (reach_step b op b')
  then show ?case using builder_step_wf by blast
qed

lemma build_Inr:
  assumes "build b = Inr tx"
  shows "tb_phase b = Signed" and "tb_signature b = Some (tx_signature tx)"
    and "tx_fee_instructions tx = tb_fee_instructions b" and "tx_input_refs tx = tb_input_refs b"
  using assms by (auto simp: build_def split: builder_phase.splits option.splits)

lemma run_builder_reachable:
  "builder_reachable C enc H b \<Longrightarrow> run_builder C enc H ops b = Inr b' \<Longrightarrow> builder_reachable C enc H b'"
  by (induction ops arbitrary: b) (auto simp: bind_res_eq_Inr intro: reach_step)

subsection \<open>Properties of the builder\<close>

lemma builder_reachable_inv:
  assumes "schnorr_correct C" and "builder_reachable C enc H b"
  shows "builder_inv C enc H b"
  using assms(2)
proof induction
  case reach_new
  show ?case by (rule builder_new_inv)
next
  case (reach_step b op b')
  then show ?case using builder_step_inv [OF assms(1)] by blast
qed

text \<open>C4. Signature round trip through the builder: for a correct signature scheme, every transaction built from a reachable builder carries a signature that verifies against the challenge recomputed from its own fee instructions.\<close>

lemma build_verifies:
  assumes "schnorr_correct C" and "builder_reachable C enc H b" and "build b = Inr tx"
  shows "verify_transaction_signature C enc H (tx_signature tx) (tx_fee_instructions tx)"
proof -
  have "builder_inv C enc H b"
    using assms(1,2) builder_reachable_inv by blast
  with build_Inr [OF assms(3)] show ?thesis by (simp add: builder_inv_def)
qed

lemma build_verifies_witness:
  "verify_transaction_signature echo_scheme (\<lambda>S :: u8 list. Some S) (\<lambda>n (xs :: bytes). replicate n (0::u8))
     \<lparr>ts_public_key = 5, ts_signature = replicate 32 0\<rparr> [1, 2]"
proof -
  let ?enc = "\<lambda>S :: u8 list. Some S" and ?H = "\<lambda>n (xs :: bytes). replicate n (0::u8)"
  have c: "schnorr_correct echo_scheme" by (simp add: schnorr_correct_def echo_scheme_def)
  have s: "sign echo_scheme ?enc ?H 5 [1, 2] = Inr \<lparr>ts_public_key = 5, ts_signature = replicate 32 0\<rparr>"
    by (simp add: sign_eq instruction_challenge_eq echo_scheme_def)
  let ?b1 = "\<lparr>tb_phase = Assembling, tb_fee_instructions = [1, 2 :: u8], tb_input_refs = [] :: nat list,
              tb_signature = None\<rparr>"
  let ?b2 = "?b1\<lparr>tb_phase := Signed, tb_signature := Some \<lparr>ts_public_key = 5, ts_signature = replicate 32 0\<rparr>\<rparr>"
  have r1: "builder_reachable echo_scheme ?enc ?H ?b1"
    by (rule reach_step [OF reach_new, where op = "SetFeeInstructions [1, 2]"])
      (simp add: with_fee_instructions_def transaction_builder_new_def)
  have r2: "builder_reachable echo_scheme ?enc ?H ?b2"
    by (rule reach_step [OF r1, where op = "Sign 5"]) (simp add: builder_sign_def s)
  have b: "build ?b2 = Inr \<lparr>tx_fee_instructions = [1, 2], tx_input_refs = [],
      tx_signature = \<lparr>ts_public_key = 5, ts_signature = replicate 32 0\<rparr>\<rparr>"
    by (simp add: build_def)
  show ?thesis using build_verifies [OF c r2 b] by simp
qed

lemma build_misuse_iff:
  "builder_reachable C enc H b \<Longrightarrow> build b = Inl e \<longleftrightarrow> e = BuilderMisuse \<and> tb_phase b \<noteq> Signed"
  by (drule builder_reachable_wf)
    (auto simp: build_def builder_wf_def split: builder_phase.splits option.splits)

lemma signed_builder_frozen:
  "tb_phase b = Signed \<Longrightarrow> run_builder C enc H ops b = Inr b' \<longleftrightarrow> ops = [] \<and> b' = b"
  by (cases ops) (auto simp: signed_step_misuse)

text \<open>C22. Signing may happen at most once: after a successful sign, signing again fails with BuilderMisuse.\<close>

lemma sign_twice_misuse:
  "builder_sign C enc H sk b = Inr b' \<Longrightarrow> builder_sign C enc H sk' b' = Inl BuilderMisuse"
  by (auto simp: builder_sign_def bind_res_eq_Inr split: if_splits)

lemma sign_twice_misuse_witness:
  "builder_sign echo_scheme (\<lambda>S :: u8 list. Some S) (\<lambda>n (xs :: bytes). xs) 7
     (transaction_builder_new\<lparr>tb_phase := Signed,
        tb_signature := Some \<lparr>ts_public_key = 5, ts_signature = dst_bytes TariEngineHashDomain (as_label challenge_label)\<rparr>\<rparr>
      :: (u8, nat, nat, bytes) transaction_builder) = Inl BuilderMisuse"
  by (rule sign_twice_misuse [of _ _ _ 5 "transaction_builder_new"])
    (simp add: builder_sign_def sign_eq instruction_challenge_eq echo_scheme_def transaction_builder_new_def)

text \<open>C23. A builder with no instructions and no input references, signed and built, gives the empty-instruction transaction with no input references, and its signature verifies.\<close>

lemma empty_builder_builds:
  assumes "schnorr_correct C" and "sign C enc H sk [] = Inr s"
  shows "bind_res (run_builder C enc H [Sign sk] transaction_builder_new) build
           = Inr \<lparr>tx_fee_instructions = [], tx_input_refs = [], tx_signature = s\<rparr>
         \<and> verify_transaction_signature C enc H s []"
  using assms sign_verifies [OF assms]
  by (simp add: builder_sign_def transaction_builder_new_def build_def)

lemma empty_builder_builds_witness:
  "bind_res (run_builder echo_scheme (\<lambda>S :: u8 list. Some S) (\<lambda>n (xs :: bytes). replicate n (0::u8)) [Sign 5]
       (transaction_builder_new :: (u8, nat, nat, bytes) transaction_builder)) build
     = Inr \<lparr>tx_fee_instructions = [], tx_input_refs = [], tx_signature = \<lparr>ts_public_key = 5, ts_signature = replicate 32 0\<rparr>\<rparr>
   \<and> verify_transaction_signature echo_scheme (\<lambda>S :: u8 list. Some S) (\<lambda>n (xs :: bytes). replicate n (0::u8))
       \<lparr>ts_public_key = 5, ts_signature = replicate 32 0\<rparr> []"
proof -
  have c: "schnorr_correct echo_scheme" by (simp add: schnorr_correct_def echo_scheme_def)
  have s: "sign echo_scheme (\<lambda>S :: u8 list. Some S) (\<lambda>n (xs :: bytes). replicate n (0::u8)) 5 []
      = Inr \<lparr>ts_public_key = 5, ts_signature = replicate 32 0\<rparr>"
    by (simp add: sign_eq instruction_challenge_eq echo_scheme_def)
  show ?thesis by (rule empty_builder_builds [OF c s])
qed

lemma reachable_signature_signs:
  assumes "builder_reachable C enc H b" and "tb_signature b = Some s"
  shows "\<exists>sk. sign C enc H sk (tb_fee_instructions b) = Inr s"
  using assms
proof (induction arbitrary: s rule: builder_reachable.induct)
  case reach_new
  then show ?case by (simp add: transaction_builder_new_def)
next
  case (reach_step b op b')
  have wf: "builder_wf b" using reach_step.hyps(1) by (rule builder_reachable_wf)
  from builder_step_Inr_cases [OF reach_step.hyps(2)] wf reach_step.IH reach_step.prems
  show ?case by (auto simp: builder_wf_def)
qed

text \<open>C5. Building refines the specification of a transaction: a transaction built from a reachable builder carries exactly TransactionSignature::sign of its own fee instructions under some secret key, whatever the order of the setters before signing.\<close>

lemma build_is_atomic_sign:
  assumes "builder_reachable C enc H b" and "build b = Inr tx"
  shows "\<exists>sk. sign C enc H sk (tx_fee_instructions tx) = Inr (tx_signature tx)"
  using reachable_signature_signs [OF assms(1) build_Inr(2) [OF assms(2)]] build_Inr(3) [OF assms(2)]
  by simp

lemma build_is_atomic_sign_witness:
  "\<exists>sk. sign echo_scheme (\<lambda>S :: u8 list. Some S) (\<lambda>n (xs :: bytes). replicate n (0::u8)) sk [1, 2]
     = Inr \<lparr>ts_public_key = 5, ts_signature = replicate 32 0\<rparr>"
proof -
  let ?enc = "\<lambda>S :: u8 list. Some S" and ?H = "\<lambda>n (xs :: bytes). replicate n (0::u8)"
  have s: "sign echo_scheme ?enc ?H 5 [1, 2] = Inr \<lparr>ts_public_key = 5, ts_signature = replicate 32 0\<rparr>"
    by (simp add: sign_eq instruction_challenge_eq echo_scheme_def)
  let ?b1 = "\<lparr>tb_phase = Assembling, tb_fee_instructions = [1, 2 :: u8], tb_input_refs = [] :: nat list,
              tb_signature = None\<rparr>"
  let ?b2 = "?b1\<lparr>tb_phase := Signed, tb_signature := Some \<lparr>ts_public_key = 5, ts_signature = replicate 32 0\<rparr>\<rparr>"
  have r1: "builder_reachable echo_scheme ?enc ?H ?b1"
    by (rule reach_step [OF reach_new, where op = "SetFeeInstructions [1, 2]"])
      (simp add: with_fee_instructions_def transaction_builder_new_def)
  have r2: "builder_reachable echo_scheme ?enc ?H ?b2"
    by (rule reach_step [OF r1, where op = "Sign 5"]) (simp add: builder_sign_def s)
  have b: "build ?b2 = Inr \<lparr>tx_fee_instructions = [1, 2], tx_input_refs = [],
      tx_signature = \<lparr>ts_public_key = 5, ts_signature = replicate 32 0\<rparr>\<rparr>"
    by (simp add: build_def)
  show ?thesis using build_is_atomic_sign [OF r2 b] by simp
qed

end
