(* ===== verification/Lib.thy ===== *)
theory Lib
  imports Instruction Transaction
begin

text \<open>
  The WASM entry points of \<^verbatim>\<open>src/tari_wallet_lib/src/lib.rs\<close>:
  \<^verbatim>\<open>build_ristretto_private_key\<close>, \<^verbatim>\<open>build_ristretto_public_key\<close>,
  \<^verbatim>\<open>get_account_component_address\<close>, \<^verbatim>\<open>create_transaction\<close>,
  \<^verbatim>\<open>create_transfer_transaction\<close> and \<^verbatim>\<open>create_free_test_coins_transaction\<close>.
  Each is a sequence of fallible steps joined by \<^verbatim>\<open>?\<close> (\<open>bind_res\<close>), in the source's
  order, ending with the builder chain \<^verbatim>\<open>builder().with_fee_instructions(..)...sign(..).build()\<close>.

  The instruction and argument types are those of theory \<open>Instruction\<close>. The
  environment the code reaches through libraries is one record \<open>wallet\<close>: the signature
  scheme, the hex codecs of Ristretto keys, Blake2b, the serialisers and
  \<^verbatim>\<open>ShardId::from_address\<close> (\<open>w_shard_id\<close>, a total function whose
  construction the repository does not contain). JavaScript values
  are taken already decoded (\<open>None\<close> when \<^verbatim>\<open>serde_wasm_bindgen::from_value\<close> fails);
  the final \<^verbatim>\<open>to_value\<close> is the identity on the built transaction. An \<open>i64\<close> is a
  64-bit word read as signed by \<open>sint\<close>.

  The lemmas reduce each builder chain to one call of \<open>sign\<close>, decompose a successful
  transfer into its steps (\<open>create_transfer_transaction_InrD\<close>) and rebuild one from
  them (\<open>create_transfer_transaction_intro\<close>), and list the error each step can raise.
  From these: transfers verify end to end, their instruction lists are exactly the
  source's, the builder is never misused, transfers succeed on well-formed input under
  total libraries (\<open>wallet_total\<close>), a malformed secret key is reported first, and
  neither amount nor fee is checked. Under the instruction serialiser of theory
  \<open>Instruction\<close>, the signature of every transaction an entry point returns binds
  its instruction list: verifying another list exposes a Blake2b collision.
\<close>

subsection \<open>Values the entry points build\<close>

datatype substate_address = SubstateResource bytes

datatype shard_id = Shard bytes

record ('sk, 'pk) key_codec =
  secret_from_hex :: "string \<Rightarrow> 'sk option"
  secret_to_hex :: "'sk \<Rightarrow> string"
  public_from_hex :: "string \<Rightarrow> 'pk option"
  public_to_hex :: "'pk \<Rightarrow> string"
  public_as_bytes :: "'pk \<Rightarrow> bytes"

record ('sk, 'pk, 'sig) wallet =
  w_scheme :: "('sk, 'pk, 'sig) schnorr"
  w_keys :: "('sk, 'pk) key_codec"
  w_H :: blake2b
  w_enc_template :: "template_address encoder"
  w_enc_id :: "bytes encoder"
  w_enc_instructions :: "instruction list encoder"
  w_shard_id :: "substate_address \<Rightarrow> u32 \<Rightarrow> shard_id"

type_synonym ('pk, 'sig) wallet_transaction = "(instruction, shard_id, 'pk, 'sig) transaction"

subsection \<open>Library calls\<close>

definition parse_secret_key :: "('sk, 'pk, 'sig) wallet \<Rightarrow> string \<Rightarrow> 'sk res" where
  "parse_secret_key W s =
     (case secret_from_hex (w_keys W) s of None \<Rightarrow> Inl (MalformedInput s) | Some k \<Rightarrow> Inr k)"

definition parse_public_key :: "('sk, 'pk, 'sig) wallet \<Rightarrow> string \<Rightarrow> 'pk res" where
  "parse_public_key W s =
     (case public_from_hex (w_keys W) s of None \<Rightarrow> Inl (MalformedInput s) | Some k \<Rightarrow> Inr k)"

definition account_address :: "('sk, 'pk, 'sig) wallet \<Rightarrow> string \<Rightarrow> component_address res" where
  "account_address W public_key =
     get_account_address_from_public_key (w_enc_template W) (w_enc_id W) (w_H W) public_key"

definition resource_address_from_str :: "string \<Rightarrow> bytes res" where
  "resource_address_from_str s =
     (let t = (if take 9 s = ''resource_'' then drop 9 s else s) in
      case hash_from_hex t of Inl _ \<Rightarrow> Inl (MalformedInput s) | Inr h \<Rightarrow> Inr h)"

definition ristretto_public_key_bytes_from_bytes :: "bytes \<Rightarrow> bytes option" where
  "ristretto_public_key_bytes_from_bytes bs = (if length bs = 32 then Some bs else None)"

definition unwrap :: "'a option \<Rightarrow> 'a res" where
  "unwrap x = (case x of None \<Rightarrow> Inl UnwrapFailed | Some v \<Rightarrow> Inr v)"

definition non_fungible_address_from_public_key :: "bytes \<Rightarrow> non_fungible_address" where
  "non_fungible_address_from_public_key pk = NonFungibleAddressOfPublicKey pk"

definition owner_token_from_public_key :: "('sk, 'pk, 'sig) wallet \<Rightarrow> 'pk \<Rightarrow> non_fungible_address res" where
  "owner_token_from_public_key W public_key =
     bind_res (unwrap (ristretto_public_key_bytes_from_bytes (public_as_bytes (w_keys W) public_key)))
       (\<lambda>pk_bytes. Inr (non_fungible_address_from_public_key pk_bytes))"

definition zero_template_address :: template_address where
  "zero_template_address = replicate 32 0"

definition component_address_to_string :: "component_address \<Rightarrow> string" where
  "component_address_to_string a = (case a of ComponentAddr bs \<Rightarrow> ''component_'' @ to_hex bs)"

subsection \<open>Entry points\<close>

definition build_ristretto_private_key :: "('sk, 'pk, 'sig) wallet \<Rightarrow> string \<Rightarrow> string res" where
  "build_ristretto_private_key W ecdsa_private_key =
     bind_res (parse_secret_key W ecdsa_private_key) (\<lambda>private_key.
     Inr (secret_to_hex (w_keys W) private_key))"

definition build_ristretto_public_key :: "('sk, 'pk, 'sig) wallet \<Rightarrow> string \<Rightarrow> string res" where
  "build_ristretto_public_key W ecdsa_private_key =
     bind_res (parse_secret_key W ecdsa_private_key) (\<lambda>private_key.
     (let public_key = from_secret_key (w_scheme W) private_key in
      Inr (public_to_hex (w_keys W) public_key)))"

definition get_account_component_address :: "('sk, 'pk, 'sig) wallet \<Rightarrow> string \<Rightarrow> string res" where
  "get_account_component_address W public_key =
     bind_res (account_address W public_key) (\<lambda>account_address.
     Inr (component_address_to_string account_address))"

definition sign_tx ::
  "('sk, 'pk, 'sig) wallet \<Rightarrow> 'sk
     \<Rightarrow> (instruction, shard_id, 'pk, 'sig) transaction_builder
     \<Rightarrow> (instruction, shard_id, 'pk, 'sig) transaction_builder res" where
  "sign_tx W sk b = builder_sign (w_scheme W) (w_enc_instructions W) (w_H W) sk b"

definition create_transaction ::
  "('sk, 'pk, 'sig) wallet \<Rightarrow> string \<Rightarrow> instruction list option \<Rightarrow> shard_id list option
     \<Rightarrow> ('pk, 'sig) wallet_transaction res" where
  "create_transaction W account_private_key_hex instructions_js input_refs_js =
     bind_res (parse_secret_key W account_private_key_hex) (\<lambda>account_private_key.
     bind_res (case instructions_js of None \<Rightarrow> Inl (MalformedInput ''instructions'') | Some v \<Rightarrow> Inr v)
       (\<lambda>instructions.
     bind_res (case input_refs_js of None \<Rightarrow> Inl (MalformedInput ''input_refs'') | Some v \<Rightarrow> Inr v)
       (\<lambda>input_refs.
     bind_res (with_fee_instructions instructions transaction_builder_new) (\<lambda>b.
     bind_res (with_input_refs input_refs b) (\<lambda>b.
     bind_res (sign_tx W account_private_key b) build)))))"

definition create_transfer_transaction ::
  "('sk, 'pk, 'sig) wallet \<Rightarrow> string \<Rightarrow> string \<Rightarrow> bool \<Rightarrow> string \<Rightarrow> i64 \<Rightarrow> i64
     \<Rightarrow> ('pk, 'sig) wallet_transaction res" where
  "create_transfer_transaction W source_private_key destination_public_key_hex
     create_destination_account resource_address amount fee =
     bind_res (parse_secret_key W source_private_key) (\<lambda>source_private_key.
     (let source_public_key = from_secret_key (w_scheme W) source_private_key in
     bind_res (account_address W (public_to_hex (w_keys W) source_public_key)) (\<lambda>source_account_address.
     bind_res (account_address W destination_public_key_hex) (\<lambda>destination_account_address.
     bind_res (parse_public_key W destination_public_key_hex) (\<lambda>destination_public_key.
     bind_res (resource_address_from_str resource_address) (\<lambda>withdrawn_resource.
     (let instructions =
        [CallMethod source_account_address ''withdraw''
           [Literal (LitResourceAddress withdrawn_resource), Literal (LitAmount amount)],
         PutLastInstructionOutputOnWorkspace (str_bytes ''bucket'')] in
     bind_res
       (if create_destination_account then
          bind_res (owner_token_from_public_key W destination_public_key) (\<lambda>owner_token.
          (let template_address = zero_template_address in
           Inr (instructions @
                [CallFunction template_address ''create'' [Literal (LitNonFungibleAddress owner_token)]])))
        else Inr instructions) (\<lambda>instructions.
     (let instructions = instructions @
        [CallMethod destination_account_address ''deposit'' [Workspace (str_bytes ''bucket'')],
         CallMethod source_account_address ''pay_fee'' [Literal (LitAmount fee)]] in
     bind_res (resource_address_from_str resource_address) (\<lambda>resource_address_obj.
     (let resource_substate = SubstateResource resource_address_obj in
     (let resource_shard_id = w_shard_id W resource_substate 0 in
     (let input_refs = [resource_shard_id] in
     bind_res (with_fee_instructions instructions transaction_builder_new) (\<lambda>b.
     bind_res (with_input_refs input_refs b) (\<lambda>b.
     bind_res (sign_tx W source_private_key b) build)))))))))))))))"

definition create_free_test_coins_transaction ::
  "('sk, 'pk, 'sig) wallet \<Rightarrow> bool \<Rightarrow> string \<Rightarrow> i64 \<Rightarrow> i64 \<Rightarrow> ('pk, 'sig) wallet_transaction res" where
  "create_free_test_coins_transaction W is_new_account account_private_key amount fee =
     bind_res (parse_secret_key W account_private_key) (\<lambda>account_private_key.
     (let account_public_key = from_secret_key (w_scheme W) account_private_key in
     bind_res (account_address W (public_to_hex (w_keys W) account_public_key)) (\<lambda>account_component_address.
     (let instructions =
        [CreateFreeTestCoins amount None,
         PutLastInstructionOutputOnWorkspace (str_bytes ''free_test_coins'')] in
     bind_res
       (if is_new_account then
          bind_res (owner_token_from_public_key W account_public_key) (\<lambda>owner_token.
          (let template_address = zero_template_address in
           Inr (instructions @
                [CallFunction template_address ''create_with_bucket''
                   [Literal (LitNonFungibleAddress owner_token), Workspace (str_bytes ''free_test_coins'')]])))
        else Inr (instructions @
                [CallMethod account_component_address ''deposit'' [Workspace (str_bytes ''free_test_coins'')]]))
       (\<lambda>instructions.
     (let instructions = instructions @
        [CallMethod account_component_address ''pay_fee'' [Literal (LitAmount fee)]] in
     bind_res (with_fee_instructions instructions transaction_builder_new) (\<lambda>b.
     bind_res (sign_tx W account_private_key b) build)))))))"

definition wallet_total :: "('sk, 'pk, 'sig) wallet \<Rightarrow> bool" where
  "wallet_total W \<longleftrightarrow>
     encoder_total (w_enc_template W) \<and> encoder_total (w_enc_id W)
     \<and> encoder_total (w_enc_instructions W)
     \<and> (\<forall>sk m. sign_message (w_scheme W) sk m \<noteq> None)
     \<and> (\<forall>pk. length (public_as_bytes (w_keys W) pk) = 32
            \<and> public_to_hex (w_keys W) pk = to_hex (public_as_bytes (w_keys W) pk))"

text \<open>
  A concrete environment for examples: the echo scheme, secret key \<open>''01''\<close>, the public
  key \<open>n\<close> with the 32 bytes \<open>n\<close>, serialisers that write nothing, and a constant
  compression function.
\<close>

definition example_keys :: "(nat, nat) key_codec" where
  "example_keys =
     \<lparr>secret_from_hex = (\<lambda>s. if s = ''01'' then Some 1 else None), secret_to_hex = (\<lambda>k. ''01''),
      public_from_hex = (\<lambda>s. Some 2), public_to_hex = (\<lambda>pk. to_hex (replicate 32 (of_nat pk))),
      public_as_bytes = (\<lambda>pk. replicate 32 (of_nat pk))\<rparr>"

definition example_wallet :: "(nat, nat, bytes) wallet" where
  "example_wallet =
     \<lparr>w_scheme = echo_scheme, w_keys = example_keys, w_H = (\<lambda>n xs. replicate n 0),
      w_enc_template = (\<lambda>x. Some x), w_enc_id = (\<lambda>x. Some x), w_enc_instructions = (\<lambda>x. Some []),
      w_shard_id = (\<lambda>a v. Shard (replicate 32 0))\<rparr>"

subsection \<open>Builder chains\<close>

lemmas create_transfer_transaction_unfold =
  create_transfer_transaction_def owner_token_from_public_key_def zero_template_address_def

lemmas create_free_test_coins_transaction_unfold =
  create_free_test_coins_transaction_def owner_token_from_public_key_def zero_template_address_def

lemma builder_chain_eq:
  "bind_res (with_fee_instructions is transaction_builder_new) (\<lambda>b.
     bind_res (with_input_refs rs b) (\<lambda>b. bind_res (sign_tx W sk b) build))
   = bind_res (sign (w_scheme W) (w_enc_instructions W) (w_H W) sk is) (\<lambda>s.
       Inr \<lparr>tx_fee_instructions = is, tx_input_refs = rs, tx_signature = s\<rparr>)"
  by (cases "sign (w_scheme W) (w_enc_instructions W) (w_H W) sk is")
    (simp_all add: builder_ops_defs sign_tx_def transaction_builder_new_def build_def)

lemma builder_chain_no_refs_eq:
  "bind_res (with_fee_instructions is transaction_builder_new) (\<lambda>b. bind_res (sign_tx W sk b) build)
   = bind_res (sign (w_scheme W) (w_enc_instructions W) (w_H W) sk is) (\<lambda>s.
       Inr \<lparr>tx_fee_instructions = is, tx_input_refs = [], tx_signature = s\<rparr>)"
  by (cases "sign (w_scheme W) (w_enc_instructions W) (w_H W) sk is")
    (simp_all add: builder_ops_defs sign_tx_def transaction_builder_new_def build_def)

lemma create_transfer_transaction_InrD:
  "create_transfer_transaction W s d c r amount fee = Inr tx \<Longrightarrow>
   (\<exists>sk src dst dpk ra mid sig.
      parse_secret_key W s = Inr sk
    \<and> account_address W (public_to_hex (w_keys W) (from_secret_key (w_scheme W) sk)) = Inr src
    \<and> account_address W d = Inr dst
    \<and> parse_public_key W d = Inr dpk
    \<and> resource_address_from_str r = Inr ra
    \<and> (if c then (\<exists>pkb. ristretto_public_key_bytes_from_bytes (public_as_bytes (w_keys W) dpk) = Some pkb
           \<and> mid = [CallFunction (replicate 32 0) ''create''
                     [Literal (LitNonFungibleAddress (non_fungible_address_from_public_key pkb))]])
        else mid = [])
    \<and> sign (w_scheme W) (w_enc_instructions W) (w_H W) sk
        ([CallMethod src ''withdraw'' [Literal (LitResourceAddress ra), Literal (LitAmount amount)],
          PutLastInstructionOutputOnWorkspace (str_bytes ''bucket'')] @ mid @
         [CallMethod dst ''deposit'' [Workspace (str_bytes ''bucket'')],
          CallMethod src ''pay_fee'' [Literal (LitAmount fee)]]) = Inr sig
    \<and> tx = \<lparr>tx_fee_instructions =
              [CallMethod src ''withdraw'' [Literal (LitResourceAddress ra), Literal (LitAmount amount)],
               PutLastInstructionOutputOnWorkspace (str_bytes ''bucket'')] @ mid @
              [CallMethod dst ''deposit'' [Workspace (str_bytes ''bucket'')],
               CallMethod src ''pay_fee'' [Literal (LitAmount fee)]],
            tx_input_refs = [w_shard_id W (SubstateResource ra) 0], tx_signature = sig\<rparr>)"
  by (cases c)
    (auto simp: create_transfer_transaction_unfold builder_chain_eq bind_res_eq_Inr unwrap_def Let_def
      split: option.splits)

lemma account_address_total:
  assumes "wallet_total W" and "hash_from_hex pk = Inr b"
  shows "\<exists>a. account_address W pk = Inr a"
proof -
  have t: "encoder_total (w_enc_template W)" "encoder_total (w_enc_id W)"
    using assms(1) by (simp_all add: wallet_total_def)
  obtain et ec where "w_enc_template W ACCOUNT_TEMPLATE_ADDRESS = Some et" "w_enc_id W b = Some ec"
    using t by (meson encoder_totalE)
  with assms(2) show ?thesis
    by (simp add: account_address_def get_account_address_from_public_key_def new_component_address_from_parts_eq)
qed

lemma account_address_own_key:
  assumes "wallet_total W"
  shows "\<exists>a. account_address W (public_to_hex (w_keys W) pk) = Inr a"
proof -
  have "length (public_as_bytes (w_keys W) pk) = 32"
    and "public_to_hex (w_keys W) pk = to_hex (public_as_bytes (w_keys W) pk)"
    using assms by (simp_all add: wallet_total_def)
  then show ?thesis
    using account_address_total [OF assms] hash_from_hex_to_hex by metis
qed

lemma create_transfer_transaction_intro:
  assumes "parse_secret_key W s = Inr sk"
    and "account_address W (public_to_hex (w_keys W) (from_secret_key (w_scheme W) sk)) = Inr src"
    and "account_address W d = Inr dst" and "parse_public_key W d = Inr dpk"
    and "resource_address_from_str r = Inr ra"
    and "length (public_as_bytes (w_keys W) dpk) = 32"
    and "\<forall>S. \<exists>sig. sign (w_scheme W) (w_enc_instructions W) (w_H W) sk S = Inr sig"
  shows "\<exists>tx. create_transfer_transaction W s d c r amount fee = Inr tx"
proof -
  let ?S = "\<lambda>mid. [CallMethod src ''withdraw'' [Literal (LitResourceAddress ra), Literal (LitAmount amount)],
          PutLastInstructionOutputOnWorkspace (str_bytes ''bucket'')] @ mid @
         [CallMethod dst ''deposit'' [Workspace (str_bytes ''bucket'')],
          CallMethod src ''pay_fee'' [Literal (LitAmount fee)]]"
  obtain sig1 sig2 where
    "sign (w_scheme W) (w_enc_instructions W) (w_H W) sk (?S []) = Inr sig1"
    "sign (w_scheme W) (w_enc_instructions W) (w_H W) sk
       (?S [CallFunction (replicate 32 0) ''create'' [Literal (LitNonFungibleAddress
          (non_fungible_address_from_public_key (public_as_bytes (w_keys W) dpk)))]]) = Inr sig2"
    using assms(7) by meson
  with assms(1-6) show ?thesis
    by (cases c) (simp_all add: create_transfer_transaction_unfold builder_chain_eq Let_def unwrap_def
        ristretto_public_key_bytes_from_bytes_def)
qed

subsection \<open>Examples\<close>

lemma example_wallet_total: "wallet_total example_wallet"
  by (simp add: wallet_total_def example_wallet_def example_keys_def encoder_total_def echo_scheme_def)

lemma example_resource: "resource_address_from_str (''resource_'' @ to_hex (replicate 32 3)) = Inr (replicate 32 3)"
  by (simp add: resource_address_from_str_def hash_from_hex_to_hex)

lemma example_transfer_exists:
  "\<exists>tx. create_transfer_transaction example_wallet ''01'' (to_hex (replicate 32 5)) True
     (''resource_'' @ to_hex (replicate 32 3)) (- 1) 10 = Inr tx"
proof -
  have pk: "parse_secret_key example_wallet ''01'' = Inr 1"
    by (simp add: parse_secret_key_def example_wallet_def example_keys_def)
  obtain src where "account_address example_wallet (public_to_hex (w_keys example_wallet)
      (from_secret_key (w_scheme example_wallet) 1)) = Inr src"
    using account_address_own_key [OF example_wallet_total] by blast
  moreover obtain dst where "account_address example_wallet (to_hex (replicate 32 5)) = Inr dst"
    using account_address_total [OF example_wallet_total hash_from_hex_to_hex [of "replicate 32 5"]] by auto
  moreover have "parse_public_key example_wallet (to_hex (replicate 32 5)) = Inr 2"
    by (simp add: parse_public_key_def example_wallet_def example_keys_def)
  moreover have "length (public_as_bytes (w_keys example_wallet) 2) = 32"
    by (simp add: example_wallet_def example_keys_def)
  moreover have "\<forall>S. \<exists>sig. sign (w_scheme example_wallet) (w_enc_instructions example_wallet) (w_H example_wallet) 1 S = Inr sig"
    using example_wallet_total sign_total [of "w_enc_instructions example_wallet" "w_scheme example_wallet"]
    by (simp add: wallet_total_def)
  ultimately show ?thesis
    using create_transfer_transaction_intro [OF pk] example_resource by blast
qed

subsection \<open>Properties of the entry points\<close>

text \<open>C19. With total serialisers and signer and well-formed key codecs, create_transfer_transaction succeeds whenever the source key, the destination key (as a 32-byte hash and as a public key) and the resource address parse.\<close>

lemma create_transfer_transaction_succeeds:
  assumes "wallet_total W" and "secret_from_hex (w_keys W) s = Some sk"
    and "hash_from_hex d = Inr b" and "public_from_hex (w_keys W) d = Some dpk"
    and "resource_address_from_str r = Inr ra"
  shows "\<exists>tx. create_transfer_transaction W s d c r amount fee = Inr tx"
proof -
  obtain src where "account_address W (public_to_hex (w_keys W) (from_secret_key (w_scheme W) sk)) = Inr src"
    using account_address_own_key [OF assms(1)] by blast
  moreover obtain dst where "account_address W d = Inr dst"
    using account_address_total [OF assms(1,3)] by blast
  moreover have "\<forall>S. \<exists>sig. sign (w_scheme W) (w_enc_instructions W) (w_H W) sk S = Inr sig"
    using assms(1) sign_total [of "w_enc_instructions W" "w_scheme W"] by (simp add: wallet_total_def)
  moreover have "length (public_as_bytes (w_keys W) dpk) = 32"
    using assms(1) by (simp add: wallet_total_def)
  ultimately show ?thesis
    using assms(2,4,5)
    by (intro create_transfer_transaction_intro) (simp_all add: parse_secret_key_def parse_public_key_def)
qed

lemma create_transfer_transaction_succeeds_witness:
  "\<exists>tx. create_transfer_transaction example_wallet ''01'' (to_hex (replicate 32 5)) False
     (''resource_'' @ to_hex (replicate 32 3)) 100 1 = Inr tx"
  by (rule create_transfer_transaction_succeeds [OF example_wallet_total _ hash_from_hex_to_hex _ example_resource])
    (simp_all add: example_wallet_def example_keys_def)

text \<open>C6. End to end: for a correct signature scheme, a transaction built by create_transfer_transaction carries a signature that verifies against the challenge recomputed from its own instructions, under the public key of the source secret key.\<close>

lemma create_transfer_transaction_verifies:
  assumes "schnorr_correct (w_scheme W)" and "create_transfer_transaction W s d c r amount fee = Inr tx"
  shows "verify_transaction_signature (w_scheme W) (w_enc_instructions W) (w_H W)
           (tx_signature tx) (tx_fee_instructions tx)
         \<and> (\<exists>sk. secret_from_hex (w_keys W) s = Some sk
                 \<and> ts_public_key (tx_signature tx) = from_secret_key (w_scheme W) sk)"
proof -
  from create_transfer_transaction_InrD [OF assms(2)] obtain sk S sig where
    k: "parse_secret_key W s = Inr sk" and
    g: "sign (w_scheme W) (w_enc_instructions W) (w_H W) sk S = Inr sig" and
    t: "tx_fee_instructions tx = S" "tx_signature tx = sig"
    by auto
  have "verify_transaction_signature (w_scheme W) (w_enc_instructions W) (w_H W) sig S"
    by (rule sign_verifies [OF assms(1) g])
  moreover have "ts_public_key sig = from_secret_key (w_scheme W) sk"
    using g by (rule sign_Inr_challenge) simp
  ultimately show ?thesis using k t
    by (auto simp: parse_secret_key_def split: option.splits)
qed

lemma create_transfer_transaction_verifies_witness:
  "\<exists>tx. create_transfer_transaction example_wallet ''01'' (to_hex (replicate 32 5)) True
          (''resource_'' @ to_hex (replicate 32 3)) (- 1) 10 = Inr tx
     \<and> verify_transaction_signature echo_scheme (\<lambda>x. Some []) (\<lambda>n xs. replicate n 0)
          (tx_signature tx) (tx_fee_instructions tx)"
proof -
  obtain tx where t: "create_transfer_transaction example_wallet ''01'' (to_hex (replicate 32 5)) True
      (''resource_'' @ to_hex (replicate 32 3)) (- 1) 10 = Inr tx"
    using example_transfer_exists by blast
  have c: "schnorr_correct (w_scheme example_wallet)"
    by (simp add: schnorr_correct_def example_wallet_def echo_scheme_def)
  show ?thesis using create_transfer_transaction_verifies [OF c t] t
    by (auto simp: example_wallet_def)
qed

lemma parse_secret_key_Inl:
  "parse_secret_key W s = Inl e \<longleftrightarrow> e = MalformedInput s \<and> secret_from_hex (w_keys W) s = None"
  by (auto simp: parse_secret_key_def split: option.splits)

lemma parse_public_key_Inl: "parse_public_key W s = Inl e \<Longrightarrow> e = MalformedInput s"
  by (auto simp: parse_public_key_def split: option.splits)

lemma account_address_Inl:
  "account_address W pk = Inl e \<Longrightarrow> e = MalformedInput pk \<or> e = EncodingFault"
  by (auto simp: account_address_def get_account_address_from_public_key_def bind_res_eq_Inl
      new_component_address_from_parts_eq hash_from_hex_Inl split: option.splits)

lemma resource_address_from_str_Inl: "resource_address_from_str s = Inl e \<Longrightarrow> e = MalformedInput s"
  by (auto simp: resource_address_from_str_def Let_def split: sum.splits)


lemma unwrap_Inl: "unwrap x = Inl e \<Longrightarrow> e = UnwrapFailed"
  by (auto simp: unwrap_def split: option.splits)

lemmas entry_point_errors = sign_Inl parse_public_key_Inl account_address_Inl
  resource_address_from_str_Inl unwrap_Inl

text \<open>C27. create_transaction signs exactly the given instruction list with the parsed key and returns it with the given input references.\<close>

lemma create_transaction_eq:
  "create_transaction W s (Some is) (Some rs) =
     bind_res (parse_secret_key W s) (\<lambda>sk.
     bind_res (sign (w_scheme W) (w_enc_instructions W) (w_H W) sk is) (\<lambda>sig.
     Inr \<lparr>tx_fee_instructions = is, tx_input_refs = rs, tx_signature = sig\<rparr>))"
  by (simp add: create_transaction_def builder_chain_eq)

text \<open>C11. The entry points drive the builder correctly: create_transaction, create_transfer_transaction and create_free_test_coins_transaction never fail with BuilderMisuse, whatever their inputs.\<close>

lemma entry_points_never_misuse:
  "create_transaction W s is_js rs_js \<noteq> Inl BuilderMisuse
   \<and> create_transfer_transaction W s d c r amount fee \<noteq> Inl BuilderMisuse
   \<and> create_free_test_coins_transaction W n s amount fee \<noteq> Inl BuilderMisuse"
proof (intro conjI notI)
  assume "create_transaction W s is_js rs_js = Inl BuilderMisuse"
  then show False
    by (auto simp: create_transaction_def builder_chain_eq bind_res_eq_Inl parse_secret_key_Inl
        split: option.splits dest: entry_point_errors)
next
  assume "create_transfer_transaction W s d c r amount fee = Inl BuilderMisuse"
  then show False
    by (auto simp: create_transfer_transaction_unfold builder_chain_eq bind_res_eq_Inl parse_secret_key_Inl Let_def
        split: if_splits dest: entry_point_errors)
next
  assume "create_free_test_coins_transaction W n s amount fee = Inl BuilderMisuse"
  then show False
    by (auto simp: create_free_test_coins_transaction_unfold builder_chain_no_refs_eq bind_res_eq_Inl
        parse_secret_key_Inl Let_def split: if_splits dest: entry_point_errors)
qed

lemma create_free_test_coins_transaction_InrD:
  "create_free_test_coins_transaction W n s amount fee = Inr tx \<Longrightarrow>
   (\<exists>sk acct mid sig.
      parse_secret_key W s = Inr sk
    \<and> account_address W (public_to_hex (w_keys W) (from_secret_key (w_scheme W) sk)) = Inr acct
    \<and> (if n then (\<exists>pkb. ristretto_public_key_bytes_from_bytes
                          (public_as_bytes (w_keys W) (from_secret_key (w_scheme W) sk)) = Some pkb
           \<and> mid = CallFunction (replicate 32 0) ''create_with_bucket''
                     [Literal (LitNonFungibleAddress (non_fungible_address_from_public_key pkb)),
                      Workspace (str_bytes ''free_test_coins'')])
        else mid = CallMethod acct ''deposit'' [Workspace (str_bytes ''free_test_coins'')])
    \<and> sign (w_scheme W) (w_enc_instructions W) (w_H W) sk
        [CreateFreeTestCoins amount None, PutLastInstructionOutputOnWorkspace (str_bytes ''free_test_coins''),
         mid, CallMethod acct ''pay_fee'' [Literal (LitAmount fee)]] = Inr sig
    \<and> tx = \<lparr>tx_fee_instructions =
              [CreateFreeTestCoins amount None, PutLastInstructionOutputOnWorkspace (str_bytes ''free_test_coins''),
               mid, CallMethod acct ''pay_fee'' [Literal (LitAmount fee)]],
            tx_input_refs = [], tx_signature = sig\<rparr>)"
  by (cases n)
    (auto simp: create_free_test_coins_transaction_unfold builder_chain_no_refs_eq bind_res_eq_Inr unwrap_def Let_def
      split: option.splits)

lemma entry_points_signed:
  assumes "create_transaction W s is rs = Inr tx \<or> create_transfer_transaction W s d c r amount fee = Inr tx
    \<or> create_free_test_coins_transaction W n s amount fee = Inr tx"
  shows "\<exists>sk. sign (w_scheme W) (w_enc_instructions W) (w_H W) sk (tx_fee_instructions tx) = Inr (tx_signature tx)"
  using assms
proof (elim disjE)
  assume "create_transaction W s is rs = Inr tx"
  then show ?thesis
    by (auto simp: create_transaction_def builder_chain_eq bind_res_eq_Inr split: option.splits)
next
  assume "create_transfer_transaction W s d c r amount fee = Inr tx"
  then show ?thesis using create_transfer_transaction_InrD by fastforce
next
  assume "create_free_test_coins_transaction W n s amount fee = Inr tx"
  then show ?thesis using create_free_test_coins_transaction_InrD by fastforce
qed

text \<open>C10. A transfer transaction has the instructions in insertion order, built from the parsed arguments: withdraw the parsed resource and the amount from the account of the sender's key, put the bucket on the workspace, create the account owned by the destination key exactly when requested, deposit the bucket into the account of the destination key, pay the fee from the sender's account; its only input reference is the shard of the parsed resource at version 0.\<close>

lemma create_transfer_transaction_instructions:
  assumes "create_transfer_transaction W s d c r amount fee = Inr tx"
  shows "\<exists>sk src dst dpk ra.
     parse_secret_key W s = Inr sk
   \<and> account_address W (public_to_hex (w_keys W) (from_secret_key (w_scheme W) sk)) = Inr src
   \<and> account_address W d = Inr dst \<and> parse_public_key W d = Inr dpk
   \<and> resource_address_from_str r = Inr ra
   \<and> tx_fee_instructions tx =
       [CallMethod src ''withdraw'' [Literal (LitResourceAddress ra), Literal (LitAmount amount)],
        PutLastInstructionOutputOnWorkspace (str_bytes ''bucket'')] @
       (if c then [CallFunction (replicate 32 0) ''create''
                     [Literal (LitNonFungibleAddress (NonFungibleAddressOfPublicKey (public_as_bytes (w_keys W) dpk)))]]
        else []) @
       [CallMethod dst ''deposit'' [Workspace (str_bytes ''bucket'')],
        CallMethod src ''pay_fee'' [Literal (LitAmount fee)]]
   \<and> tx_input_refs tx = [w_shard_id W (SubstateResource ra) 0]"
  using create_transfer_transaction_InrD [OF assms]
  by (cases c) (auto simp: ristretto_public_key_bytes_from_bytes_def non_fungible_address_from_public_key_def
      split: if_splits)

lemma create_transfer_transaction_instructions_witness:
  "\<exists>tx. create_transfer_transaction example_wallet ''01'' (to_hex (replicate 32 5)) True
          (''resource_'' @ to_hex (replicate 32 3)) (- 1) 10 = Inr tx
     \<and> tx_fee_instructions tx ! 2 = CallFunction (replicate 32 0) ''create''
          [Literal (LitNonFungibleAddress (NonFungibleAddressOfPublicKey (replicate 32 2)))]
     \<and> tx_fee_instructions tx ! 0 \<noteq> tx_fee_instructions tx ! 3
     \<and> tx_input_refs tx = [Shard (replicate 32 0)]"
proof -
  obtain tx where t: "create_transfer_transaction example_wallet ''01'' (to_hex (replicate 32 5)) True
      (''resource_'' @ to_hex (replicate 32 3)) (- 1) 10 = Inr tx"
    using example_transfer_exists by blast
  have "parse_public_key example_wallet (to_hex (replicate 32 5)) = Inr 2"
    by (simp add: parse_public_key_def example_wallet_def example_keys_def)
  with create_transfer_transaction_instructions [OF t] example_resource show ?thesis
    using t by (auto simp: example_wallet_def example_keys_def)
qed

text \<open>C25. A free-test-coins transaction mints the amount, puts the coins on the workspace, then creates the account owned by the public key of the secret key with the bucket when the account is new and otherwise deposits into that key's account, and pays the fee from that account; it has no input references.\<close>

lemma create_free_test_coins_instructions:
  assumes "create_free_test_coins_transaction W n s amount fee = Inr tx"
  shows "\<exists>sk acct.
     parse_secret_key W s = Inr sk
   \<and> account_address W (public_to_hex (w_keys W) (from_secret_key (w_scheme W) sk)) = Inr acct
   \<and> tx_fee_instructions tx =
       [CreateFreeTestCoins amount None, PutLastInstructionOutputOnWorkspace (str_bytes ''free_test_coins''),
        if n then CallFunction (replicate 32 0) ''create_with_bucket''
               [Literal (LitNonFungibleAddress (NonFungibleAddressOfPublicKey
                  (public_as_bytes (w_keys W) (from_secret_key (w_scheme W) sk)))),
                Workspace (str_bytes ''free_test_coins'')]
        else CallMethod acct ''deposit'' [Workspace (str_bytes ''free_test_coins'')],
        CallMethod acct ''pay_fee'' [Literal (LitAmount fee)]]
   \<and> tx_input_refs tx = []"
  using create_free_test_coins_transaction_InrD [OF assms]
  by (cases n) (auto simp: ristretto_public_key_bytes_from_bytes_def non_fungible_address_from_public_key_def
      split: if_splits)

lemma create_free_test_coins_instructions_witness:
  "\<exists>tx. create_free_test_coins_transaction example_wallet True ''01'' 1000 1 = Inr tx
     \<and> tx_fee_instructions tx ! 2 = CallFunction (replicate 32 0) ''create_with_bucket''
          [Literal (LitNonFungibleAddress (NonFungibleAddressOfPublicKey (replicate 32 1))),
           Workspace (str_bytes ''free_test_coins'')]
     \<and> length (tx_fee_instructions tx) = 4"
proof -
  obtain acct where a: "account_address example_wallet (public_to_hex (w_keys example_wallet)
      (from_secret_key (w_scheme example_wallet) 1)) = Inr acct"
    using account_address_own_key [OF example_wallet_total] by blast
  have a': "account_address example_wallet (to_hex (replicate 32 1)) = Inr acct"
    using a by (simp add: example_wallet_def example_keys_def echo_scheme_def)
  obtain tx where t: "create_free_test_coins_transaction example_wallet True ''01'' 1000 1 = Inr tx"
    using a' by (simp add: create_free_test_coins_transaction_unfold parse_secret_key_def builder_chain_no_refs_eq
        sign_eq instruction_challenge_eq ristretto_public_key_bytes_from_bytes_def unwrap_def
        example_wallet_def example_keys_def echo_scheme_def)
  have "parse_secret_key example_wallet ''01'' = Inr 1"
    by (simp add: parse_secret_key_def example_wallet_def example_keys_def)
  with create_free_test_coins_instructions [OF t] show ?thesis
    using t by (auto simp: example_wallet_def example_keys_def echo_scheme_def)
qed

text \<open>C24. Error order: a secret key that does not parse is reported first, as MalformedInput of that key, by all three transaction entry points, whatever the other arguments.\<close>

lemma malformed_secret_key_first:
  assumes "secret_from_hex (w_keys W) s = None"
  shows "create_transaction W s is_js rs_js = Inl (MalformedInput s)
    \<and> create_transfer_transaction W s d c r amount fee = Inl (MalformedInput s)
    \<and> create_free_test_coins_transaction W n s amount fee = Inl (MalformedInput s)"
  using assms by (simp add: create_transaction_def create_transfer_transaction_unfold
      create_free_test_coins_transaction_unfold parse_secret_key_def)

lemma malformed_secret_key_first_witness:
  "create_transaction example_wallet ''zz'' None None = Inl (MalformedInput ''zz'')
   \<and> create_transfer_transaction example_wallet ''zz'' ''x'' True ''y'' 1 1 = Inl (MalformedInput ''zz'')
   \<and> create_free_test_coins_transaction example_wallet True ''zz'' 1 1 = Inl (MalformedInput ''zz'')"
  by (rule malformed_secret_key_first) (simp add: example_wallet_def example_keys_def)

text \<open>C28. Amounts are not validated: under total serialisers and signer, if a transfer succeeds for one amount and fee it succeeds for every amount and fee, negative ones included.\<close>

lemma create_transfer_amount_unchecked:
  assumes "wallet_total W" and "create_transfer_transaction W s d c r amount fee = Inr tx"
  shows "\<exists>tx'. create_transfer_transaction W s d c r amount' fee' = Inr tx'"
proof -
  from create_transfer_transaction_InrD [OF assms(2)] obtain sk src dst dpk ra where
    f: "parse_secret_key W s = Inr sk"
    "account_address W (public_to_hex (w_keys W) (from_secret_key (w_scheme W) sk)) = Inr src"
    "account_address W d = Inr dst" "parse_public_key W d = Inr dpk"
    "resource_address_from_str r = Inr ra"
    by blast
  have l: "length (public_as_bytes (w_keys W) dpk) = 32"
    using assms(1) by (simp add: wallet_total_def)
  have g: "\<forall>S. \<exists>sig. sign (w_scheme W) (w_enc_instructions W) (w_H W) sk S = Inr sig"
    using assms(1) sign_total [of "w_enc_instructions W" "w_scheme W"] by (simp add: wallet_total_def)
  show ?thesis by (rule create_transfer_transaction_intro [OF f l g])
qed

lemma create_transfer_amount_unchecked_witness:
  "\<exists>tx'. create_transfer_transaction example_wallet ''01'' (to_hex (replicate 32 5)) True
     (''resource_'' @ to_hex (replicate 32 3)) (- 5) (- 7) = Inr tx'"
proof -
  obtain tx where t: "create_transfer_transaction example_wallet ''01'' (to_hex (replicate 32 5)) True
      (''resource_'' @ to_hex (replicate 32 3)) (- 1) 10 = Inr tx"
    using example_transfer_exists by blast
  show ?thesis by (rule create_transfer_amount_unchecked [OF example_wallet_total t])
qed

text \<open>C26. The entry points agree: the free-test-coins transaction made from a secret key pays its fee from the account whose address get_account_component_address reports for the public key build_ristretto_public_key prints for that secret key.\<close>

lemma free_test_coins_pays_from_reported_account:
  assumes "build_ristretto_public_key W s = Inr p"
    and "create_free_test_coins_transaction W n s amount fee = Inr tx"
  shows "\<exists>acct. get_account_component_address W p = Inr (component_address_to_string acct)
     \<and> last (tx_fee_instructions tx) = CallMethod acct ''pay_fee'' [Literal (LitAmount fee)]"
proof -
  from create_free_test_coins_transaction_InrD [OF assms(2)] obtain sk acct where
    k: "parse_secret_key W s = Inr sk"
    and a: "account_address W (public_to_hex (w_keys W) (from_secret_key (w_scheme W) sk)) = Inr acct"
    and t: "last (tx_fee_instructions tx) = CallMethod acct ''pay_fee'' [Literal (LitAmount fee)]"
    by auto
  from assms(1) k have "p = public_to_hex (w_keys W) (from_secret_key (w_scheme W) sk)"
    by (simp add: build_ristretto_public_key_def)
  with a t show ?thesis by (auto simp: get_account_component_address_def)
qed

lemma free_test_coins_pays_from_reported_account_witness:
  "\<exists>tx acct. build_ristretto_public_key example_wallet ''01'' = Inr (to_hex (replicate 32 1))
     \<and> create_free_test_coins_transaction example_wallet False ''01'' 1000 1 = Inr tx
     \<and> get_account_component_address example_wallet (to_hex (replicate 32 1)) = Inr (component_address_to_string acct)
     \<and> last (tx_fee_instructions tx) = CallMethod acct ''pay_fee'' [Literal (LitAmount 1)]"
proof -
  have p: "build_ristretto_public_key example_wallet ''01'' = Inr (to_hex (replicate 32 1))"
    by (simp add: build_ristretto_public_key_def parse_secret_key_def example_wallet_def example_keys_def
        echo_scheme_def)
  obtain acct where a: "account_address example_wallet (public_to_hex (w_keys example_wallet)
      (from_secret_key (w_scheme example_wallet) 1)) = Inr acct"
    using account_address_own_key [OF example_wallet_total] by blast
  have a': "account_address example_wallet (to_hex (replicate 32 1)) = Inr acct"
    using a by (simp add: example_wallet_def example_keys_def echo_scheme_def)
  obtain tx where t: "create_free_test_coins_transaction example_wallet False ''01'' 1000 1 = Inr tx"
    using a' by (simp add: create_free_test_coins_transaction_unfold parse_secret_key_def builder_chain_no_refs_eq
        sign_eq instruction_challenge_eq example_wallet_def example_keys_def echo_scheme_def)
  show ?thesis using free_test_coins_pays_from_reported_account [OF p t] p t by blast
qed


text \<open>C13. End to end under the concrete encoding: for a binding and correct scheme, the signature of every transaction returned by create_transaction, create_transfer_transaction or create_free_test_coins_transaction verifies no instruction list other than its own unless Blake2b has a collision.\<close>

lemma entry_point_signatures_bind:
  assumes "w_enc_instructions W = instructions_serialiser"
    and "schnorr_binding (w_scheme W)" and "schnorr_correct (w_scheme W)"
    and "create_transaction W s is rs = Inr tx \<or> create_transfer_transaction W s d c r amount fee = Inr tx
      \<or> create_free_test_coins_transaction W n s amount fee = Inr tx"
    and "verify_transaction_signature (w_scheme W) instructions_serialiser (w_H W) (tx_signature tx) S'"
    and "S' \<noteq> tx_fee_instructions tx"
  shows "\<exists>x y. x \<noteq> y \<and> w_H W 32 x = w_H W 32 y"
proof -
  obtain sk where g: "sign (w_scheme W) instructions_serialiser (w_H W) sk (tx_fee_instructions tx) = Inr (tx_signature tx)"
    using entry_points_signed [OF assms(4)] assms(1) by auto
  obtain e e' where e: "instructions_serialiser (tx_fee_instructions tx) = Some e" "instructions_serialiser S' = Some e'"
    and h: "w_H W 32 (dst_bytes TariEngineHashDomain (as_label challenge_label) @ e)
          = w_H W 32 (dst_bytes TariEngineHashDomain (as_label challenge_label) @ e')"
    using assms(2,3) g assms(5) by (rule sign_verify_same_challenge)
  have "e \<noteq> e'" using e assms(6) instructions_serialiser_inj by blast
  with h show ?thesis by (rule digest_collision)
qed

lemma entry_point_signatures_bind_witness:
  "\<exists>x y. x \<noteq> y \<and> (\<lambda>n (xs :: bytes). replicate n (0::u8)) 32 x = (\<lambda>n (xs :: bytes). replicate n (0::u8)) 32 y"
proof -
  let ?W = "example_wallet\<lparr>w_enc_instructions := instructions_serialiser\<rparr>"
  let ?tx = "\<lparr>tx_fee_instructions = [], tx_input_refs = [], tx_signature = \<lparr>ts_public_key = 1, ts_signature = replicate 32 0\<rparr>\<rparr>
     :: (nat, bytes) wallet_transaction"
  have e: "w_enc_instructions ?W = instructions_serialiser" by simp
  have c: "schnorr_correct (w_scheme ?W)" by (simp add: schnorr_correct_def example_wallet_def echo_scheme_def)
  have b: "schnorr_binding (w_scheme ?W)" by (simp add: schnorr_binding_def example_wallet_def echo_scheme_def)
  have t: "create_transaction ?W ''01'' (Some []) (Some []) = Inr ?tx"
    by (simp add: create_transaction_def builder_chain_eq parse_secret_key_def sign_eq instruction_challenge_eq
        example_wallet_def example_keys_def echo_scheme_def instructions_serialiser_def cbor_serialiser_def
        instructions_to_cbor_def)
  have v: "verify_transaction_signature (w_scheme ?W) instructions_serialiser (w_H ?W) (tx_signature ?tx)
      [PutLastInstructionOutputOnWorkspace [1]]"
    by (simp add: verify_transaction_signature_def instruction_challenge_eq example_wallet_def echo_scheme_def
        instructions_serialiser_def cbor_serialiser_def instructions_to_cbor_def cbor_variant_def cbor_struct_def)
  have "\<exists>x y. x \<noteq> y \<and> w_H ?W 32 x = w_H ?W 32 y"
    by (rule entry_point_signatures_bind [OF e b c disjI1 [OF t] v]) simp
  then show ?thesis by (simp add: example_wallet_def)
qed

end
