(* ===== verification/Spec2Isabelle.thy ===== *)
theory Spec2Isabelle
  imports Lib
begin

text \<open>
  A verification development for \<^verbatim>\<open>src/tari_wallet_lib\<close>, the wallet library that derives
  component addresses from public keys and builds signed transactions for the Tari DAN
  engine, compiled to WASM.

  \<^bold>\<open>The program.\<close> \<^verbatim>\<open>hashing.rs\<close> defines the label registry
  \<^verbatim>\<open>EngineHashDomainLabel\<close>, two hash domains, and the canonical hashers
  \<^verbatim>\<open>TariHasher32\<close>/\<^verbatim>\<open>TariHasher64\<close> (Blake2b seeded with a domain separation tag,
  fed with serialised values through a \<^verbatim>\<open>HashWriter\<close>). \<^verbatim>\<open>component.rs\<close> derives a
  component address by hashing a template address and a component id under the label
  \<^verbatim>\<open>ComponentAddress\<close>; the account and account-NFT addresses of a public key use two
  fixed templates. \<^verbatim>\<open>transaction/signature.rs\<close> signs the hash of an instruction
  list. \<^verbatim>\<open>lib.rs\<close> holds the WASM entry points, which parse keys and addresses, assemble
  instruction lists, and drive the transaction builder (\<^verbatim>\<open>with_fee_instructions\<close>,
  \<^verbatim>\<open>with_input_refs\<close>, \<^verbatim>\<open>sign\<close>, \<^verbatim>\<open>build\<close>).

  \<^bold>\<open>The theories\<close>, in import order:
  \<^item> \<open>Prelude\<close>: byte and word types (\<open>u8\<close>, \<open>u32\<close>, \<open>u64\<close>, \<open>i64\<close> as
    \<open>w word\<close>), the \<open>error\<close> datatype and \<open>'a res = error + 'a\<close> for every
    \<^verbatim>\<open>Result\<close> error and panic, \<open>bind_res\<close> for \<^verbatim>\<open>?\<close>, ASCII bytes of strings
    and little-endian integers (\<^verbatim>\<open>to_le_bytes\<close>), with their shared lemmas and the
    collections \<open>stream_simps\<close> and \<open>res_simps\<close>.
  \<^item> \<open>Labels\<close>: \<^verbatim>\<open>EngineHashDomainLabel\<close> and \<^verbatim>\<open>as_label\<close>
    (hashing.rs 139--184), an \<open>enum\<close> instance; the tags are distinct and non-empty.
  \<^item> \<open>DomainSeparation\<close>: the two \<^verbatim>\<open>hash_domain!\<close> declarations and the tag
    writer of tari_crypto (\<open>add_domain_separation_tag\<close>, with its digit loop
    \<open>decimal_loop\<close> as a terminating \<open>function\<close> whose out-of-range index is
    \<open>IndexOutOfBounds\<close>), refined to the abstract tag \<open>dst_bytes\<close>; tags of one
    domain are prefix-free, the two domains' tags never coincide, the length prefix reads
    back the tag's length modulo \<open>2 ^ 64\<close> (exactly, below that bound), and the engine
    tag of the label \<^verbatim>\<open>ComponentAddress\<close> is given as a literal byte vector.
  \<^item> \<open>Encoding\<close>: the two \<^verbatim>\<open>HashWriter\<close>s (hashing.rs 70--83 and 123--136), their
    \<^verbatim>\<open>write\<close> returning an \<open>io_result\<close> and their \<^verbatim>\<open>flush\<close>, the standard library's \<^verbatim>\<open>write_all\<close> loop as a
    \<open>partial_function (option)\<close> over any writer (it returns for writers that are never
    interrupted, returns after one write on the hash writers, and provably never returns on
    a writer that is always interrupted), and \<^verbatim>\<open>encode_into\<close> (write, then flush, as
    ciborium's \<^verbatim>\<open>into_writer\<close> does); serialisers are parameters
    (\<open>'v encoder\<close>), with the CBOR byte-string encoder \<open>cbor_bytes\<close> as a
    self-delimiting instance (decoder round trip).
  \<^item> \<open>Cbor\<close>: tari_bor's encoding in general: CBOR data items (\<open>cbor\<close>), their encoder
    \<open>cbor_encode\<close> (recursion through the element lists), the 64-bit argument range
    \<open>cbor_wf\<close>, a decoder \<open>cbor_decode_items\<close> with fuel for nesting (total by a
    lexicographic measure on fuel and item count), and serialisers \<open>cbor_serialiser\<close>
    built from value-to-item maps. The decoder reads back every well-formed item at any
    fuel above its nesting depth, which is at most its encoded length; so a serialiser with a
    left-inverse item map is self-delimiting, and \<open>cbor_bytes\<close> is the one for
    \<open>CBytes\<close>.
  \<^item> \<open>Hasher\<close>: the hasher records (the bytes Blake2b has absorbed) and every method
    of hashing.rs 13--121; Blake2b is the parameter \<open>H :: nat \<Rightarrow> bytes \<Rightarrow> bytes\<close>
    (output size, input). Lemmas: the absorbed stream of each operation, domain separation,
    order sensitivity of chained updates, digest collisions reduce to collisions of
    \<open>H\<close>, and the 64-byte hasher updates exactly as the 32-byte one.
  \<^item> \<open>Component\<close>: component.rs with \<^verbatim>\<open>Hash::from_hex\<close>; address derivations
    agree only on equal inputs or on a collision, hex printing and parsing are inverse, only
    malformed keys fail, and the account derivation's preimage under CBOR serialisers is a
    literal vector.
  \<^item> \<open>Instruction\<close>: the instruction, argument and literal types lib.rs builds, with
    their serde serialisation as tari_bor writes it (externally tagged enums, struct variants
    as maps of field names, \<^verbatim>\<open>i64\<close> as CBOR integers, literals as encoded bytes) and
    the inverse maps: every serialised list reads back, so the bytes \<^verbatim>\<open>chain\<close> absorbs
    determine the list, and signing with this serialiser binds the list with no serialiser
    hypothesis.
  \<^item> \<open>Signature\<close>: \<^verbatim>\<open>TransactionSignature\<close> and \<^verbatim>\<open>sign\<close>, the Ristretto/Schnorr
    primitives a \<open>schnorr\<close> record of parameters, a verifier from the specification;
    round trip for a correct scheme, tampering exposes a collision for a binding scheme, and
    the exact failure cases.
  \<^item> \<open>Transaction\<close>: the builder (its source is not in the repository, so it follows
    the specification's state machine) with a step function over a \<open>builder_op\<close>
    datatype, an inductive reachability relation and an invariant proved by rule induction:
    every built transaction verifies and carries the signature of its own fee instructions
    (the specification's atomic sign-and-build), signing twice or building unsigned is
    \<open>BuilderMisuse\<close>.
  \<^item> \<open>Lib\<close>: the six entry points of lib.rs, each a chain of \<open>bind_res\<close> in the
    source's order; the library environment is a \<open>wallet\<close> record (scheme, key hex
    codecs, Blake2b, serialisers, and \<open>w_shard_id\<close> for \<^verbatim>\<open>ShardId::from_address\<close>).
    Lemmas: end-to-end verification of transfers, the exact instruction lists and input
    reference of transfers and free-coins transactions in terms of the parsed keys and
    resource, the builder is never misused, transfers succeed on well-formed input, the
    error reported first, amounts are not validated, and the entry points agree on the
    account of a key. Under the instruction serialiser of \<open>Instruction\<close> the
    signature of every transaction an entry point returns binds its instruction list up to
    a Blake2b collision.

  \<^bold>\<open>Assumptions.\<close> Blake2b, the serialisers (tari_bor) and the Ristretto primitives are
  parameters: properties that depend on them say so in their hypotheses
  (\<open>self_delimiting\<close>, \<open>encoder_total\<close>, \<open>schnorr_correct\<close>,
  \<open>schnorr_binding\<close>, \<open>wallet_total\<close>), and security statements conclude that
  \<open>H\<close> has a collision rather than assume it has none. The digit loop of the tag writer
  is a terminating \<open>function\<close> (a \<open>measure\<close> on the byte being divided); the
  standard \<^verbatim>\<open>write_all\<close> loop has no termination argument of its own, so it is a partial
  function whose termination on the hash writers is a theorem. The CBOR decoder, a proof
  device for decodability rather than code the program runs, takes fuel for nesting; its
  fuel \<open>Suc (length bs)\<close> in \<open>cbor_decode\<close> is enough because the nesting depth of
  an item never exceeds the length of its encoding (\<open>cbor_depth_length\<close>).

  \<^bold>\<open>Not modelled.\<close> The Blake2b compression and Ristretto arithmetic (external
  libraries the code only calls: they are parameters, \<open>H\<close> and the \<open>schnorr\<close>
  record); the JavaScript value conversions of serde_wasm_bindgen (I/O at the WASM
  boundary: values are taken already decoded, and \<^verbatim>\<open>to_value\<close> of the built transaction
  is the identity); \<^verbatim>\<open>ShardId::from_address\<close> (shard_id.rs is not in the repository
  and the specification does not give its construction: it is the wallet field
  \<open>w_shard_id\<close>, total because lib.rs calls it without \<^verbatim>\<open>?\<close>, and no lemma
  depends on its value). The modules lib.rs declares but the repository does not contain
  (argument_parser, fee_claim, serde_with, shard_id, substate, template, transaction,
  types) are modelled from the specification and serde's conventions only as far as lib.rs
  uses them: the constructors it builds, byte vectors written as CBOR byte strings.
  Every function and method of the four source files is translated by a definition above;
  nothing more of the program can be modelled without the missing modules.

  The theorem below spans components: the signing challenge and a component address are
  digests under different labels of the same domain.
\<close>

text \<open>C16. Cross-component separation: a signing challenge (label TransactionSignature) and a component address (label ComponentAddress) coincide only through a Blake2b collision, whatever the instruction list, template and component id.\<close>

lemma challenge_address_separation:
  assumes "instruction_challenge enc H S = Inr c"
    and "new_component_address_from_parts encT encH H t cid = Inr (ComponentAddr c)"
  shows "\<exists>x y. x \<noteq> y \<and> H 32 x = H 32 y"
proof -
  obtain e where e: "c = H 32 (dst_bytes TariEngineHashDomain (as_label TransactionSignature) @ e)"
    using assms(1) by (auto simp: instruction_challenge_eq challenge_label_def split: option.splits)
  obtain et ec where a: "c = H 32 (dst_bytes TariEngineHashDomain (as_label ComponentAddress) @ et @ ec)"
    using assms(2) by (auto simp: new_component_address_from_parts_eq component_preimage_def split: option.splits)
  have "dst_bytes TariEngineHashDomain (as_label TransactionSignature) @ e
        \<noteq> dst_bytes TariEngineHashDomain (as_label ComponentAddress) @ et @ ec"
    using engine_tag_separation [of TransactionSignature e ComponentAddress "et @ ec"] by auto
  with e a show ?thesis by metis
qed

lemma challenge_address_separation_witness:
  "\<exists>x y. x \<noteq> y \<and> (\<lambda>n (xs :: bytes). replicate n (0::u8)) 32 x = (\<lambda>n (xs :: bytes). replicate n (0::u8)) 32 y"
proof -
  have c: "instruction_challenge (\<lambda>S :: u8 list. Some S) (\<lambda>n (xs :: bytes). replicate n (0::u8)) [1] = Inr (replicate 32 0)"
    by (simp add: instruction_challenge_eq)
  have a: "new_component_address_from_parts (\<lambda>x. Some x) (\<lambda>x. Some x) (\<lambda>n (xs :: bytes). replicate n (0::u8))
      ACCOUNT_TEMPLATE_ADDRESS [] = Inr (ComponentAddr (replicate 32 0))"
    by (simp add: new_component_address_from_parts_eq)
  show ?thesis by (rule challenge_address_separation [OF c a])
qed

end
